theory Spec2Isabelle
  imports Main
begin

section \<open>JavaScript values used by the edge functions\<close>

text \<open>
  The purchase endpoints and the webhook are Deno functions written in TypeScript. The
  few library operations they rely on are modelled here: \<open>String.prototype.includes\<close>,
  \<open>String.prototype.replace\<close> with a string pattern, truthiness of an optional string,
  \<open>parseInt\<close> and \<open>new Date(n).toISOString()\<close>.

  A timestamp is the number of milliseconds since the epoch: the instant that the
  ISO-8601 text written by \<open>toISOString\<close> denotes.
\<close>

type_synonym timestamp = int

fun starts_with :: "string \<Rightarrow> string \<Rightarrow> bool" where
  "starts_with [] s = True"
| "starts_with (p # ps) [] = False"
| "starts_with (p # ps) (c # cs) = (p = c \<and> starts_with ps cs)"

text \<open>\<open>includes_str s sub\<close> is \<open>s.includes(sub)\<close>.\<close>

fun includes_str :: "string \<Rightarrow> string \<Rightarrow> bool" where
  "includes_str [] sub = (sub = [])"
| "includes_str (c # cs) sub = (starts_with sub (c # cs) \<or> includes_str cs sub)"

text \<open>\<open>replace_first s pat rep\<close> is \<open>s.replace(pat, rep)\<close>: only the first match is replaced.\<close>

fun replace_first :: "string \<Rightarrow> string \<Rightarrow> string \<Rightarrow> string" where
  "replace_first [] pat rep = (if pat = [] then rep else [])"
| "replace_first (c # cs) pat rep =
     (if starts_with pat (c # cs) then rep @ drop (length pat) (c # cs)
      else c # replace_first cs pat rep)"

text \<open>An absent property (\<open>undefined\<close>, \<open>null\<close>) and the empty string are falsy.\<close>

definition truthy :: "string option \<Rightarrow> bool" where
  "truthy v = (case v of None \<Rightarrow> False | Some s \<Rightarrow> s \<noteq> [])"

definition is_space :: "char \<Rightarrow> bool" where
  "is_space c = (c \<in> set [CHR 0x09, CHR 0x0A, CHR 0x0B, CHR 0x0C, CHR 0x0D, CHR 0x20])"

definition digit_of :: "char \<Rightarrow> int option" where
  "digit_of c =
     (let n = (of_char c :: int) in
      if 48 \<le> n \<and> n \<le> 57 then Some (n - 48)
      else if 97 \<le> n \<and> n \<le> 122 then Some (n - 87)
      else if 65 \<le> n \<and> n \<le> 90 then Some (n - 55)
      else None)"

text \<open>The longest prefix of digits that are valid in the radix, as their values.\<close>

fun leading_digits :: "int \<Rightarrow> string \<Rightarrow> int list" where
  "leading_digits radix [] = []"
| "leading_digits radix (c # cs) =
     (case digit_of c of
        None \<Rightarrow> []
      | Some d \<Rightarrow> if d < radix then d # leading_digits radix cs else [])"

text \<open>
  \<open>parseInt(s)\<close> with no radix argument: leading white space is skipped, a sign is read,
  a \<open>0x\<close> prefix selects radix 16, the longest run of digits is converted, and the result
  is \<open>NaN\<close> (here \<open>None\<close>) when there is no digit. Strings are ASCII. The model keeps
  the exact integer; JavaScript rounds it to a double, which changes nothing below
  \<open>2^53\<close> and so nothing within the range of valid dates.
\<close>

definition parseInt :: "string \<Rightarrow> int option" where
  "parseInt s =
     (let t = dropWhile is_space s;
          neg = starts_with ''-'' t;
          u = (if starts_with ''-'' t \<or> starts_with ''+'' t then drop 1 t else t);
          hex = (starts_with ''0x'' u \<or> starts_with ''0X'' u);
          radix = (if hex then 16 else 10);
          ds = leading_digits radix (if hex then drop 2 u else u);
          n = foldl (\<lambda>a d. a * radix + d) 0 ds
      in if ds = [] then None else Some (if neg then - n else n))"

text \<open>\<open>parseInt(v)\<close> of a property that may be absent: \<open>parseInt(undefined)\<close> is \<open>NaN\<close>.\<close>

definition parseInt_of :: "string option \<Rightarrow> int option" where
  "parseInt_of v = (case v of None \<Rightarrow> None | Some s \<Rightarrow> parseInt s)"

section \<open>Errors and responses\<close>

text \<open>
  Every \<open>throw\<close> of the handlers is caught by the handler's own \<open>catch\<close> and becomes an
  HTTP 500 response carrying the message. The messages are the constructors below.
\<close>

datatype error =
    NoAuthorizationHeader
  | UserNotAuthenticated
  | InvalidJson
  | Required string
  | PreviouslyRejected
  | ValidationRequestFailed string
  | ReceiptValidationFailed int
  | TransactionNotFound
  | ProductIdMismatch string "string option"
  | UnknownCreditProduct string
  | FailedToGetProfile
  | FailedToUpdate string
  | NoExpirationDate
  | PurchaseNotValid int
  | GoogleValidationFailed string
  | TypeError
  | InvalidTimeValue

datatype 'a response = Preflight | Ok200 'a | Error500 error

text \<open>
  \<open>new Date(n).toISOString()\<close>: a \<open>NaN\<close> or a value beyond \<open>8.64e15\<close> milliseconds is an
  invalid date, on which \<open>toISOString\<close> throws a \<open>RangeError\<close>.
\<close>

definition toISOString :: "int option \<Rightarrow> error + timestamp" where
  "toISOString n =
     (case n of
        None \<Rightarrow> Inl InvalidTimeValue
      | Some v \<Rightarrow> if \<bar>v\<bar> \<le> 8640000000000000 then Inr v else Inl InvalidTimeValue)"

section \<open>The data model\<close>

type_synonym user_id = string

datatype validation_status = pending | valid | invalid | refunded

datatype product_type = consumable | subscription

text \<open>
  The environment names Apple reports; the ledger's \<open>CHECK\<close> constraint on the column
  admits exactly these two (and \<open>NULL\<close>).
\<close>

datatype apple_environment = Production | Sandbox

text \<open>The entitlement columns of a row of \<open>profiles\<close>.\<close>

record profile =
  room_credits :: "int option"
  subscription_type :: "string option"
  subscription_status :: "string option"
  subscription_expires_at :: "timestamp option"
  updated_at :: "timestamp option"

text \<open>
  A row of \<open>apple_iap_transactions\<close>. The columns \<open>subscription_expires_at\<close> and
  \<open>subscription_auto_renew_status\<close> are \<open>tx_expires_at\<close> and \<open>auto_renew\<close> here.
\<close>

record apple_iap_transaction =
  user_id :: user_id
  transaction_id :: string
  original_transaction_id :: "string option"
  product_id :: string
  product_type :: product_type
  purchase_date :: timestamp
  quantity :: "int option"
  tx_expires_at :: "timestamp option"
  auto_renew :: "bool option"
  receipt_data :: "string option"
  environment :: "apple_environment option"
  validation_status :: validation_status
  processed :: bool
  processed_at :: "timestamp option"

text \<open>A row of \<open>google_play_transactions\<close>.\<close>

record google_play_transaction =
  g_user_id :: user_id
  order_id :: string
  purchase_token :: string
  g_product_id :: string
  g_product_type :: product_type
  g_purchase_date :: timestamp
  g_quantity :: "int option"
  acknowledgement_state :: "int option"
  g_validation_status :: validation_status
  g_processed :: bool
  g_processed_at :: "timestamp option"

text \<open>
  The backing store: the sessions that \<open>auth.getUser\<close> resolves, the profiles by
  primary key, and the two ledgers in order of insertion (\<open>created_at\<close>).
\<close>

record store =
  users :: "string \<rightharpoonup> user_id"
  profiles :: "user_id \<rightharpoonup> profile"
  apple_iap_transactions :: "apple_iap_transaction list"
  google_play_transactions :: "google_play_transaction list"

text \<open>\<open>.single()\<close> yields the row when the query selects exactly one, and \<open>null\<close> otherwise.\<close>

definition single :: "'a list \<Rightarrow> 'a option" where
  "single rows = (case rows of [r] \<Rightarrow> Some r | _ \<Rightarrow> None)"

text \<open>
  A value of an \<open>INTEGER\<close> column (\<open>quantity\<close>, \<open>acknowledgement_state\<close>): \<open>NULL\<close> or a
  signed number of 32 bits. PostgreSQL refuses a row with any other number.
\<close>

definition fits_integer :: "int option \<Rightarrow> bool" where
  "fits_integer v =
     (case v of None \<Rightarrow> True | Some n \<Rightarrow> - 2147483648 \<le> n \<and> n \<le> 2147483647)"

text \<open>
  An insert into a ledger. The table refuses a row whose identifier is already present
  (\<open>UNIQUE\<close>) and a row with a number that does not fit its \<open>INTEGER\<close> column; no
  handler looks at the result of its insert, so a refused row is silently not stored.
  The other columns hold what the handlers give them: the identifiers are texts, the
  checked columns are typed by their admitted values, and a timestamp column holds the
  instant that \<open>toISOString\<close> wrote down. The text of a timestamp is not followed into
  the database: a row counts as stored with that instant also where PostgreSQL would
  not read the text (a year beyond 9999).
\<close>

definition insert_apple :: "apple_iap_transaction \<Rightarrow> store \<Rightarrow> store" where
  "insert_apple row s =
     (if \<not> fits_integer (quantity row)
         \<or> transaction_id row \<in> set (map transaction_id (apple_iap_transactions s))
      then s
      else s\<lparr>apple_iap_transactions := apple_iap_transactions s @ [row]\<rparr>)"

definition insert_google :: "google_play_transaction \<Rightarrow> store \<Rightarrow> store" where
  "insert_google row s =
     (if \<not> fits_integer (g_quantity row) \<or> \<not> fits_integer (acknowledgement_state row)
         \<or> order_id row \<in> set (map order_id (google_play_transactions s))
      then s
      else s\<lparr>google_play_transactions := google_play_transactions s @ [row]\<rparr>)"

text \<open>The lookup that opens every purchase endpoint:
  \<open>select(...).eq("transaction_id", transactionId).single()\<close>.\<close>

definition lookup_apple :: "string \<Rightarrow> store \<Rightarrow> apple_iap_transaction option" where
  "lookup_apple tid s =
     single (filter (\<lambda>r. transaction_id r = tid) (apple_iap_transactions s))"

definition lookup_google :: "string \<Rightarrow> store \<Rightarrow> google_play_transaction option" where
  "lookup_google oid s =
     single (filter (\<lambda>r. order_id r = oid) (google_play_transactions s))"

text \<open>
  \<open>from("profiles").update(...).eq("id", uid)\<close>: the columns of the matching row are
  set; with no such row the statement changes nothing and reports no error.
\<close>

definition update_profile :: "user_id \<Rightarrow> (profile \<Rightarrow> profile) \<Rightarrow> store \<Rightarrow> store" where
  "update_profile uid f s =
     (case profiles s uid of
        None \<Rightarrow> s
      | Some p \<Rightarrow> s\<lparr>profiles := (profiles s)(uid \<mapsto> f p)\<rparr>)"

text \<open>\<open>profile?.room_credits || 0\<close>.\<close>

definition credits_or_zero :: "profile option \<Rightarrow> int" where
  "credits_or_zero p =
     (case p of
        None \<Rightarrow> 0
      | Some q \<Rightarrow> (case room_credits q of None \<Rightarrow> 0 | Some n \<Rightarrow> n))"

section \<open>Apple receipt verification\<close>

datatype verify_url = PRODUCTION_URL | SANDBOX_URL

text \<open>An entry of \<open>receipt.in_app\<close> or of \<open>latest_receipt_info\<close>.\<close>

record purchase =
  p_transaction_id :: "string option"
  p_original_transaction_id :: "string option"
  p_product_id :: "string option"
  purchase_date_ms :: "string option"
  expires_date_ms :: "string option"
  p_quantity :: "string option"

text \<open>
  The body of Apple's reply. \<open>receipt\<close> holds \<open>receipt.in_app\<close> when the reply has a
  receipt; \<open>pending_renewal_info\<close> holds the \<open>auto_renew_status\<close> of each entry.
\<close>

record AppleReceiptResponse =
  status :: int
  receipt :: "purchase list option option"
  latest_receipt_info :: "purchase list option"
  pending_renewal_info :: "string option list option"
  r_environment :: "apple_environment option"

record http_response =
  ok :: bool
  statusText :: string
  json :: AppleReceiptResponse

text \<open>Apple's servers: the reply to a receipt posted to one of the two URLs.\<close>

type_synonym apple_server = "verify_url \<Rightarrow> string \<Rightarrow> http_response"

definition validateReceipt ::
  "apple_server \<Rightarrow> string \<Rightarrow> bool \<Rightarrow> error + AppleReceiptResponse" where
  "validateReceipt fetch receiptData useSandbox =
     (let url = (if useSandbox then SANDBOX_URL else PRODUCTION_URL);
          response = fetch url receiptData
      in if \<not> ok response then Inl (ValidationRequestFailed (statusText response))
         else Inr (json response))"

text \<open>
  \<open>validateWithApple\<close>, returning with its result the URLs it posted the receipt to, in
  order.
\<close>

definition validateWithApple ::
  "apple_server \<Rightarrow> string \<Rightarrow> verify_url list \<times> (error + AppleReceiptResponse)" where
  "validateWithApple fetch receiptData =
     (case validateReceipt fetch receiptData False of
        Inl e \<Rightarrow> ([PRODUCTION_URL], Inl e)
      | Inr result \<Rightarrow>
          if status result = 21007
          then ([PRODUCTION_URL, SANDBOX_URL], validateReceipt fetch receiptData True)
          else ([PRODUCTION_URL], Inr result))"

section \<open>Requests and outcomes\<close>

record request_body =
  receiptData :: "string option"
  purchaseToken :: "string option"
  productId :: "string option"
  transactionId :: "string option"
  orderId :: "string option"

record request =
  http_method :: string
  authorization :: "string option"
  body :: "request_body option"

text \<open>The fields that the handler reads of the purchase that Google Play reports.\<close>

record GooglePlayProductResponse =
  purchaseTimeMillis :: "string option"
  purchaseState :: int
  gp_quantity :: "int option"
  acknowledgementState :: "int option"

text \<open>
  What lies outside the handler during one request: Apple's servers, the result of
  \<open>validatePurchaseToken\<close> for Google Play, the error (if any) with which the store
  refuses the update of the profile, and the server's clock, which every \<open>new Date()\<close>
  of the request reads as the same instant.
\<close>

record world =
  apple :: apple_server
  google :: "error + GooglePlayProductResponse"
  update_error :: "string option"
  now :: timestamp

text \<open>
  The outcome of a request: the response, the store afterwards and the verification
  URLs that were called.
\<close>

record 'a outcome =
  response :: "'a response"
  store_after :: store
  calls :: "verify_url list"

definition respond :: "'a \<Rightarrow> store \<Rightarrow> verify_url list \<Rightarrow> 'a outcome" where
  "respond r s cs = \<lparr>response = Ok200 r, store_after = s, calls = cs\<rparr>"

definition throw :: "error \<Rightarrow> store \<Rightarrow> verify_url list \<Rightarrow> 'a outcome" where
  "throw e s cs = \<lparr>response = Error500 e, store_after = s, calls = cs\<rparr>"

text \<open>Authentication of the caller: the first lines of every purchase endpoint.\<close>

definition authenticate :: "store \<Rightarrow> request \<Rightarrow> error + user_id" where
  "authenticate s req =
     (case authorization req of
        None \<Rightarrow> Inl NoAuthorizationHeader
      | Some authHeader \<Rightarrow>
          if authHeader = [] then Inl NoAuthorizationHeader
          else (case users s (replace_first authHeader ''Bearer '' []) of
                  None \<Rightarrow> Inl UserNotAuthenticated
                | Some user \<Rightarrow> Inr user))"

text \<open>A required field of the body: \<open>if (!field) throw\<close>.\<close>

definition required :: "string \<Rightarrow> string option \<Rightarrow> error + string" where
  "required name v =
     (case v of
        None \<Rightarrow> Inl (Required name)
      | Some x \<Rightarrow> if x = [] then Inl (Required name) else Inr x)"

text \<open>The caller and the three fields of an Apple purchase request.\<close>

definition apple_request ::
  "store \<Rightarrow> request \<Rightarrow> error + (user_id \<times> string \<times> string \<times> string)" where
  "apple_request s req =
     (case authenticate s req of
        Inl e \<Rightarrow> Inl e
      | Inr user \<Rightarrow>
          (case body req of
             None \<Rightarrow> Inl InvalidJson
           | Some b \<Rightarrow>
               (case required ''receiptData'' (receiptData b) of
                  Inl e \<Rightarrow> Inl e
                | Inr rd \<Rightarrow>
                    (case required ''productId'' (productId b) of
                       Inl e \<Rightarrow> Inl e
                     | Inr pid \<Rightarrow>
                         (case required ''transactionId'' (transactionId b) of
                            Inl e \<Rightarrow> Inl e
                          | Inr tid \<Rightarrow> Inr (user, rd, pid, tid))))))"

section \<open>The credits endpoints\<close>

text \<open>The body of a successful response of a credits endpoint.\<close>

datatype credits_body =
    CreditsAdded int int
  | AlreadyProcessed int

text \<open>\<open>v || d\<close> for a number that may be absent or \<open>NaN\<close>: zero is falsy as well.\<close>

definition or_else :: "int option \<Rightarrow> int \<Rightarrow> int" where
  "or_else v d = (case v of None \<Rightarrow> d | Some n \<Rightarrow> if n = 0 then d else n)"

text \<open>
  The credit amount of a product, by substring of its identifier; \<open>None\<close> is the
  \<open>throw\<close> of the final \<open>else\<close>.
\<close>

definition creditAmount :: "string \<Rightarrow> int option" where
  "creditAmount pid =
     (if includes_str pid ''single_credit'' then Some 1
      else if includes_str pid ''credit_pack'' then Some 5
      else None)"

text \<open>
  The \<open>purchase_date\<close> of a valid Apple row: the entry's \<open>purchase_date_ms\<close> when it is
  truthy, the server's clock otherwise.
\<close>

definition purchase_date_of :: "timestamp \<Rightarrow> string option \<Rightarrow> error + timestamp" where
  "purchase_date_of clock ms =
     (if truthy ms then toISOString (parseInt_of ms) else Inr clock)"

text \<open>The row written when Apple rejects the receipt.\<close>

definition apple_invalid_row ::
  "user_id \<Rightarrow> string \<Rightarrow> string \<Rightarrow> product_type \<Rightarrow> timestamp \<Rightarrow> string \<Rightarrow>
   apple_environment option \<Rightarrow> apple_iap_transaction" where
  "apple_invalid_row user tid pid ptype clock rd env =
     \<lparr>user_id = user, transaction_id = tid, original_transaction_id = None,
      product_id = pid, product_type = ptype, purchase_date = clock,
      quantity = Some 1, tx_expires_at = None, auto_renew = None,
      receipt_data = Some rd, environment = env, validation_status = invalid,
      processed = False, processed_at = None\<rparr>"

text \<open>The row written after credits were added.\<close>

definition apple_credit_row ::
  "user_id \<Rightarrow> string \<Rightarrow> string \<Rightarrow> timestamp \<Rightarrow> purchase \<Rightarrow> string \<Rightarrow>
   apple_environment option \<Rightarrow> timestamp \<Rightarrow> apple_iap_transaction" where
  "apple_credit_row user tid pid pdate p rd env clock =
     \<lparr>user_id = user, transaction_id = tid, original_transaction_id = None,
      product_id = pid, product_type = consumable, purchase_date = pdate,
      quantity = Some (or_else (parseInt_of (p_quantity p)) 1),
      tx_expires_at = None, auto_renew = None, receipt_data = Some rd,
      environment = Some (case env of None \<Rightarrow> Production | Some e \<Rightarrow> e),
      validation_status = valid, processed = True, processed_at = Some clock\<rparr>"

text \<open>
  The entry of the receipt for the transaction: \<open>receipt.in_app\<close> first, then
  \<open>latest_receipt_info\<close>.
\<close>

definition find_credit_purchase ::
  "string \<Rightarrow> purchase list option \<Rightarrow> AppleReceiptResponse \<Rightarrow> purchase option" where
  "find_credit_purchase tid in_app validationResult =
     (let inAppPurchases = (case in_app of None \<Rightarrow> [] | Some l \<Rightarrow> l) in
      case find (\<lambda>p. p_transaction_id p = Some tid) inAppPurchases of
        Some p \<Rightarrow> Some p
      | None \<Rightarrow>
          (case latest_receipt_info validationResult of
             None \<Rightarrow> None
           | Some l \<Rightarrow> find (\<lambda>p. p_transaction_id p = Some tid) l))"

text \<open>
  Lines 160 to 221 of the Apple credits endpoint: the credit amount, the
  read-modify-write of \<open>room_credits\<close>, the ledger row, the response.
\<close>

definition apple_add_credits ::
  "world \<Rightarrow> user_id \<Rightarrow> string \<Rightarrow> string \<Rightarrow> string \<Rightarrow> AppleReceiptResponse \<Rightarrow>
   purchase \<Rightarrow> verify_url list \<Rightarrow> store \<Rightarrow> credits_body outcome" where
  "apple_add_credits w user rd pid tid validationResult p cs s =
     (case creditAmount pid of
        None \<Rightarrow> throw (UnknownCreditProduct pid) s cs
      | Some amount \<Rightarrow>
          (case profiles s user of
             None \<Rightarrow> throw FailedToGetProfile s cs
           | Some prof \<Rightarrow>
               (let currentCredits = credits_or_zero (Some prof);
                    newCredits = currentCredits + amount
                in case update_error w of
                     Some m \<Rightarrow> throw (FailedToUpdate m) s cs
                   | None \<Rightarrow>
                       (let s1 = update_profile user
                                   (\<lambda>q. q\<lparr>room_credits := Some newCredits,
                                           updated_at := Some (now w)\<rparr>) s
                        in case purchase_date_of (now w) (purchase_date_ms p) of
                             Inl e \<Rightarrow> throw e s1 cs
                           | Inr pdate \<Rightarrow>
                               respond (CreditsAdded amount newCredits)
                                 (insert_apple
                                    (apple_credit_row user tid pid pdate p rd
                                       (r_environment validationResult) (now w)) s1)
                                 cs))))"

text \<open>Lines 112 to 158: verification, the entry of the receipt, the product check.\<close>

definition apple_credits_validate ::
  "world \<Rightarrow> user_id \<Rightarrow> string \<Rightarrow> string \<Rightarrow> string \<Rightarrow> store \<Rightarrow> credits_body outcome" where
  "apple_credits_validate w user rd pid tid s =
     (case validateWithApple (apple w) rd of
        (cs, Inl e) \<Rightarrow> throw e s cs
      | (cs, Inr validationResult) \<Rightarrow>
          if status validationResult \<noteq> 0
          then throw (ReceiptValidationFailed (status validationResult))
                 (insert_apple
                    (apple_invalid_row user tid pid consumable (now w) rd
                       (r_environment validationResult)) s)
                 cs
          else (case receipt validationResult of
                  None \<Rightarrow> throw TypeError s cs
                | Some in_app \<Rightarrow>
                    (case find_credit_purchase tid in_app validationResult of
                       None \<Rightarrow> throw TransactionNotFound s cs
                     | Some p \<Rightarrow>
                         if p_product_id p \<noteq> Some pid
                         then throw (ProductIdMismatch pid (p_product_id p)) s cs
                         else apple_add_credits w user rd pid tid validationResult p cs s)))"

text \<open>The Apple credits endpoint (\<open>apple-iap-process-credits\<close>).\<close>

definition apple_iap_process_credits ::
  "world \<Rightarrow> request \<Rightarrow> store \<Rightarrow> credits_body outcome" where
  "apple_iap_process_credits w req s =
     (if http_method req = ''OPTIONS''
      then \<lparr>response = Preflight, store_after = s, calls = []\<rparr>
      else case apple_request s req of
             Inl e \<Rightarrow> throw e s []
           | Inr (user, rd, pid, tid) \<Rightarrow>
               (case lookup_apple tid s of
                  Some existingTransaction \<Rightarrow>
                    if validation_status existingTransaction = valid
                    then respond (AlreadyProcessed (credits_or_zero (profiles s user))) s []
                    else throw PreviouslyRejected s []
                | None \<Rightarrow> apple_credits_validate w user rd pid tid s))"

text \<open>The caller and the three fields of a Google purchase request.\<close>

definition google_request ::
  "store \<Rightarrow> request \<Rightarrow> error + (user_id \<times> string \<times> string \<times> string)" where
  "google_request s req =
     (case authenticate s req of
        Inl e \<Rightarrow> Inl e
      | Inr user \<Rightarrow>
          (case body req of
             None \<Rightarrow> Inl InvalidJson
           | Some b \<Rightarrow>
               (case required ''purchaseToken'' (purchaseToken b) of
                  Inl e \<Rightarrow> Inl e
                | Inr tok \<Rightarrow>
                    (case required ''productId'' (productId b) of
                       Inl e \<Rightarrow> Inl e
                     | Inr pid \<Rightarrow>
                         (case required ''orderId'' (orderId b) of
                            Inl e \<Rightarrow> Inl e
                          | Inr oid \<Rightarrow> Inr (user, tok, pid, oid))))))"

definition google_invalid_row ::
  "user_id \<Rightarrow> string \<Rightarrow> string \<Rightarrow> string \<Rightarrow> timestamp \<Rightarrow> google_play_transaction" where
  "google_invalid_row user oid tok pid pdate =
     \<lparr>g_user_id = user, order_id = oid, purchase_token = tok, g_product_id = pid,
      g_product_type = consumable, g_purchase_date = pdate, g_quantity = Some 1,
      acknowledgement_state = Some 0, g_validation_status = invalid,
      g_processed = False, g_processed_at = None\<rparr>"

definition google_credit_row ::
  "user_id \<Rightarrow> string \<Rightarrow> string \<Rightarrow> string \<Rightarrow> timestamp \<Rightarrow> GooglePlayProductResponse \<Rightarrow>
   timestamp \<Rightarrow> google_play_transaction" where
  "google_credit_row user oid tok pid pdate validationResult clock =
     \<lparr>g_user_id = user, order_id = oid, purchase_token = tok, g_product_id = pid,
      g_product_type = consumable, g_purchase_date = pdate,
      g_quantity = Some (or_else (gp_quantity validationResult) 1),
      acknowledgement_state = Some (or_else (acknowledgementState validationResult) 0),
      g_validation_status = valid, g_processed = True, g_processed_at = Some clock\<rparr>"

text \<open>Lines 176 to 239 of the Google credits endpoint.\<close>

definition google_add_credits ::
  "world \<Rightarrow> user_id \<Rightarrow> string \<Rightarrow> string \<Rightarrow> string \<Rightarrow> GooglePlayProductResponse \<Rightarrow>
   store \<Rightarrow> credits_body outcome" where
  "google_add_credits w user tok pid oid validationResult s =
     (case creditAmount pid of
        None \<Rightarrow> throw (UnknownCreditProduct pid) s []
      | Some amount \<Rightarrow>
          (case profiles s user of
             None \<Rightarrow> throw FailedToGetProfile s []
           | Some prof \<Rightarrow>
               (let currentCredits = credits_or_zero (Some prof);
                    newCredits = currentCredits + amount
                in case update_error w of
                     Some m \<Rightarrow> throw (FailedToUpdate m) s []
                   | None \<Rightarrow>
                       (let s1 = update_profile user
                                   (\<lambda>q. q\<lparr>room_credits := Some newCredits,
                                           updated_at := Some (now w)\<rparr>) s
                        in case toISOString (parseInt_of (purchaseTimeMillis validationResult)) of
                             Inl e \<Rightarrow> throw e s1 []
                           | Inr pdate \<Rightarrow>
                               respond (CreditsAdded amount newCredits)
                                 (insert_google
                                    (google_credit_row user oid tok pid pdate
                                       validationResult (now w)) s1)
                                 []))))"

text \<open>
  Lines 156 to 174: the result of \<open>validatePurchaseToken\<close> (the OAuth exchange and the
  call of the Play API are outside the handler) and the check of \<open>purchaseState\<close>.
\<close>

definition google_credits_validate ::
  "world \<Rightarrow> user_id \<Rightarrow> string \<Rightarrow> string \<Rightarrow> string \<Rightarrow> store \<Rightarrow> credits_body outcome" where
  "google_credits_validate w user tok pid oid s =
     (case google w of
        Inl e \<Rightarrow> throw e s []
      | Inr validationResult \<Rightarrow>
          if purchaseState validationResult \<noteq> 0
          then (case toISOString (parseInt_of (purchaseTimeMillis validationResult)) of
                  Inl e \<Rightarrow> throw e s []
                | Inr pdate \<Rightarrow>
                    throw (PurchaseNotValid (purchaseState validationResult))
                      (insert_google (google_invalid_row user oid tok pid pdate) s) [])
          else google_add_credits w user tok pid oid validationResult s)"

text \<open>The Google credits endpoint (\<open>google-iap-process-credits\<close>).\<close>

definition google_iap_process_credits ::
  "world \<Rightarrow> request \<Rightarrow> store \<Rightarrow> credits_body outcome" where
  "google_iap_process_credits w req s =
     (if http_method req = ''OPTIONS''
      then \<lparr>response = Preflight, store_after = s, calls = []\<rparr>
      else case google_request s req of
             Inl e \<Rightarrow> throw e s []
           | Inr (user, tok, pid, oid) \<Rightarrow>
               (case lookup_google oid s of
                  Some existingTransaction \<Rightarrow>
                    if g_validation_status existingTransaction = valid
                    then respond (AlreadyProcessed (credits_or_zero (profiles s user))) s []
                    else throw PreviouslyRejected s []
                | None \<Rightarrow> google_credits_validate w user tok pid oid s))"

section \<open>The subscription endpoints\<close>

text \<open>
  The body of a successful response of a subscription endpoint: the activation with its
  type and expiry, or the caller's profile (which may be \<open>null\<close>) on a replay.
\<close>

datatype subscription_body =
    Activated string timestamp
  | SubscriptionAlreadyProcessed "profile option"

definition subscriptionType_of :: "string \<Rightarrow> string" where
  "subscriptionType_of pid = (if includes_str pid ''monthly'' then ''monthly'' else ''annual'')"

text \<open>\<open>validationResult.pending_renewal_info?.[0]?.auto_renew_status === "1"\<close>.\<close>

definition autoRenewStatus_of :: "string option list option \<Rightarrow> bool" where
  "autoRenewStatus_of info =
     (case info of
        None \<Rightarrow> False
      | Some [] \<Rightarrow> False
      | Some (x # _) \<Rightarrow> x = Some ''1'')"

text \<open>\<open>purchase.original_transaction_id || transactionId\<close>.\<close>

definition originalTransactionId_of :: "purchase \<Rightarrow> string \<Rightarrow> string" where
  "originalTransactionId_of p tid =
     (case p_original_transaction_id p of
        None \<Rightarrow> tid
      | Some orig \<Rightarrow> if orig = [] then tid else orig)"

definition apple_subscription_row ::
  "user_id \<Rightarrow> string \<Rightarrow> string \<Rightarrow> timestamp \<Rightarrow> timestamp \<Rightarrow> purchase \<Rightarrow> string \<Rightarrow>
   AppleReceiptResponse \<Rightarrow> timestamp \<Rightarrow> apple_iap_transaction" where
  "apple_subscription_row user tid pid pdate expires p rd validationResult clock =
     \<lparr>user_id = user, transaction_id = tid,
      original_transaction_id = Some (originalTransactionId_of p tid),
      product_id = pid, product_type = subscription, purchase_date = pdate,
      quantity = Some 1, tx_expires_at = Some expires,
      auto_renew = Some (autoRenewStatus_of (pending_renewal_info validationResult)),
      receipt_data = Some rd,
      environment = Some (case r_environment validationResult of None \<Rightarrow> Production | Some e \<Rightarrow> e),
      validation_status = valid, processed = True, processed_at = Some clock\<rparr>"

text \<open>
  \<open>upsert(row, {onConflict: 'transaction_id'})\<close>: with no row of that identifier the
  row is inserted; otherwise the columns the handler gives (all but \<open>quantity\<close>)
  overwrite those of the existing row. The table refuses the statement as it refuses
  an insert, and the handler does not look at the result.
\<close>

definition upsert_apple :: "apple_iap_transaction \<Rightarrow> store \<Rightarrow> store" where
  "upsert_apple row s =
     (if \<not> fits_integer (quantity row) then s
      else if transaction_id row \<in> set (map transaction_id (apple_iap_transactions s))
      then s\<lparr>apple_iap_transactions :=
               map (\<lambda>r. if transaction_id r = transaction_id row
                         then row\<lparr>quantity := quantity r\<rparr> else r)
                   (apple_iap_transactions s)\<rparr>
      else s\<lparr>apple_iap_transactions := apple_iap_transactions s @ [row]\<rparr>)"

text \<open>
  The entry of the receipt that the first subscription endpoint settles on: an entry of
  \<open>latest_receipt_info\<close> with the transaction identifier, with it as original
  identifier, or that is its own original; else such an entry of \<open>receipt.in_app\<close>;
  else the last entry of \<open>latest_receipt_info\<close>.
\<close>

definition find_subscription_purchase ::
  "string \<Rightarrow> AppleReceiptResponse \<Rightarrow> purchase option" where
  "find_subscription_purchase tid validationResult =
     (let latestReceiptInfo =
            (case latest_receipt_info validationResult of None \<Rightarrow> [] | Some l \<Rightarrow> l);
          first = find (\<lambda>p. p_transaction_id p = Some tid
                            \<or> p_original_transaction_id p = Some tid
                            \<or> p_transaction_id p = p_original_transaction_id p)
                    latestReceiptInfo;
          second = (case first of
                      Some p \<Rightarrow> Some p
                    | None \<Rightarrow>
                        (case receipt validationResult of
                           Some (Some inAppPurchases) \<Rightarrow>
                             find (\<lambda>p. p_transaction_id p = Some tid
                                       \<or> p_original_transaction_id p = Some tid)
                               inAppPurchases
                         | _ \<Rightarrow> None))
      in case second of
           Some p \<Rightarrow> Some p
         | None \<Rightarrow> if latestReceiptInfo \<noteq> [] then Some (last latestReceiptInfo) else None)"

text \<open>
  The activation shared by the two subscription endpoints, from the product check to
  the response; \<open>write\<close> is the endpoint's ledger write (an upsert or an insert).
\<close>

definition activate_subscription ::
  "(apple_iap_transaction \<Rightarrow> store \<Rightarrow> store) \<Rightarrow> world \<Rightarrow> user_id \<Rightarrow> string \<Rightarrow> string \<Rightarrow>
   string \<Rightarrow> AppleReceiptResponse \<Rightarrow> purchase \<Rightarrow> verify_url list \<Rightarrow> store \<Rightarrow>
   subscription_body outcome" where
  "activate_subscription write w user rd pid tid validationResult p cs s =
     (if p_product_id p \<noteq> Some pid
      then throw (ProductIdMismatch pid (p_product_id p)) s cs
      else if \<not> truthy (expires_date_ms p) then throw NoExpirationDate s cs
      else (case toISOString (parseInt_of (expires_date_ms p)) of
              Inl e \<Rightarrow> throw e s cs
            | Inr expires \<Rightarrow>
                (case update_error w of
                   Some m \<Rightarrow> throw (FailedToUpdate m) s cs
                 | None \<Rightarrow>
                     (let s1 = update_profile user
                                 (\<lambda>q. q\<lparr>subscription_type := Some (subscriptionType_of pid),
                                         subscription_status := Some ''active'',
                                         subscription_expires_at := Some expires,
                                         updated_at := Some (now w)\<rparr>) s
                      in case purchase_date_of (now w) (purchase_date_ms p) of
                           Inl e \<Rightarrow> throw e s1 cs
                         | Inr pdate \<Rightarrow>
                             respond (Activated (subscriptionType_of pid) expires)
                               (write (apple_subscription_row user tid pid pdate expires p rd
                                         validationResult (now w)) s1)
                               cs))))"

text \<open>Lines 134 to 265 of the first subscription endpoint.\<close>

definition apple_subscription_validate ::
  "world \<Rightarrow> user_id \<Rightarrow> string \<Rightarrow> string \<Rightarrow> string \<Rightarrow> store \<Rightarrow> subscription_body outcome" where
  "apple_subscription_validate w user rd pid tid s =
     (case validateWithApple (apple w) rd of
        (cs, Inl e) \<Rightarrow> throw e s cs
      | (cs, Inr validationResult) \<Rightarrow>
          if status validationResult \<noteq> 0
          then throw (ReceiptValidationFailed (status validationResult))
                 (insert_apple
                    (apple_invalid_row user tid pid subscription (now w) rd
                       (r_environment validationResult)) s)
                 cs
          else (case find_subscription_purchase tid validationResult of
                  None \<Rightarrow> throw TransactionNotFound s cs
                | Some p \<Rightarrow>
                    activate_subscription upsert_apple w user rd pid tid validationResult p cs s))"

text \<open>\<open>profile?.subscription_status === 'active' && profile?.subscription_expires_at\<close>.\<close>

definition shows_active :: "profile option \<Rightarrow> bool" where
  "shows_active p =
     (case p of
        None \<Rightarrow> False
      | Some q \<Rightarrow> subscription_status q = Some ''active'' \<and> subscription_expires_at q \<noteq> None)"

text \<open>
  The subscription endpoint that validates again when a valid ledger row stands beside
  a profile that shows no active subscription (\<open>src/unnamed/part_004\<close>).
\<close>

definition apple_iap_process_subscription ::
  "world \<Rightarrow> request \<Rightarrow> store \<Rightarrow> subscription_body outcome" where
  "apple_iap_process_subscription w req s =
     (if http_method req = ''OPTIONS''
      then \<lparr>response = Preflight, store_after = s, calls = []\<rparr>
      else case apple_request s req of
             Inl e \<Rightarrow> throw e s []
           | Inr (user, rd, pid, tid) \<Rightarrow>
               (case lookup_apple tid s of
                  Some existingTransaction \<Rightarrow>
                    if validation_status existingTransaction = valid
                    then (if shows_active (profiles s user)
                          then respond (SubscriptionAlreadyProcessed (profiles s user)) s []
                          else apple_subscription_validate w user rd pid tid s)
                    else throw PreviouslyRejected s []
                | None \<Rightarrow> apple_subscription_validate w user rd pid tid s))"

text \<open>
  The other subscription endpoint (\<open>src/unnamed/part_005\<close>): it looks the entry up in
  \<open>latest_receipt_info\<close> only, replays every valid row and inserts its ledger row.
\<close>

definition find_renewal_purchase :: "string \<Rightarrow> AppleReceiptResponse \<Rightarrow> purchase option" where
  "find_renewal_purchase tid validationResult =
     find (\<lambda>p. p_transaction_id p = Some tid \<or> p_original_transaction_id p = Some tid)
       (case latest_receipt_info validationResult of None \<Rightarrow> [] | Some l \<Rightarrow> l)"

definition apple_subscription_validate_simple ::
  "world \<Rightarrow> user_id \<Rightarrow> string \<Rightarrow> string \<Rightarrow> string \<Rightarrow> store \<Rightarrow> subscription_body outcome" where
  "apple_subscription_validate_simple w user rd pid tid s =
     (case validateWithApple (apple w) rd of
        (cs, Inl e) \<Rightarrow> throw e s cs
      | (cs, Inr validationResult) \<Rightarrow>
          if status validationResult \<noteq> 0
          then throw (ReceiptValidationFailed (status validationResult))
                 (insert_apple
                    (apple_invalid_row user tid pid subscription (now w) rd
                       (r_environment validationResult)) s)
                 cs
          else (case find_renewal_purchase tid validationResult of
                  None \<Rightarrow> throw TransactionNotFound s cs
                | Some p \<Rightarrow>
                    activate_subscription insert_apple w user rd pid tid validationResult p cs s))"

definition apple_iap_process_subscription_simple ::
  "world \<Rightarrow> request \<Rightarrow> store \<Rightarrow> subscription_body outcome" where
  "apple_iap_process_subscription_simple w req s =
     (if http_method req = ''OPTIONS''
      then \<lparr>response = Preflight, store_after = s, calls = []\<rparr>
      else case apple_request s req of
             Inl e \<Rightarrow> throw e s []
           | Inr (user, rd, pid, tid) \<Rightarrow>
               (case lookup_apple tid s of
                  Some existingTransaction \<Rightarrow>
                    if validation_status existingTransaction = valid
                    then respond (SubscriptionAlreadyProcessed (profiles s user)) s []
                    else throw PreviouslyRejected s []
                | None \<Rightarrow> apple_subscription_validate_simple w user rd pid tid s))"

section \<open>The lifecycle webhook\<close>

text \<open>
  The notification Apple posts: \<open>data\<close>, the parts of \<open>unified_receipt\<close> the handler
  reads, and the name of the environment.
\<close>

record unified_receipt =
  u_latest_receipt_info :: "purchase list option"
  u_pending_renewal_info :: "string option list option"

record notification =
  notification_type :: "string option"
  data :: "purchase option"
  unified :: "unified_receipt option"
  n_environment :: "string option"

datatype webhook_body = Received

text \<open>\<open>payload.data || payload.unified_receipt?.latest_receipt_info?.[0]\<close>.\<close>

definition notification_data :: "notification \<Rightarrow> purchase option" where
  "notification_data payload =
     (case data payload of
        Some d \<Rightarrow> Some d
      | None \<Rightarrow>
          (case unified payload of
             None \<Rightarrow> None
           | Some u \<Rightarrow>
               (case u_latest_receipt_info u of
                  None \<Rightarrow> None
                | Some [] \<Rightarrow> None
                | Some (d # _) \<Rightarrow> Some d)))"

text \<open>
  The text a filter \<open>.eq(column, value)\<close> compares the column with: the client writes
  the value into the query string, so an absent value is the text \<open>undefined\<close>.
\<close>

definition eq_text :: "string option \<Rightarrow> string" where
  "eq_text v = (case v of None \<Rightarrow> ''undefined'' | Some x \<Rightarrow> x)"

text \<open>
  The owner of a subscription: the most recent ledger row with the notification's
  original transaction identifier.
\<close>

definition find_owner :: "string option \<Rightarrow> store \<Rightarrow> apple_iap_transaction option" where
  "find_owner originalTransactionId s =
     (case filter (\<lambda>r. original_transaction_id r = Some (eq_text originalTransactionId))
             (apple_iap_transactions s) of
        [] \<Rightarrow> None
      | rows \<Rightarrow> Some (last rows))"

text \<open>
  The webhook never looks at the result of a write. A refused update of the profile
  leaves the store as it was.
\<close>

definition try_update_profile ::
  "world \<Rightarrow> user_id \<Rightarrow> (profile \<Rightarrow> profile) \<Rightarrow> store \<Rightarrow> store" where
  "try_update_profile w uid f s =
     (case update_error w of None \<Rightarrow> update_profile uid f s | Some _ \<Rightarrow> s)"

text \<open>
  The row of a renewal. The store refuses it when the transaction identifier is absent
  (\<open>NOT NULL\<close>) or when \<open>payload.environment || 'Production'\<close> is neither of the two
  names the column admits.
\<close>

definition renewal_row ::
  "notification \<Rightarrow> user_id \<Rightarrow> purchase \<Rightarrow> string \<Rightarrow> timestamp \<Rightarrow> timestamp \<Rightarrow>
   apple_iap_transaction option" where
  "renewal_row payload userId d pid expires clock =
     (let name = (case n_environment payload of
                    None \<Rightarrow> ''Production''
                  | Some e \<Rightarrow> if e = [] then ''Production'' else e)
      in case p_transaction_id d of
           None \<Rightarrow> None
         | Some tid \<Rightarrow>
             if name \<noteq> ''Production'' \<and> name \<noteq> ''Sandbox'' then None
             else Some \<lparr>user_id = userId, transaction_id = tid,
                        original_transaction_id = p_original_transaction_id d,
                        product_id = pid, product_type = subscription,
                        purchase_date = clock, quantity = Some 1,
                        tx_expires_at = Some expires, auto_renew = Some True,
                        receipt_data = None,
                        environment = Some (if name = ''Sandbox'' then Sandbox else Production),
                        validation_status = valid, processed = True,
                        processed_at = Some clock\<rparr>)"

text \<open>
  \<open>update({validation_status: 'refunded'}).eq("transaction_id", transactionId)\<close> on the
  ledger.
\<close>

definition mark_refunded :: "string option \<Rightarrow> store \<Rightarrow> store" where
  "mark_refunded tid s =
     s\<lparr>apple_iap_transactions :=
         map (\<lambda>r. if transaction_id r = eq_text tid
                   then r\<lparr>validation_status := refunded\<rparr> else r)
             (apple_iap_transactions s)\<rparr>"

text \<open>The \<open>switch\<close> on the notification type, for the owner \<open>userId\<close>.\<close>

definition handle_notification ::
  "world \<Rightarrow> notification \<Rightarrow> purchase \<Rightarrow> user_id \<Rightarrow> store \<Rightarrow> error + store" where
  "handle_notification w payload d userId s =
     (let notificationType = notification_type payload in
      if notificationType = Some ''DID_RENEW'' \<or> notificationType = Some ''RENEWAL'' then
        (case p_product_id d of
           None \<Rightarrow> Inl TypeError
         | Some pid \<Rightarrow>
             (case toISOString (parseInt_of (expires_date_ms d)) of
                Inl e \<Rightarrow> Inl e
              | Inr expires \<Rightarrow>
                  (let s1 = try_update_profile w userId
                              (\<lambda>q. q\<lparr>subscription_type := Some (subscriptionType_of pid),
                                      subscription_status := Some ''active'',
                                      subscription_expires_at := Some expires,
                                      updated_at := Some (now w)\<rparr>) s
                   in case renewal_row payload userId d pid expires (now w) of
                        None \<Rightarrow> Inr s1
                      | Some row \<Rightarrow> Inr (insert_apple row s1))))
      else if notificationType = Some ''DID_CHANGE_RENEWAL_STATUS''
              \<or> notificationType = Some ''CANCEL'' then
        (if \<not> autoRenewStatus_of
                 (case unified payload of None \<Rightarrow> None | Some u \<Rightarrow> u_pending_renewal_info u)
         then Inr (try_update_profile w userId
                     (\<lambda>q. q\<lparr>subscription_status := Some ''cancelled'',
                             updated_at := Some (now w)\<rparr>) s)
         else Inr s)
      else if notificationType = Some ''DID_FAIL_TO_RENEW'' then
        Inr (try_update_profile w userId
               (\<lambda>q. q\<lparr>subscription_status := Some ''payment_failed'',
                       updated_at := Some (now w)\<rparr>) s)
      else if notificationType = Some ''REFUND'' then
        Inr (try_update_profile w userId
               (\<lambda>q. q\<lparr>subscription_status := Some ''refunded'',
                       subscription_expires_at := Some (now w),
                       updated_at := Some (now w)\<rparr>)
               (mark_refunded (p_transaction_id d) s))
      else if notificationType = Some ''REVOKE'' then
        Inr (try_update_profile w userId
               (\<lambda>q. q\<lparr>subscription_status := Some ''revoked'',
                       subscription_expires_at := Some (now w),
                       updated_at := Some (now w)\<rparr>) s)
      else if notificationType = Some ''DID_RECOVER'' then
        (case toISOString (parseInt_of (expires_date_ms d)) of
           Inl e \<Rightarrow> Inl e
         | Inr expires \<Rightarrow>
             Inr (try_update_profile w userId
                    (\<lambda>q. q\<lparr>subscription_status := Some ''active'',
                            subscription_expires_at := Some expires,
                            updated_at := Some (now w)\<rparr>) s))
      else Inr s)"

text \<open>
  The webhook (\<open>apple-server-notifications\<close>); the request is the parsed body, \<open>None\<close>
  when it is not JSON.
\<close>

definition apple_server_notifications ::
  "world \<Rightarrow> notification option \<Rightarrow> store \<Rightarrow> webhook_body outcome" where
  "apple_server_notifications w req s =
     (case req of
        None \<Rightarrow> throw InvalidJson s []
      | Some payload \<Rightarrow>
          (case notification_data payload of
             None \<Rightarrow> respond Received s []
           | Some d \<Rightarrow>
               (case find_owner (p_original_transaction_id d) s of
                  None \<Rightarrow> respond Received s []
                | Some transaction \<Rightarrow>
                    (case handle_notification w payload d (user_id transaction) s of
                       Inl e \<Rightarrow> throw e s []
                     | Inr s1 \<Rightarrow> respond Received s1 []))))"

text \<open>The notification types the \<open>switch\<close> has a case for.\<close>

definition handled_types :: "string list" where
  "handled_types =
     [''DID_RENEW'', ''RENEWAL'', ''DID_CHANGE_RENEWAL_STATUS'', ''CANCEL'',
      ''DID_FAIL_TO_RENEW'', ''REFUND'', ''REVOKE'', ''DID_RECOVER'']"

section \<open>Histories of requests\<close>

text \<open>
  The handlers run one after the other on the store. An event is one invocation of a
  handler together with what the outside world answers during it.
\<close>

datatype event =
    AppleCredits world request
  | GoogleCredits world request
  | AppleSubscription world request
  | AppleSubscriptionSimple world request
  | Webhook world "notification option"

fun step :: "event \<Rightarrow> store \<Rightarrow> store" where
  "step (AppleCredits w req) s = store_after (apple_iap_process_credits w req s)"
| "step (GoogleCredits w req) s = store_after (google_iap_process_credits w req s)"
| "step (AppleSubscription w req) s = store_after (apple_iap_process_subscription w req s)"
| "step (AppleSubscriptionSimple w req) s =
     store_after (apple_iap_process_subscription_simple w req s)"
| "step (Webhook w req) s = store_after (apple_server_notifications w req s)"

fun run :: "event list \<Rightarrow> store \<Rightarrow> store" where
  "run [] s = s"
| "run (e # es) s = run es (step e s)"

section \<open>Notions used in the statements\<close>

text \<open>The ledger holds a row for the identifier that is marked invalid or refunded.\<close>

definition apple_rejected :: "string \<Rightarrow> store \<Rightarrow> bool" where
  "apple_rejected tid s =
     (case lookup_apple tid s of
        None \<Rightarrow> False
      | Some row \<Rightarrow> validation_status row = invalid \<or> validation_status row = refunded)"

definition google_rejected :: "string \<Rightarrow> store \<Rightarrow> bool" where
  "google_rejected oid s =
     (case lookup_google oid s of
        None \<Rightarrow> False
      | Some row \<Rightarrow> g_validation_status row = invalid \<or> g_validation_status row = refunded)"

text \<open>The \<open>UNIQUE\<close> constraints of the two ledgers.\<close>

definition ledgers_unique :: "store \<Rightarrow> bool" where
  "ledgers_unique s =
     (distinct (map transaction_id (apple_iap_transactions s))
      \<and> distinct (map order_id (google_play_transactions s)))"

text \<open>
  The first subscription endpoint verifies the receipt when the ledger holds no row for
  the transaction, or holds a valid row while the profile shows no active subscription.
\<close>

definition needs_validation :: "string \<Rightarrow> user_id \<Rightarrow> store \<Rightarrow> bool" where
  "needs_validation tid user s =
     (case lookup_apple tid s of
        None \<Rightarrow> True
      | Some row \<Rightarrow> validation_status row = valid \<and> \<not> shows_active (profiles s user))"

text \<open>The rows a ledger holds after a request and did not hold before it.\<close>

definition new_apple_rows :: "store \<Rightarrow> store \<Rightarrow> apple_iap_transaction set" where
  "new_apple_rows s s' = set (apple_iap_transactions s') - set (apple_iap_transactions s)"

definition new_google_rows :: "store \<Rightarrow> store \<Rightarrow> google_play_transaction set" where
  "new_google_rows s s' = set (google_play_transactions s') - set (google_play_transactions s)"

section \<open>Example data\<close>

text \<open>
  Two sessions (tokens \<open>a\<close> and \<open>b\<close> of the users alice and bob), a profile for alice
  with three credits, and empty ledgers.
\<close>

definition example_profile :: "int \<Rightarrow> profile" where
  "example_profile n =
     \<lparr>room_credits = Some n, subscription_type = None, subscription_status = None,
      subscription_expires_at = None, updated_at = None\<rparr>"

definition example_store :: store where
  "example_store =
     \<lparr>users = [''a'' \<mapsto> ''alice'', ''b'' \<mapsto> ''bob''],
      profiles = [''alice'' \<mapsto> example_profile 3],
      apple_iap_transactions = [], google_play_transactions = []\<rparr>"

text \<open>A purchase request of the session \<open>tok\<close> for a product and a transaction.\<close>

definition post :: "string \<Rightarrow> string \<Rightarrow> string \<Rightarrow> request" where
  "post tok pid tid =
     \<lparr>http_method = ''POST'', authorization = Some (''Bearer '' @ tok),
      body = Some \<lparr>receiptData = Some ''R'', purchaseToken = Some ''P'',
                   productId = Some pid, transactionId = Some tid, orderId = Some tid\<rparr>\<rparr>"

definition entry :: "string \<Rightarrow> string \<Rightarrow> string option \<Rightarrow> string option \<Rightarrow> purchase" where
  "entry tid pid pms ems =
     \<lparr>p_transaction_id = Some tid, p_original_transaction_id = Some tid,
      p_product_id = Some pid, purchase_date_ms = pms, expires_date_ms = ems,
      p_quantity = Some ''1''\<rparr>"

definition apple_reply :: "int \<Rightarrow> purchase list \<Rightarrow> http_response" where
  "apple_reply st entries =
     \<lparr>ok = True, statusText = ''OK'',
      json = \<lparr>status = st, receipt = Some (Some entries), latest_receipt_info = Some entries,
              pending_renewal_info = None, r_environment = Some Production\<rparr>\<rparr>"

definition google_reply :: "int \<Rightarrow> string \<Rightarrow> GooglePlayProductResponse" where
  "google_reply st ms =
     \<lparr>purchaseTimeMillis = Some ms, purchaseState = st, gp_quantity = None,
      acknowledgementState = None\<rparr>"

text \<open>
  A world in which Apple's production and sandbox servers give the two replies, Google
  reports a purchase made at 1000, the store accepts updates and the clock shows 5000.
\<close>

definition example_world :: "http_response \<Rightarrow> http_response \<Rightarrow> world" where
  "example_world p_reply s_reply =
     \<lparr>apple = (\<lambda>url rd. case url of PRODUCTION_URL \<Rightarrow> p_reply | SANDBOX_URL \<Rightarrow> s_reply),
      google = Inr (google_reply 0 ''1000''), update_error = None, now = 5000\<rparr>"

text \<open>Apple verifies a receipt that holds the single-credit purchase \<open>T1\<close>.\<close>

definition single_credit_world :: world where
  "single_credit_world =
     example_world (apple_reply 0 [entry ''T1'' ''single_credit'' (Some ''1000'') None])
       (apple_reply 0 [])"

text \<open>
  The example store after alice bought \<open>T1\<close> on both platforms: each ledger holds her
  valid row.
\<close>

definition purchased_store :: store where
  "purchased_store =
     example_store
       \<lparr>apple_iap_transactions :=
          [apple_credit_row ''alice'' ''T1'' ''single_credit'' 1000
             (entry ''T1'' ''single_credit'' (Some ''1000'') None) ''R'' (Some Production) 5000],
        google_play_transactions :=
          [google_credit_row ''alice'' ''T1'' ''P'' ''single_credit'' 1000
             (google_reply 0 ''1000'') 5000]\<rparr>"

text \<open>Apple's production server answers 21007 and its sandbox server rejects the receipt.\<close>

definition sandbox_world :: world where
  "sandbox_world = example_world (apple_reply 21007 []) (apple_reply 21002 [])"

text \<open>Apple verifies a receipt for a product that is no credit product.\<close>

definition gems_world :: world where
  "gems_world =
     example_world (apple_reply 0 [entry ''T1'' ''gems'' (Some ''1000'') None]) (apple_reply 0 [])"

text \<open>Apple verifies a receipt that holds the credit-pack purchase \<open>T1\<close>.\<close>

definition pack_world :: world where
  "pack_world =
     example_world (apple_reply 0 [entry ''T1'' ''credit_pack'' (Some ''1000'') None])
       (apple_reply 0 [])"

text \<open>
  Apple verifies a receipt that holds the monthly subscription \<open>T1\<close>, which expires at
  99000.
\<close>

definition subscription_world :: world where
  "subscription_world =
     example_world (apple_reply 0 [entry ''T1'' ''monthly'' None (Some ''99000'')])
       (apple_reply 0 [])"

text \<open>A valid ledger row for \<open>T1\<close> that was written with the expiry 10.\<close>

definition stale_row :: apple_iap_transaction where
  "stale_row =
     apple_subscription_row ''alice'' ''T1'' ''monthly'' 1000 10
       (entry ''T1'' ''monthly'' None (Some ''10'')) ''R''
       (json (apple_reply 0 [])) 1000"

text \<open>The row stands in the ledger while alice's profile shows no subscription.\<close>

definition zombie_store :: store where
  "zombie_store = example_store\<lparr>apple_iap_transactions := [stale_row]\<rparr>"

text \<open>The same ledger, with alice's profile showing an active subscription.\<close>

definition active_store :: store where
  "active_store =
     zombie_store
       \<lparr>profiles := [''alice'' \<mapsto> (example_profile 3)
           \<lparr>subscription_status := Some ''active'', subscription_expires_at := Some 10\<rparr>]\<rparr>"

text \<open>
  A notification of the given type for the subscription with the given original
  transaction identifier.
\<close>

definition renewal_notice :: "string \<Rightarrow> string \<Rightarrow> notification" where
  "renewal_notice ty orig =
     \<lparr>notification_type = Some ty,
      data = Some \<lparr>p_transaction_id = Some ''T2'', p_original_transaction_id = Some orig,
                   p_product_id = Some ''monthly'', purchase_date_ms = Some ''1000'',
                   expires_date_ms = Some ''99000'', p_quantity = Some ''1''\<rparr>,
      unified = None, n_environment = Some ''Sandbox''\<rparr>"

text \<open>Apple verifies a receipt whose entry carries no \<open>purchase_date_ms\<close>.\<close>

definition undated_world :: world where
  "undated_world =
     example_world (apple_reply 0 [entry ''T1'' ''single_credit'' None None]) (apple_reply 0 [])"

text \<open>Both ledgers hold an invalid row for \<open>T1\<close>.\<close>

definition rejected_store :: store where
  "rejected_store =
     example_store
       \<lparr>apple_iap_transactions :=
          [apple_invalid_row ''alice'' ''T1'' ''single_credit'' consumable 5000 ''R''
             (Some Production)],
        google_play_transactions :=
          [google_invalid_row ''alice'' ''T1'' ''P'' ''single_credit'' 1000]\<rparr>"

text \<open>
  Apple verifies a receipt whose entry for \<open>T1\<close> reports the quantity 2147483648, one
  more than an \<open>INTEGER\<close> column holds.
\<close>

definition overflow_world :: world where
  "overflow_world =
     example_world
       (apple_reply 0
          [(entry ''T1'' ''single_credit'' (Some ''1000'') None)\<lparr>p_quantity := Some ''2147483648''\<rparr>])
       (apple_reply 0 [])"

text \<open>
  Apple verifies a receipt whose entry for \<open>T1\<close> is dated one millisecond beyond the
  range of a \<open>Date\<close>.
\<close>

definition undatable_world :: world where
  "undatable_world =
     example_world
       (apple_reply 0 [entry ''T1'' ''single_credit'' (Some ''8640000000000001'') None])
       (apple_reply 0 [])"

text \<open>
  The store after alice bought \<open>T1\<close>, with a profile of seven credits for bob and a
  profile without a number of credits for carol (token \<open>c\<close>).
\<close>

definition shared_store :: store where
  "shared_store =
     purchased_store
       \<lparr>users := (users purchased_store)(''c'' \<mapsto> ''carol''),
        profiles := (profiles purchased_store)
          (''bob'' \<mapsto> example_profile 7,
           ''carol'' \<mapsto> (example_profile 0)\<lparr>room_credits := None\<rparr>)\<rparr>"

section \<open>Strings\<close>

lemma starts_with_iff: "starts_with p s \<longleftrightarrow> (\<exists>suf. s = p @ suf)"
  by (induction p s rule: starts_with.induct) auto

lemma includes_str_iff: "includes_str s sub \<longleftrightarrow> (\<exists>pre suf. s = pre @ sub @ suf)"
proof (induction s)
  case Nil
  then show ?case by auto
next
  case (Cons c cs)
  show ?case
  proof
    assume "includes_str (c # cs) sub"
    then consider "starts_with sub (c # cs)" | "includes_str cs sub" by auto
    then show "\<exists>pre suf. c # cs = pre @ sub @ suf"
    proof cases
      case 1
      then obtain suf where "c # cs = sub @ suf" by (auto simp: starts_with_iff)
      then have "c # cs = [] @ sub @ suf" by simp
      then show ?thesis by blast
    next
      case 2
      with Cons obtain pre suf where "cs = pre @ sub @ suf" by auto
      then have "c # cs = (c # pre) @ sub @ suf" by simp
      then show ?thesis by blast
    qed
  next
    assume "\<exists>pre suf. c # cs = pre @ sub @ suf"
    then obtain pre suf where eq: "c # cs = pre @ sub @ suf" by blast
    show "includes_str (c # cs) sub"
    proof (cases pre)
      case Nil
      with eq have "starts_with sub (c # cs)" by (auto simp: starts_with_iff)
      then show ?thesis by simp
    next
      case (Cons a pre')
      with eq have "cs = pre' @ sub @ suf" by simp
      with Cons.IH have "includes_str cs sub" by blast
      then show ?thesis by simp
    qed
  qed
qed

text \<open>\<open>parseInt\<close> on a timestamp, on trailing text, on a signed hexadecimal, and on no digits.\<close>

lemma parseInt_examples:
  "parseInt ''1700000000000'' = Some 1700000000000"
  "parseInt ''12abc'' = Some 12"
  "parseInt '' -0x1F'' = Some (- 31)"
  "parseInt ''abc'' = None"
  "parseInt [] = None"
  by (simp_all add: parseInt_def is_space_def digit_of_def)

section \<open>Outcomes and frames\<close>

lemma throw_sel [simp]:
  "response (throw e s cs) = Error500 e"
  "store_after (throw e s cs) = s"
  "calls (throw e s cs) = cs"
  by (simp_all add: throw_def)

lemma respond_sel [simp]:
  "response (respond b s cs) = Ok200 b"
  "store_after (respond b s cs) = s"
  "calls (respond b s cs) = cs"
  by (simp_all add: respond_def)

lemma insert_apple_frame [simp]:
  "users (insert_apple row s) = users s"
  "profiles (insert_apple row s) = profiles s"
  "google_play_transactions (insert_apple row s) = google_play_transactions s"
  by (simp_all add: insert_apple_def)

lemma insert_google_frame [simp]:
  "users (insert_google row s) = users s"
  "profiles (insert_google row s) = profiles s"
  "apple_iap_transactions (insert_google row s) = apple_iap_transactions s"
  by (simp_all add: insert_google_def)

lemma upsert_apple_frame [simp]:
  "users (upsert_apple row s) = users s"
  "profiles (upsert_apple row s) = profiles s"
  "google_play_transactions (upsert_apple row s) = google_play_transactions s"
  by (simp_all add: upsert_apple_def)

lemma update_profile_frame [simp]:
  "users (update_profile uid f s) = users s"
  "apple_iap_transactions (update_profile uid f s) = apple_iap_transactions s"
  "google_play_transactions (update_profile uid f s) = google_play_transactions s"
  by (simp_all add: update_profile_def split: option.splits)

lemma update_profile_at:
  "profiles s uid = Some p \<Longrightarrow> profiles (update_profile uid f s) uid = Some (f p)"
  by (simp add: update_profile_def)

lemma authenticate_users: "users s' = users s \<Longrightarrow> authenticate s' req = authenticate s req"
  by (simp add: authenticate_def split: option.splits)

lemma apple_request_users: "users s' = users s \<Longrightarrow> apple_request s' req = apple_request s req"
  using authenticate_users [of s' s req] by (simp add: apple_request_def)

lemma google_request_users: "users s' = users s \<Longrightarrow> google_request s' req = google_request s req"
  using authenticate_users [of s' s req] by (simp add: google_request_def)

section \<open>Rows that fit the table\<close>

text \<open>
  The rows without a number from outside (the row of a rejected receipt, the row of a
  subscription) fit the \<open>INTEGER\<close> columns; so do the rows of the example data.
\<close>

lemma parse_1 [simp]: "parseInt ''1'' = Some 1"
  by (simp add: parseInt_def is_space_def digit_of_def)

lemma fits_rows [simp]:
  "fits_integer (quantity (apple_invalid_row user tid pid ty clock rd env))"
  "fits_integer (quantity (apple_subscription_row user tid pid pdate e p rd vr clock))"
  "fits_integer (g_quantity (google_invalid_row user oid tok pid pdate))"
  "fits_integer (acknowledgement_state (google_invalid_row user oid tok pid pdate))"
  "fits_integer (quantity (apple_credit_row user tid pid pdate (entry t i pms ems) rd env clock))"
  "fits_integer (g_quantity (google_credit_row user oid tok pid pdate (google_reply st ms) clock))"
  "fits_integer
     (acknowledgement_state (google_credit_row user oid tok pid pdate (google_reply st ms) clock))"
  by (simp_all add: fits_integer_def apple_invalid_row_def apple_subscription_row_def
      google_invalid_row_def apple_credit_row_def google_credit_row_def entry_def google_reply_def
      parseInt_of_def or_else_def)

section \<open>The paths of the credits endpoints\<close>

lemma apple_credits_replay:
  assumes "http_method req \<noteq> ''OPTIONS''" and "apple_request s req = Inr (user, rd, pid, tid)"
    and "lookup_apple tid s = Some row" and "validation_status row = valid"
  shows "apple_iap_process_credits w req s =
           respond (AlreadyProcessed (credits_or_zero (profiles s user))) s []"
  using assms by (simp add: apple_iap_process_credits_def)

lemma google_credits_replay:
  assumes "http_method req \<noteq> ''OPTIONS''" and "google_request s req = Inr (user, tok, pid, oid)"
    and "lookup_google oid s = Some row" and "g_validation_status row = valid"
  shows "google_iap_process_credits w req s =
           respond (AlreadyProcessed (credits_or_zero (profiles s user))) s []"
  using assms by (simp add: google_iap_process_credits_def)

lemma apple_credits_fresh:
  assumes "http_method req \<noteq> ''OPTIONS''" and "apple_request s req = Inr (user, rd, pid, tid)"
    and "lookup_apple tid s = None"
  shows "apple_iap_process_credits w req s = apple_credits_validate w user rd pid tid s"
  using assms by (simp add: apple_iap_process_credits_def)

lemma google_credits_fresh:
  assumes "http_method req \<noteq> ''OPTIONS''" and "google_request s req = Inr (user, tok, pid, oid)"
    and "lookup_google oid s = None"
  shows "google_iap_process_credits w req s = google_credits_validate w user tok pid oid s"
  using assms by (simp add: google_iap_process_credits_def)

text \<open>A successful response of the Apple credits endpoint comes from one of two paths.\<close>

lemma apple_credits_success:
  assumes "response (apple_iap_process_credits w req s) = Ok200 b"
  obtains (replay) user rd pid tid row where
      "http_method req \<noteq> ''OPTIONS''" "apple_request s req = Inr (user, rd, pid, tid)"
      "lookup_apple tid s = Some row" "validation_status row = valid"
  | (fresh) user rd pid tid where
      "http_method req \<noteq> ''OPTIONS''" "apple_request s req = Inr (user, rd, pid, tid)"
      "lookup_apple tid s = None"
  using assms
  by (auto simp: apple_iap_process_credits_def split: if_splits sum.splits option.splits)

lemma google_credits_success:
  assumes "response (google_iap_process_credits w req s) = Ok200 b"
  obtains (replay) user tok pid oid row where
      "http_method req \<noteq> ''OPTIONS''" "google_request s req = Inr (user, tok, pid, oid)"
      "lookup_google oid s = Some row" "g_validation_status row = valid"
  | (fresh) user tok pid oid where
      "http_method req \<noteq> ''OPTIONS''" "google_request s req = Inr (user, tok, pid, oid)"
      "lookup_google oid s = None"
  using assms
  by (auto simp: google_iap_process_credits_def split: if_splits sum.splits option.splits)

text \<open>What a successful addition of credits did.\<close>

lemma apple_add_credits_success:
  assumes "response (apple_add_credits w user rd pid tid vr p cs s) = Ok200 b"
  obtains amount prof pdate where
    "creditAmount pid = Some amount" "profiles s user = Some prof" "update_error w = None"
    "purchase_date_of (now w) (purchase_date_ms p) = Inr pdate"
    "b = CreditsAdded amount (credits_or_zero (Some prof) + amount)"
    "store_after (apple_add_credits w user rd pid tid vr p cs s) =
       insert_apple (apple_credit_row user tid pid pdate p rd (r_environment vr) (now w))
         (update_profile user
            (\<lambda>q. q\<lparr>room_credits := Some (credits_or_zero (Some prof) + amount),
                    updated_at := Some (now w)\<rparr>) s)"
  using assms
  by (auto simp: apple_add_credits_def Let_def split: option.splits sum.splits)

lemma apple_credits_validate_success:
  assumes "response (apple_credits_validate w user rd pid tid s) = Ok200 b"
  obtains cs vr in_app p where
    "validateWithApple (apple w) rd = (cs, Inr vr)" "status vr = 0"
    "receipt vr = Some in_app" "find_credit_purchase tid in_app vr = Some p"
    "p_product_id p = Some pid"
    "apple_credits_validate w user rd pid tid s =
       apple_add_credits w user rd pid tid vr p cs s"
  using assms
  by (auto simp: apple_credits_validate_def split: prod.splits sum.splits option.splits if_splits)

lemma google_add_credits_success:
  assumes "response (google_add_credits w user tok pid oid vr s) = Ok200 b"
  obtains amount prof pdate where
    "creditAmount pid = Some amount" "profiles s user = Some prof" "update_error w = None"
    "toISOString (parseInt_of (purchaseTimeMillis vr)) = Inr pdate"
    "b = CreditsAdded amount (credits_or_zero (Some prof) + amount)"
    "store_after (google_add_credits w user tok pid oid vr s) =
       insert_google (google_credit_row user oid tok pid pdate vr (now w))
         (update_profile user
            (\<lambda>q. q\<lparr>room_credits := Some (credits_or_zero (Some prof) + amount),
                    updated_at := Some (now w)\<rparr>) s)"
  using assms
  by (auto simp: google_add_credits_def Let_def split: option.splits sum.splits)

lemma google_credits_validate_success:
  assumes "response (google_credits_validate w user tok pid oid s) = Ok200 b"
  obtains vr where
    "google w = Inr vr" "purchaseState vr = 0"
    "google_credits_validate w user tok pid oid s = google_add_credits w user tok pid oid vr s"
  using assms
  by (auto simp: google_credits_validate_def split: sum.splits if_splits)

lemma credit_rows_valid [simp]:
  "validation_status (apple_credit_row user tid pid pdate p rd env clock) = valid"
  "transaction_id (apple_credit_row user tid pid pdate p rd env clock) = tid"
  "g_validation_status (google_credit_row user oid tok pid pdate vr clock) = valid"
  "order_id (google_credit_row user oid tok pid pdate vr clock) = oid"
  by (simp_all add: apple_credit_row_def google_credit_row_def)

section \<open>Evaluation of the example data\<close>

lemma strip_bearer: "replace_first (''Bearer '' @ tok) ''Bearer '' [] = tok"
  by simp

lemma post_apple_request:
  "users s tok = Some u \<Longrightarrow> pid \<noteq> [] \<Longrightarrow> tid \<noteq> [] \<Longrightarrow>
   apple_request s (post tok pid tid) = Inr (u, ''R'', pid, tid)"
  by (simp add: apple_request_def authenticate_def required_def post_def)

lemma post_google_request:
  "users s tok = Some u \<Longrightarrow> pid \<noteq> [] \<Longrightarrow> tid \<noteq> [] \<Longrightarrow>
   google_request s (post tok pid tid) = Inr (u, ''P'', pid, tid)"
  by (simp add: google_request_def authenticate_def required_def post_def)

lemma post_method [simp]: "http_method (post tok pid tid) \<noteq> ''OPTIONS''"
  by (simp add: post_def)

lemma parse_1000 [simp]: "parseInt ''1000'' = Some 1000"
  by (simp add: parseInt_def is_space_def digit_of_def)

lemma example_store_sel [simp]:
  "users example_store ''a'' = Some ''alice''"
  "users example_store ''b'' = Some ''bob''"
  "profiles example_store ''alice'' = Some (example_profile 3)"
  "profiles example_store ''bob'' = None"
  "apple_iap_transactions example_store = []"
  "google_play_transactions example_store = []"
  by (simp_all add: example_store_def)

lemma example_world_sel [simp]:
  "apple (example_world p q) PRODUCTION_URL rd = p"
  "apple (example_world p q) SANDBOX_URL rd = q"
  "google (example_world p q) = Inr (google_reply 0 ''1000'')"
  "update_error (example_world p q) = None"
  "now (example_world p q) = 5000"
  by (simp_all add: example_world_def)

section \<open>The replay path\<close>

text \<open>
  Claim C10 (the replay path checks no owner). When the ledger holds a valid row for
  the submitted transaction or order identifier, the credits endpoint answers success
  with the caller's own \<open>room_credits\<close> and changes nothing: the answer carries the
  number \<open>n\<close> that the caller's profile holds, and zero when the caller has no profile
  or the profile holds no number. Nothing is assumed about the \<open>user_id\<close> of the row:
  it may be another user's.
\<close>

theorem credits_replay_any_owner:
  "(http_method req \<noteq> ''OPTIONS'' \<and> apple_request s req = Inr (user, rd, pid, tid)
      \<and> lookup_apple tid s = Some row \<and> validation_status row = valid
    \<longrightarrow> apple_iap_process_credits w req s =
          respond (AlreadyProcessed (credits_or_zero (profiles s user))) s []
        \<and> (profiles s user = None
           \<longrightarrow> response (apple_iap_process_credits w req s) = Ok200 (AlreadyProcessed 0))
        \<and> (profiles s user = Some q \<and> room_credits q = None
           \<longrightarrow> response (apple_iap_process_credits w req s) = Ok200 (AlreadyProcessed 0))
        \<and> (profiles s user = Some q \<and> room_credits q = Some n
           \<longrightarrow> response (apple_iap_process_credits w req s) = Ok200 (AlreadyProcessed n)))
   \<and> (http_method req \<noteq> ''OPTIONS'' \<and> google_request s req = Inr (user, tok, pid, oid)
      \<and> lookup_google oid s = Some grow \<and> g_validation_status grow = valid
    \<longrightarrow> google_iap_process_credits w req s =
          respond (AlreadyProcessed (credits_or_zero (profiles s user))) s []
        \<and> (profiles s user = None
           \<longrightarrow> response (google_iap_process_credits w req s) = Ok200 (AlreadyProcessed 0))
        \<and> (profiles s user = Some q \<and> room_credits q = None
           \<longrightarrow> response (google_iap_process_credits w req s) = Ok200 (AlreadyProcessed 0))
        \<and> (profiles s user = Some q \<and> room_credits q = Some n
           \<longrightarrow> response (google_iap_process_credits w req s) = Ok200 (AlreadyProcessed n)))"
proof (intro conjI impI; elim conjE)
  assume h: "http_method req \<noteq> ''OPTIONS''" "apple_request s req = Inr (user, rd, pid, tid)"
    "lookup_apple tid s = Some row" "validation_status row = valid"
  then show eq: "apple_iap_process_credits w req s =
      respond (AlreadyProcessed (credits_or_zero (profiles s user))) s []"
    by (rule apple_credits_replay)
  {
    assume "profiles s user = None"
    then show "response (apple_iap_process_credits w req s) = Ok200 (AlreadyProcessed 0)"
      by (simp add: eq credits_or_zero_def)
  }
  {
    assume "profiles s user = Some q" "room_credits q = None"
    then show "response (apple_iap_process_credits w req s) = Ok200 (AlreadyProcessed 0)"
      by (simp add: eq credits_or_zero_def)
  }
  {
    assume "profiles s user = Some q" "room_credits q = Some n"
    then show "response (apple_iap_process_credits w req s) = Ok200 (AlreadyProcessed n)"
      by (simp add: eq credits_or_zero_def)
  }
next
  assume h: "http_method req \<noteq> ''OPTIONS''" "google_request s req = Inr (user, tok, pid, oid)"
    "lookup_google oid s = Some grow" "g_validation_status grow = valid"
  then show eq: "google_iap_process_credits w req s =
      respond (AlreadyProcessed (credits_or_zero (profiles s user))) s []"
    by (rule google_credits_replay)
  {
    assume "profiles s user = None"
    then show "response (google_iap_process_credits w req s) = Ok200 (AlreadyProcessed 0)"
      by (simp add: eq credits_or_zero_def)
  }
  {
    assume "profiles s user = Some q" "room_credits q = None"
    then show "response (google_iap_process_credits w req s) = Ok200 (AlreadyProcessed 0)"
      by (simp add: eq credits_or_zero_def)
  }
  {
    assume "profiles s user = Some q" "room_credits q = Some n"
    then show "response (google_iap_process_credits w req s) = Ok200 (AlreadyProcessed n)"
      by (simp add: eq credits_or_zero_def)
  }
qed

lemma purchased_store_sel [simp]:
  "users purchased_store = users example_store"
  "profiles purchased_store = profiles example_store"
  "lookup_apple ''T1'' purchased_store =
     Some (apple_credit_row ''alice'' ''T1'' ''single_credit'' 1000
             (entry ''T1'' ''single_credit'' (Some ''1000'') None) ''R'' (Some Production) 5000)"
  "lookup_google ''T1'' purchased_store =
     Some (google_credit_row ''alice'' ''T1'' ''P'' ''single_credit'' 1000
             (google_reply 0 ''1000'') 5000)"
  by (simp_all add: purchased_store_def lookup_apple_def lookup_google_def single_def)

lemma shared_store_sel [simp]:
  "users shared_store ''b'' = Some ''bob''"
  "users shared_store ''c'' = Some ''carol''"
  "profiles shared_store ''bob'' = Some (example_profile 7)"
  "profiles shared_store ''carol'' = Some ((example_profile 0)\<lparr>room_credits := None\<rparr>)"
  "lookup_apple ''T1'' shared_store = lookup_apple ''T1'' purchased_store"
  "lookup_google ''T1'' shared_store = lookup_google ''T1'' purchased_store"
  by (simp_all add: shared_store_def lookup_apple_def lookup_google_def)

text \<open>
  The theorem at the row of alice's purchase \<open>T1\<close>, submitted again by three other
  callers: bob, whose profile holds seven credits, is answered 7; carol, whose profile
  holds no number, and bob before he had a profile are answered 0. The store stays as
  it is, and bob's seven credits are none of the purchase's.
\<close>

theorem credits_replay_any_owner_witness:
  "map user_id (apple_iap_transactions shared_store) = [''alice'']
   \<and> map g_user_id (google_play_transactions shared_store) = [''alice'']
   \<and> apple_iap_process_credits single_credit_world (post ''b'' ''single_credit'' ''T1'')
        shared_store = respond (AlreadyProcessed 7) shared_store []
   \<and> google_iap_process_credits single_credit_world (post ''b'' ''single_credit'' ''T1'')
        shared_store = respond (AlreadyProcessed 7) shared_store []
   \<and> response (apple_iap_process_credits single_credit_world (post ''c'' ''single_credit'' ''T1'')
        shared_store) = Ok200 (AlreadyProcessed 0)
   \<and> response (google_iap_process_credits single_credit_world (post ''c'' ''single_credit'' ''T1'')
        shared_store) = Ok200 (AlreadyProcessed 0)
   \<and> response (apple_iap_process_credits single_credit_world (post ''b'' ''single_credit'' ''T1'')
        purchased_store) = Ok200 (AlreadyProcessed 0)
   \<and> response (google_iap_process_credits single_credit_world (post ''b'' ''single_credit'' ''T1'')
        purchased_store) = Ok200 (AlreadyProcessed 0)"
proof -
  let ?b = "post ''b'' ''single_credit'' ''T1''"
  let ?c = "post ''c'' ''single_credit'' ''T1''"
  let ?w = single_credit_world
  let ?row = "apple_credit_row ''alice'' ''T1'' ''single_credit'' 1000
             (entry ''T1'' ''single_credit'' (Some ''1000'') None) ''R'' (Some Production) 5000"
  let ?grow = "google_credit_row ''alice'' ''T1'' ''P'' ''single_credit'' 1000
             (google_reply 0 ''1000'') 5000"
  let ?nil = "(example_profile 0)\<lparr>room_credits := None\<rparr>"
  have ab: "http_method ?b \<noteq> ''OPTIONS''
      \<and> apple_request shared_store ?b = Inr (''bob'', ''R'', ''single_credit'', ''T1'')
      \<and> lookup_apple ''T1'' shared_store = Some ?row \<and> validation_status ?row = valid"
    by (simp add: post_apple_request)
  have gb: "http_method ?b \<noteq> ''OPTIONS''
      \<and> google_request shared_store ?b = Inr (''bob'', ''P'', ''single_credit'', ''T1'')
      \<and> lookup_google ''T1'' shared_store = Some ?grow \<and> g_validation_status ?grow = valid"
    by (simp add: post_google_request)
  have ac: "http_method ?c \<noteq> ''OPTIONS''
      \<and> apple_request shared_store ?c = Inr (''carol'', ''R'', ''single_credit'', ''T1'')
      \<and> lookup_apple ''T1'' shared_store = Some ?row \<and> validation_status ?row = valid"
    by (simp add: post_apple_request)
  have gc: "http_method ?c \<noteq> ''OPTIONS''
      \<and> google_request shared_store ?c = Inr (''carol'', ''P'', ''single_credit'', ''T1'')
      \<and> lookup_google ''T1'' shared_store = Some ?grow \<and> g_validation_status ?grow = valid"
    by (simp add: post_google_request)
  have ap: "http_method ?b \<noteq> ''OPTIONS''
      \<and> apple_request purchased_store ?b = Inr (''bob'', ''R'', ''single_credit'', ''T1'')
      \<and> lookup_apple ''T1'' purchased_store = Some ?row \<and> validation_status ?row = valid"
    by (simp add: post_apple_request)
  have gp: "http_method ?b \<noteq> ''OPTIONS''
      \<and> google_request purchased_store ?b = Inr (''bob'', ''P'', ''single_credit'', ''T1'')
      \<and> lookup_google ''T1'' purchased_store = Some ?grow \<and> g_validation_status ?grow = valid"
    by (simp add: post_google_request)
  have bob: "profiles shared_store ''bob'' = Some (example_profile 7)
      \<and> room_credits (example_profile 7) = Some 7"
    by (simp add: example_profile_def)
  have carol: "profiles shared_store ''carol'' = Some ?nil \<and> room_credits ?nil = None"
    by simp
  have none: "profiles purchased_store ''bob'' = None"
    by simp
  note at_bob = credits_replay_any_owner [of ?b shared_store "''bob''" "''R''"
      "''single_credit''" "''T1''" ?row ?w "example_profile 7" 7 "''P''" "''T1''" ?grow]
  note at_carol = credits_replay_any_owner [of ?c shared_store "''carol''" "''R''"
      "''single_credit''" "''T1''" ?row ?w ?nil 0 "''P''" "''T1''" ?grow]
  note at_none = credits_replay_any_owner [of ?b purchased_store "''bob''" "''R''"
      "''single_credit''" "''T1''" ?row ?w ?nil 0 "''P''" "''T1''" ?grow]
  from at_bob ab bob
  have b1: "apple_iap_process_credits ?w ?b shared_store =
      respond (AlreadyProcessed (credits_or_zero (profiles shared_store ''bob''))) shared_store []"
    and b2: "response (apple_iap_process_credits ?w ?b shared_store) = Ok200 (AlreadyProcessed 7)"
    by blast+
  from at_bob gb bob
  have b3: "google_iap_process_credits ?w ?b shared_store =
      respond (AlreadyProcessed (credits_or_zero (profiles shared_store ''bob''))) shared_store []"
    and b4: "response (google_iap_process_credits ?w ?b shared_store) = Ok200 (AlreadyProcessed 7)"
    by blast+
  from at_carol ac carol
  have c1: "response (apple_iap_process_credits ?w ?c shared_store) = Ok200 (AlreadyProcessed 0)"
    by blast
  from at_carol gc carol
  have c2: "response (google_iap_process_credits ?w ?c shared_store) = Ok200 (AlreadyProcessed 0)"
    by blast
  from at_none ap none
  have n1: "response (apple_iap_process_credits ?w ?b purchased_store) = Ok200 (AlreadyProcessed 0)"
    by blast
  from at_none gp none
  have n2: "response (google_iap_process_credits ?w ?b purchased_store) = Ok200 (AlreadyProcessed 0)"
    by blast
  have e1: "apple_iap_process_credits ?w ?b shared_store =
      respond (AlreadyProcessed 7) shared_store []"
    using b1 b2 by (simp add: respond_def)
  have e2: "google_iap_process_credits ?w ?b shared_store =
      respond (AlreadyProcessed 7) shared_store []"
    using b3 b4 by (simp add: respond_def)
  have owner: "map user_id (apple_iap_transactions shared_store) = [''alice'']"
    "map g_user_id (google_play_transactions shared_store) = [''alice'']"
    by (simp_all add: shared_store_def purchased_store_def apple_credit_row_def
        google_credit_row_def)
  from owner e1 e2 c1 c2 n1 n2 show ?thesis by simp
qed

section \<open>Verification with Apple\<close>

lemma validateWithApple_cases:
  "validateWithApple fetch rd =
     (if ok (fetch PRODUCTION_URL rd) \<and> status (json (fetch PRODUCTION_URL rd)) = 21007
      then ([PRODUCTION_URL, SANDBOX_URL], validateReceipt fetch rd True)
      else ([PRODUCTION_URL], validateReceipt fetch rd False))"
  by (simp add: validateWithApple_def validateReceipt_def Let_def)

lemma apple_subscription_validates:
  assumes "http_method req \<noteq> ''OPTIONS''" and "apple_request s req = Inr (user, rd, pid, tid)"
    and "needs_validation tid user s"
  shows "apple_iap_process_subscription w req s = apple_subscription_validate w user rd pid tid s"
  using assms
  by (simp add: apple_iap_process_subscription_def needs_validation_def split: option.splits)

lemma apple_subscription_replay:
  assumes "http_method req \<noteq> ''OPTIONS''" and "apple_request s req = Inr (user, rd, pid, tid)"
    and "lookup_apple tid s = Some row" and "validation_status row = valid"
    and "shows_active (profiles s user)"
  shows "apple_iap_process_subscription w req s =
           respond (SubscriptionAlreadyProcessed (profiles s user)) s []"
  using assms by (simp add: apple_iap_process_subscription_def)

lemma apple_subscription_simple_fresh:
  assumes "http_method req \<noteq> ''OPTIONS''" and "apple_request s req = Inr (user, rd, pid, tid)"
    and "lookup_apple tid s = None"
  shows "apple_iap_process_subscription_simple w req s =
           apple_subscription_validate_simple w user rd pid tid s"
  using assms by (simp add: apple_iap_process_subscription_simple_def)

lemma apple_subscription_simple_replay:
  assumes "http_method req \<noteq> ''OPTIONS''" and "apple_request s req = Inr (user, rd, pid, tid)"
    and "lookup_apple tid s = Some row" and "validation_status row = valid"
  shows "apple_iap_process_subscription_simple w req s =
           respond (SubscriptionAlreadyProcessed (profiles s user)) s []"
  using assms by (simp add: apple_iap_process_subscription_simple_def)

text \<open>A receipt that Apple rejects.\<close>

lemma apple_credits_refused:
  assumes "validateWithApple (apple w) rd = (cs, Inr r)" and "status r \<noteq> 0"
  shows "apple_credits_validate w user rd pid tid s =
           throw (ReceiptValidationFailed (status r))
             (insert_apple (apple_invalid_row user tid pid consumable (now w) rd (r_environment r)) s) cs"
  using assms by (simp add: apple_credits_validate_def)

lemma apple_subscription_refused:
  assumes "validateWithApple (apple w) rd = (cs, Inr r)" and "status r \<noteq> 0"
  shows "apple_subscription_validate w user rd pid tid s =
           throw (ReceiptValidationFailed (status r))
             (insert_apple (apple_invalid_row user tid pid subscription (now w) rd (r_environment r)) s) cs"
    and "apple_subscription_validate_simple w user rd pid tid s =
           throw (ReceiptValidationFailed (status r))
             (insert_apple (apple_invalid_row user tid pid subscription (now w) rd (r_environment r)) s) cs"
  using assms
  by (simp_all add: apple_subscription_validate_def apple_subscription_validate_simple_def)

text \<open>
  Claim C7 (production first, then sandbox). \<open>validateWithApple\<close> posts the receipt to
  the production URL first. It posts it once more, to the sandbox URL, exactly when the
  production server answered with status 21007, and then returns the sandbox result;
  otherwise it returns the production result. When the result carries a status other
  than zero, each Apple endpoint that reached the verification answers with the error
  \<open>ReceiptValidationFailed\<close> of that status; all it writes is the invalid ledger row
  (which the store refuses when the identifier is taken), so no profile changes.
\<close>

theorem production_first_then_sandbox:
  "fst (validateWithApple fetch rd) =
      (if ok (fetch PRODUCTION_URL rd) \<and> status (json (fetch PRODUCTION_URL rd)) = 21007
       then [PRODUCTION_URL, SANDBOX_URL] else [PRODUCTION_URL])
   \<and> snd (validateWithApple fetch rd) =
      (if ok (fetch PRODUCTION_URL rd) \<and> status (json (fetch PRODUCTION_URL rd)) = 21007
       then validateReceipt fetch rd True else validateReceipt fetch rd False)
   \<and> (http_method req \<noteq> ''OPTIONS'' \<and> apple_request s req = Inr (user, rd, pid, tid)
        \<and> validateWithApple (apple w) rd = (cs, Inr r) \<and> status r \<noteq> 0
      \<longrightarrow> (lookup_apple tid s = None
           \<longrightarrow> apple_iap_process_credits w req s =
                 throw (ReceiptValidationFailed (status r))
                   (insert_apple
                      (apple_invalid_row user tid pid consumable (now w) rd (r_environment r)) s) cs
               \<and> apple_iap_process_subscription_simple w req s =
                 throw (ReceiptValidationFailed (status r))
                   (insert_apple
                      (apple_invalid_row user tid pid subscription (now w) rd (r_environment r)) s) cs)
          \<and> (needs_validation tid user s
           \<longrightarrow> apple_iap_process_subscription w req s =
                 throw (ReceiptValidationFailed (status r))
                   (insert_apple
                      (apple_invalid_row user tid pid subscription (now w) rd (r_environment r)) s) cs)
          \<and> profiles (insert_apple
                        (apple_invalid_row user tid pid consumable (now w) rd (r_environment r)) s)
              = profiles s
          \<and> profiles (insert_apple
                        (apple_invalid_row user tid pid subscription (now w) rd (r_environment r)) s)
              = profiles s)"
  by (simp add: validateWithApple_cases [of fetch] apple_credits_fresh apple_subscription_simple_fresh
      apple_subscription_validates apple_credits_refused apple_subscription_refused)

lemma apple_reply_sel [simp]:
  "ok (apple_reply st es)"
  "status (json (apple_reply st es)) = st"
  "receipt (json (apple_reply st es)) = Some (Some es)"
  "latest_receipt_info (json (apple_reply st es)) = Some es"
  "pending_renewal_info (json (apple_reply st es)) = None"
  "r_environment (json (apple_reply st es)) = Some Production"
  by (simp_all add: apple_reply_def)

lemma example_validate:
  "validateWithApple (apple (example_world p q)) rd =
     (if ok p \<and> status (json p) = 21007
      then ([PRODUCTION_URL, SANDBOX_URL],
            if ok q then Inr (json q) else Inl (ValidationRequestFailed (statusText q)))
      else ([PRODUCTION_URL],
            if ok p then Inr (json p) else Inl (ValidationRequestFailed (statusText p))))"
  by (simp add: validateWithApple_cases validateReceipt_def)

text \<open>
  The theorem at a receipt that production answers with 21007 and the sandbox rejects
  with 21002.
\<close>

theorem production_first_then_sandbox_witness:
  "calls (apple_iap_process_credits sandbox_world (post ''a'' ''single_credit'' ''T1'')
      example_store) = [PRODUCTION_URL, SANDBOX_URL]
   \<and> response (apple_iap_process_credits sandbox_world (post ''a'' ''single_credit'' ''T1'')
      example_store) = Error500 (ReceiptValidationFailed 21002)
   \<and> profiles (store_after (apple_iap_process_credits sandbox_world
        (post ''a'' ''single_credit'' ''T1'') example_store)) = profiles example_store
   \<and> response (apple_iap_process_subscription sandbox_world (post ''a'' ''monthly'' ''T1'')
      example_store) = Error500 (ReceiptValidationFailed 21002)
   \<and> response (apple_iap_process_subscription_simple sandbox_world (post ''a'' ''monthly'' ''T1'')
      example_store) = Error500 (ReceiptValidationFailed 21002)"
proof -
  let ?r = "json (apple_reply 21002 [])"
  let ?cs = "[PRODUCTION_URL, SANDBOX_URL]"
  have v: "validateWithApple (apple sandbox_world) ''R'' = (?cs, Inr ?r)"
    by (simp add: sandbox_world_def example_validate)
  have st: "status ?r \<noteq> 0" by simp
  have look: "lookup_apple ''T1'' example_store = None"
    by (simp add: lookup_apple_def single_def)
  have need: "needs_validation ''T1'' ''alice'' example_store"
    by (simp add: needs_validation_def look)
  have c: "http_method (post ''a'' ''single_credit'' ''T1'') \<noteq> ''OPTIONS''
      \<and> apple_request example_store (post ''a'' ''single_credit'' ''T1'') =
          Inr (''alice'', ''R'', ''single_credit'', ''T1'')"
    by (simp add: post_apple_request)
  have m: "http_method (post ''a'' ''monthly'' ''T1'') \<noteq> ''OPTIONS''
      \<and> apple_request example_store (post ''a'' ''monthly'' ''T1'') =
          Inr (''alice'', ''R'', ''monthly'', ''T1'')"
    by (simp add: post_apple_request)
  from production_first_then_sandbox [of "apple sandbox_world" "''R''"
      "post ''a'' ''single_credit'' ''T1''" example_store "''alice''" "''single_credit''" "''T1''"
      sandbox_world ?cs ?r] c v st look
  have r1: "apple_iap_process_credits sandbox_world (post ''a'' ''single_credit'' ''T1'')
      example_store =
        throw (ReceiptValidationFailed (status ?r))
          (insert_apple (apple_invalid_row ''alice'' ''T1'' ''single_credit'' consumable
             (now sandbox_world) ''R'' (r_environment ?r)) example_store) ?cs"
    by blast
  from production_first_then_sandbox [of "apple sandbox_world" "''R''"
      "post ''a'' ''monthly'' ''T1''" example_store "''alice''" "''monthly''" "''T1''"
      sandbox_world ?cs ?r] m v st look need
  have r2: "apple_iap_process_subscription sandbox_world (post ''a'' ''monthly'' ''T1'')
      example_store =
        throw (ReceiptValidationFailed (status ?r))
          (insert_apple (apple_invalid_row ''alice'' ''T1'' ''monthly'' subscription
             (now sandbox_world) ''R'' (r_environment ?r)) example_store) ?cs"
    and r3: "apple_iap_process_subscription_simple sandbox_world (post ''a'' ''monthly'' ''T1'')
      example_store =
        throw (ReceiptValidationFailed (status ?r))
          (insert_apple (apple_invalid_row ''alice'' ''T1'' ''monthly'' subscription
             (now sandbox_world) ''R'' (r_environment ?r)) example_store) ?cs"
    by blast+
  show ?thesis by (simp add: r1 r2 r3)
qed

section \<open>Product mismatch\<close>

lemma apple_credits_mismatch:
  assumes "validateWithApple (apple w) rd = (cs, Inr vr)" and "status vr = 0"
    and "receipt vr = Some in_app" and "find_credit_purchase tid in_app vr = Some p"
    and "p_product_id p \<noteq> Some pid"
  shows "apple_credits_validate w user rd pid tid s =
           throw (ProductIdMismatch pid (p_product_id p)) s cs"
  using assms by (simp add: apple_credits_validate_def)

lemma apple_subscription_mismatch:
  assumes "validateWithApple (apple w) rd = (cs, Inr vr)" and "status vr = 0"
    and "find_subscription_purchase tid vr = Some p" and "p_product_id p \<noteq> Some pid"
  shows "apple_subscription_validate w user rd pid tid s =
           throw (ProductIdMismatch pid (p_product_id p)) s cs"
  using assms by (simp add: apple_subscription_validate_def activate_subscription_def)

lemma apple_subscription_simple_mismatch:
  assumes "validateWithApple (apple w) rd = (cs, Inr vr)" and "status vr = 0"
    and "find_renewal_purchase tid vr = Some p" and "p_product_id p \<noteq> Some pid"
  shows "apple_subscription_validate_simple w user rd pid tid s =
           throw (ProductIdMismatch pid (p_product_id p)) s cs"
  using assms by (simp add: apple_subscription_validate_simple_def activate_subscription_def)

text \<open>
  Claim C2, as amended (product mismatch). When the entry of the verified receipt that
  an Apple endpoint settles on has a \<open>product_id\<close> other than the one the client
  claims, the endpoint answers with the error \<open>ProductIdMismatch\<close> and leaves the whole
  store as it was: no entitlement is applied and no ledger row is written, so the
  attempt is not recorded as invalid.
\<close>

theorem product_mismatch_changes_nothing:
  "http_method req \<noteq> ''OPTIONS'' \<and> apple_request s req = Inr (user, rd, pid, tid)
     \<and> validateWithApple (apple w) rd = (cs, Inr vr) \<and> status vr = 0
     \<and> p_product_id p \<noteq> Some pid
   \<longrightarrow> (lookup_apple tid s = None \<and> receipt vr = Some in_app
          \<and> find_credit_purchase tid in_app vr = Some p
        \<longrightarrow> apple_iap_process_credits w req s =
              throw (ProductIdMismatch pid (p_product_id p)) s cs)
      \<and> (needs_validation tid user s \<and> find_subscription_purchase tid vr = Some p
        \<longrightarrow> apple_iap_process_subscription w req s =
              throw (ProductIdMismatch pid (p_product_id p)) s cs)
      \<and> (lookup_apple tid s = None \<and> find_renewal_purchase tid vr = Some p
        \<longrightarrow> apple_iap_process_subscription_simple w req s =
              throw (ProductIdMismatch pid (p_product_id p)) s cs)"
  by (simp add: apple_credits_fresh apple_subscription_simple_fresh apple_subscription_validates
      apple_credits_mismatch apple_subscription_mismatch apple_subscription_simple_mismatch)

lemma find_entry [simp]:
  "find_credit_purchase tid (Some [entry tid pid pms ems]) (json (apple_reply 0 [entry tid pid pms ems]))
     = Some (entry tid pid pms ems)"
  "find_subscription_purchase tid (json (apple_reply 0 [entry tid pid pms ems]))
     = Some (entry tid pid pms ems)"
  "find_renewal_purchase tid (json (apple_reply 0 [entry tid pid pms ems]))
     = Some (entry tid pid pms ems)"
  by (simp_all add: find_credit_purchase_def find_subscription_purchase_def
      find_renewal_purchase_def entry_def)

lemma entry_sel [simp]:
  "p_product_id (entry tid pid pms ems) = Some pid"
  "purchase_date_ms (entry tid pid pms ems) = pms"
  "expires_date_ms (entry tid pid pms ems) = ems"
  by (simp_all add: entry_def)

lemma single_credit_validate:
  "validateWithApple (apple single_credit_world) rd =
     ([PRODUCTION_URL],
      Inr (json (apple_reply 0 [entry ''T1'' ''single_credit'' (Some ''1000'') None])))"
  by (simp add: single_credit_world_def example_validate)

text \<open>
  Against claim C2 as stated: alice claims a credit pack for a receipt whose entry is a
  single credit. The endpoint answers with the mismatch error and the ledger stays
  empty; no row with status invalid records the transaction.
\<close>

theorem product_mismatch_not_recorded:
  "response (apple_iap_process_credits single_credit_world (post ''a'' ''credit_pack'' ''T1'')
      example_store) = Error500 (ProductIdMismatch ''credit_pack'' (Some ''single_credit''))
   \<and> apple_iap_transactions (store_after (apple_iap_process_credits single_credit_world
        (post ''a'' ''credit_pack'' ''T1'') example_store)) = []"
  by (simp add: apple_credits_fresh [OF post_method post_apple_request] lookup_apple_def single_def
      apple_credits_mismatch [OF single_credit_validate])

text \<open>
  The amended claim at that request, for the three Apple endpoints.
\<close>

theorem product_mismatch_changes_nothing_witness:
  "store_after (apple_iap_process_credits single_credit_world (post ''a'' ''credit_pack'' ''T1'')
      example_store) = example_store
   \<and> store_after (apple_iap_process_subscription single_credit_world
        (post ''a'' ''credit_pack'' ''T1'') example_store) = example_store
   \<and> store_after (apple_iap_process_subscription_simple single_credit_world
        (post ''a'' ''credit_pack'' ''T1'') example_store) = example_store"
proof -
  let ?e = "entry ''T1'' ''single_credit'' (Some ''1000'') None"
  let ?req = "post ''a'' ''credit_pack'' ''T1''"
  have h: "http_method ?req \<noteq> ''OPTIONS''
     \<and> apple_request example_store ?req = Inr (''alice'', ''R'', ''credit_pack'', ''T1'')
     \<and> validateWithApple (apple single_credit_world) ''R''
         = ([PRODUCTION_URL], Inr (json (apple_reply 0 [?e])))
     \<and> status (json (apple_reply 0 [?e])) = 0
     \<and> p_product_id ?e \<noteq> Some ''credit_pack''"
    by (simp add: post_apple_request single_credit_validate)
  have look: "lookup_apple ''T1'' example_store = None"
    by (simp add: lookup_apple_def single_def)
  have need: "needs_validation ''T1'' ''alice'' example_store"
    by (simp add: needs_validation_def look)
  have f: "receipt (json (apple_reply 0 [?e])) = Some (Some [?e])
      \<and> find_credit_purchase ''T1'' (Some [?e]) (json (apple_reply 0 [?e])) = Some ?e
      \<and> find_subscription_purchase ''T1'' (json (apple_reply 0 [?e])) = Some ?e
      \<and> find_renewal_purchase ''T1'' (json (apple_reply 0 [?e])) = Some ?e"
    by simp
  from product_mismatch_changes_nothing [of ?req example_store "''alice''" "''R''"
      "''credit_pack''" "''T1''" single_credit_world "[PRODUCTION_URL]"
      "json (apple_reply 0 [?e])" ?e "Some [?e]"] h look need f
  have "apple_iap_process_credits single_credit_world ?req example_store =
          throw (ProductIdMismatch ''credit_pack'' (p_product_id ?e)) example_store [PRODUCTION_URL]"
    and "apple_iap_process_subscription single_credit_world ?req example_store =
          throw (ProductIdMismatch ''credit_pack'' (p_product_id ?e)) example_store [PRODUCTION_URL]"
    and "apple_iap_process_subscription_simple single_credit_world ?req example_store =
          throw (ProductIdMismatch ''credit_pack'' (p_product_id ?e)) example_store [PRODUCTION_URL]"
    by blast+
  then show ?thesis by simp
qed

section \<open>The credit mapping\<close>

lemma apple_add_credits_unknown:
  "creditAmount pid = None \<Longrightarrow>
   apple_add_credits w user rd pid tid vr p cs s = throw (UnknownCreditProduct pid) s cs"
  by (simp add: apple_add_credits_def)

lemma google_add_credits_unknown:
  "creditAmount pid = None \<Longrightarrow>
   google_add_credits w user tok pid oid vr s = throw (UnknownCreditProduct pid) s []"
  by (simp add: google_add_credits_def)

lemma apple_add_credits_done:
  assumes "creditAmount pid = Some a" and "profiles s user = Some prof"
    and "update_error w = None" and "purchase_date_of (now w) (purchase_date_ms p) = Inr pdate"
  shows "response (apple_add_credits w user rd pid tid vr p cs s) =
           Ok200 (CreditsAdded a (credits_or_zero (Some prof) + a))"
  using assms by (simp add: apple_add_credits_def Let_def)

lemma google_add_credits_done:
  assumes "creditAmount pid = Some a" and "profiles s user = Some prof"
    and "update_error w = None"
    and "toISOString (parseInt_of (purchaseTimeMillis vr)) = Inr pdate"
  shows "response (google_add_credits w user tok pid oid vr s) =
           Ok200 (CreditsAdded a (credits_or_zero (Some prof) + a))"
  using assms by (simp add: google_add_credits_def Let_def)

lemma apple_credits_verified:
  assumes "validateWithApple (apple w) rd = (cs, Inr vr)" and "status vr = 0"
    and "receipt vr = Some in_app" and "find_credit_purchase tid in_app vr = Some p"
    and "p_product_id p = Some pid"
  shows "apple_credits_validate w user rd pid tid s =
           apple_add_credits w user rd pid tid vr p cs s"
  using assms by (simp add: apple_credits_validate_def)

lemma google_credits_verified:
  assumes "google w = Inr vr" and "purchaseState vr = 0"
  shows "google_credits_validate w user tok pid oid s =
           google_add_credits w user tok pid oid vr s"
  using assms by (simp add: google_credits_validate_def)

text \<open>Every response that reports added credits reports the mapped amount and the sum.\<close>

lemma apple_credits_added:
  assumes ok: "response (apple_iap_process_credits w req s) = Ok200 (CreditsAdded a n)"
  shows "\<exists>user rd pid tid prof.
           apple_request s req = Inr (user, rd, pid, tid) \<and> creditAmount pid = Some a
           \<and> profiles s user = Some prof \<and> n = credits_or_zero (Some prof) + a
           \<and> (\<exists>q. profiles (store_after (apple_iap_process_credits w req s)) user = Some q
                    \<and> room_credits q = Some n)"
  using ok
proof (cases rule: apple_credits_success)
  case (replay user rd pid tid row)
  then have "apple_iap_process_credits w req s =
      respond (AlreadyProcessed (credits_or_zero (profiles s user))) s []"
    by (rule apple_credits_replay)
  with ok show ?thesis by simp
next
  case (fresh user rd pid tid)
  then have first: "apple_iap_process_credits w req s = apple_credits_validate w user rd pid tid s"
    by (rule apple_credits_fresh)
  with ok have "response (apple_credits_validate w user rd pid tid s) = Ok200 (CreditsAdded a n)"
    by simp
  then obtain cs vr and in_app :: "purchase list option" and p where
    add: "apple_credits_validate w user rd pid tid s = apple_add_credits w user rd pid tid vr p cs s"
    by (rule apple_credits_validate_success)
  with first ok
  have "response (apple_add_credits w user rd pid tid vr p cs s) = Ok200 (CreditsAdded a n)"
    by simp
  then obtain amount prof pdate where
    amount: "creditAmount pid = Some amount"
    and prof: "profiles s user = Some prof"
    and b: "CreditsAdded a n = CreditsAdded amount (credits_or_zero (Some prof) + amount)"
    and after: "store_after (apple_add_credits w user rd pid tid vr p cs s) =
       insert_apple (apple_credit_row user tid pid pdate p rd (r_environment vr) (now w))
         (update_profile user
            (\<lambda>q. q\<lparr>room_credits := Some (credits_or_zero (Some prof) + amount),
                    updated_at := Some (now w)\<rparr>) s)"
    by (rule apple_add_credits_success)
  from b have an: "amount = a" "n = credits_or_zero (Some prof) + a" by simp_all
  have "\<exists>q. profiles (store_after (apple_iap_process_credits w req s)) user = Some q
             \<and> room_credits q = Some n"
    using prof by (simp add: first add after an update_profile_at)
  with fresh(2) amount prof an show ?thesis by blast
qed

lemma google_credits_added:
  assumes ok: "response (google_iap_process_credits w req s) = Ok200 (CreditsAdded a n)"
  shows "\<exists>user tok pid oid prof.
           google_request s req = Inr (user, tok, pid, oid) \<and> creditAmount pid = Some a
           \<and> profiles s user = Some prof \<and> n = credits_or_zero (Some prof) + a
           \<and> (\<exists>q. profiles (store_after (google_iap_process_credits w req s)) user = Some q
                    \<and> room_credits q = Some n)"
  using ok
proof (cases rule: google_credits_success)
  case (replay user tok pid oid row)
  then have "google_iap_process_credits w req s =
      respond (AlreadyProcessed (credits_or_zero (profiles s user))) s []"
    by (rule google_credits_replay)
  with ok show ?thesis by simp
next
  case (fresh user tok pid oid)
  then have first: "google_iap_process_credits w req s = google_credits_validate w user tok pid oid s"
    by (rule google_credits_fresh)
  with ok have "response (google_credits_validate w user tok pid oid s) = Ok200 (CreditsAdded a n)"
    by simp
  then obtain vr where
    add: "google_credits_validate w user tok pid oid s = google_add_credits w user tok pid oid vr s"
    by (rule google_credits_validate_success)
  with first ok
  have "response (google_add_credits w user tok pid oid vr s) = Ok200 (CreditsAdded a n)"
    by simp
  then obtain amount prof pdate where
    amount: "creditAmount pid = Some amount"
    and prof: "profiles s user = Some prof"
    and b: "CreditsAdded a n = CreditsAdded amount (credits_or_zero (Some prof) + amount)"
    and after: "store_after (google_add_credits w user tok pid oid vr s) =
       insert_google (google_credit_row user oid tok pid pdate vr (now w))
         (update_profile user
            (\<lambda>q. q\<lparr>room_credits := Some (credits_or_zero (Some prof) + amount),
                    updated_at := Some (now w)\<rparr>) s)"
    by (rule google_add_credits_success)
  from b have an: "amount = a" "n = credits_or_zero (Some prof) + a" by simp_all
  have "\<exists>q. profiles (store_after (google_iap_process_credits w req s)) user = Some q
             \<and> room_credits q = Some n"
    using prof by (simp add: first add after an update_profile_at)
  with fresh(2) amount prof an show ?thesis by blast
qed

text \<open>
  Claim C6 (credit mapping). The amount is 1 for a product identifier that contains
  \<open>single_credit\<close>, else 5 for one that contains \<open>credit_pack\<close>, else there is none.
  Whenever a credits endpoint reports added credits, the amount reported is the mapped
  one, the reported \<open>newTotal\<close> is the \<open>room_credits\<close> stored before (null counting as
  zero) plus the amount, and the profile holds that total afterwards. For a first-time
  purchase that the platform verified: with an unmapped product the endpoint answers
  \<open>UnknownCreditProduct\<close> and leaves the store as it was; with a mapped one, an
  existing profile, an accepted update and a readable purchase time it reports the
  added credits.
\<close>

theorem credit_mapping:
  "creditAmount pid =
     (if \<exists>pre suf. pid = pre @ ''single_credit'' @ suf then Some 1
      else if \<exists>pre suf. pid = pre @ ''credit_pack'' @ suf then Some 5 else None)
   \<and> (response (apple_iap_process_credits w req s) = Ok200 (CreditsAdded a n)
      \<longrightarrow> (\<exists>u r i t q0.
             apple_request s req = Inr (u, r, i, t) \<and> creditAmount i = Some a
             \<and> profiles s u = Some q0 \<and> n = credits_or_zero (Some q0) + a
             \<and> (\<exists>q. profiles (store_after (apple_iap_process_credits w req s)) u = Some q
                      \<and> room_credits q = Some n)))
   \<and> (response (google_iap_process_credits w req s) = Ok200 (CreditsAdded a n)
      \<longrightarrow> (\<exists>u k i t q0.
             google_request s req = Inr (u, k, i, t) \<and> creditAmount i = Some a
             \<and> profiles s u = Some q0 \<and> n = credits_or_zero (Some q0) + a
             \<and> (\<exists>q. profiles (store_after (google_iap_process_credits w req s)) u = Some q
                      \<and> room_credits q = Some n)))
   \<and> (http_method req \<noteq> ''OPTIONS'' \<and> apple_request s req = Inr (user, rd, pid, tid)
        \<and> lookup_apple tid s = None \<and> validateWithApple (apple w) rd = (cs, Inr vr)
        \<and> status vr = 0 \<and> receipt vr = Some in_app
        \<and> find_credit_purchase tid in_app vr = Some p \<and> p_product_id p = Some pid
      \<longrightarrow> (creditAmount pid = None
           \<longrightarrow> apple_iap_process_credits w req s = throw (UnknownCreditProduct pid) s cs)
          \<and> (creditAmount pid = Some a \<and> profiles s user = Some prof \<and> update_error w = None
              \<and> purchase_date_of (now w) (purchase_date_ms p) = Inr pdate
           \<longrightarrow> response (apple_iap_process_credits w req s) =
                 Ok200 (CreditsAdded a (credits_or_zero (Some prof) + a))))
   \<and> (http_method req \<noteq> ''OPTIONS'' \<and> google_request s req = Inr (user, tok, pid, oid)
        \<and> lookup_google oid s = None \<and> google w = Inr gr \<and> purchaseState gr = 0
      \<longrightarrow> (creditAmount pid = None
           \<longrightarrow> google_iap_process_credits w req s = throw (UnknownCreditProduct pid) s [])
          \<and> (creditAmount pid = Some a \<and> profiles s user = Some prof \<and> update_error w = None
              \<and> toISOString (parseInt_of (purchaseTimeMillis gr)) = Inr pdate
           \<longrightarrow> response (google_iap_process_credits w req s) =
                 Ok200 (CreditsAdded a (credits_or_zero (Some prof) + a))))"
proof (intro conjI impI)
  show "creditAmount pid =
     (if \<exists>pre suf. pid = pre @ ''single_credit'' @ suf then Some 1
      else if \<exists>pre suf. pid = pre @ ''credit_pack'' @ suf then Some 5 else None)"
    by (simp only: creditAmount_def includes_str_iff)
next
  assume "response (apple_iap_process_credits w req s) = Ok200 (CreditsAdded a n)"
  then show "\<exists>user rd pid tid prof.
             apple_request s req = Inr (user, rd, pid, tid) \<and> creditAmount pid = Some a
             \<and> profiles s user = Some prof \<and> n = credits_or_zero (Some prof) + a
             \<and> (\<exists>q. profiles (store_after (apple_iap_process_credits w req s)) user = Some q
                      \<and> room_credits q = Some n)"
    by (rule apple_credits_added)
next
  assume "response (google_iap_process_credits w req s) = Ok200 (CreditsAdded a n)"
  then show "\<exists>user tok pid oid prof.
             google_request s req = Inr (user, tok, pid, oid) \<and> creditAmount pid = Some a
             \<and> profiles s user = Some prof \<and> n = credits_or_zero (Some prof) + a
             \<and> (\<exists>q. profiles (store_after (google_iap_process_credits w req s)) user = Some q
                      \<and> room_credits q = Some n)"
    by (rule google_credits_added)
next
  assume "http_method req \<noteq> ''OPTIONS'' \<and> apple_request s req = Inr (user, rd, pid, tid)
        \<and> lookup_apple tid s = None \<and> validateWithApple (apple w) rd = (cs, Inr vr)
        \<and> status vr = 0 \<and> receipt vr = Some in_app
        \<and> find_credit_purchase tid in_app vr = Some p \<and> p_product_id p = Some pid"
    and "creditAmount pid = None"
  then show "apple_iap_process_credits w req s = throw (UnknownCreditProduct pid) s cs"
    by (simp add: apple_credits_fresh apple_credits_verified apple_add_credits_unknown)
next
  assume "http_method req \<noteq> ''OPTIONS'' \<and> apple_request s req = Inr (user, rd, pid, tid)
        \<and> lookup_apple tid s = None \<and> validateWithApple (apple w) rd = (cs, Inr vr)
        \<and> status vr = 0 \<and> receipt vr = Some in_app
        \<and> find_credit_purchase tid in_app vr = Some p \<and> p_product_id p = Some pid"
    and "creditAmount pid = Some a \<and> profiles s user = Some prof \<and> update_error w = None
              \<and> purchase_date_of (now w) (purchase_date_ms p) = Inr pdate"
  then show "response (apple_iap_process_credits w req s) =
                 Ok200 (CreditsAdded a (credits_or_zero (Some prof) + a))"
    by (simp add: apple_credits_fresh apple_credits_verified apple_add_credits_done)
next
  assume "http_method req \<noteq> ''OPTIONS'' \<and> google_request s req = Inr (user, tok, pid, oid)
        \<and> lookup_google oid s = None \<and> google w = Inr gr \<and> purchaseState gr = 0"
    and "creditAmount pid = None"
  then show "google_iap_process_credits w req s = throw (UnknownCreditProduct pid) s []"
    by (simp add: google_credits_fresh google_credits_verified google_add_credits_unknown)
next
  assume "http_method req \<noteq> ''OPTIONS'' \<and> google_request s req = Inr (user, tok, pid, oid)
        \<and> lookup_google oid s = None \<and> google w = Inr gr \<and> purchaseState gr = 0"
    and "creditAmount pid = Some a \<and> profiles s user = Some prof \<and> update_error w = None
              \<and> toISOString (parseInt_of (purchaseTimeMillis gr)) = Inr pdate"
  then show "response (google_iap_process_credits w req s) =
                 Ok200 (CreditsAdded a (credits_or_zero (Some prof) + a))"
    by (simp add: google_credits_fresh google_credits_verified google_add_credits_done)
qed

lemma creditAmount_examples [simp]:
  "creditAmount ''single_credit'' = Some 1"
  "creditAmount ''credit_pack'' = Some 5"
  "creditAmount ''gems'' = None"
  by (simp_all add: creditAmount_def)

lemma example_google [simp]:
  "google gems_world = Inr (google_reply 0 ''1000'')"
  "google pack_world = Inr (google_reply 0 ''1000'')"
  "google single_credit_world = Inr (google_reply 0 ''1000'')"
  "purchaseState (google_reply st ms) = st"
  "purchaseTimeMillis (google_reply st ms) = Some ms"
  by (simp_all add: gems_world_def pack_world_def single_credit_world_def google_reply_def)

text \<open>
  The theorem for alice's three credits: a credit pack on either platform makes eight,
  and a product that is no credit product is refused.
\<close>

theorem credit_mapping_witness:
  "response (apple_iap_process_credits pack_world (post ''a'' ''credit_pack'' ''T1'')
      example_store) = Ok200 (CreditsAdded 5 8)
   \<and> response (google_iap_process_credits pack_world (post ''a'' ''credit_pack'' ''T1'')
      example_store) = Ok200 (CreditsAdded 5 8)
   \<and> (\<exists>q. profiles (store_after (apple_iap_process_credits pack_world
               (post ''a'' ''credit_pack'' ''T1'') example_store)) ''alice'' = Some q
          \<and> room_credits q = Some 8)
   \<and> (\<exists>q. profiles (store_after (google_iap_process_credits pack_world
               (post ''a'' ''credit_pack'' ''T1'') example_store)) ''alice'' = Some q
          \<and> room_credits q = Some 8)
   \<and> apple_iap_process_credits gems_world (post ''a'' ''gems'' ''T1'') example_store =
       throw (UnknownCreditProduct ''gems'') example_store [PRODUCTION_URL]
   \<and> google_iap_process_credits gems_world (post ''a'' ''gems'' ''T1'') example_store =
       throw (UnknownCreditProduct ''gems'') example_store []"
proof -
  let ?pack = "post ''a'' ''credit_pack'' ''T1''"
  let ?gems = "post ''a'' ''gems'' ''T1''"
  let ?pe = "entry ''T1'' ''credit_pack'' (Some ''1000'') None"
  let ?ge = "entry ''T1'' ''gems'' (Some ''1000'') None"
  have look: "lookup_apple ''T1'' example_store = None" "lookup_google ''T1'' example_store = None"
    by (simp_all add: lookup_apple_def lookup_google_def single_def)
  have pa: "http_method ?pack \<noteq> ''OPTIONS''
      \<and> apple_request example_store ?pack = Inr (''alice'', ''R'', ''credit_pack'', ''T1'')
      \<and> lookup_apple ''T1'' example_store = None
      \<and> validateWithApple (apple pack_world) ''R'' = ([PRODUCTION_URL], Inr (json (apple_reply 0 [?pe])))
      \<and> status (json (apple_reply 0 [?pe])) = 0
      \<and> receipt (json (apple_reply 0 [?pe])) = Some (Some [?pe])
      \<and> find_credit_purchase ''T1'' (Some [?pe]) (json (apple_reply 0 [?pe])) = Some ?pe
      \<and> p_product_id ?pe = Some ''credit_pack''"
    by (simp add: post_apple_request look pack_world_def example_validate)
  have pg: "http_method ?pack \<noteq> ''OPTIONS''
      \<and> google_request example_store ?pack = Inr (''alice'', ''P'', ''credit_pack'', ''T1'')
      \<and> lookup_google ''T1'' example_store = None
      \<and> google pack_world = Inr (google_reply 0 ''1000'')
      \<and> purchaseState (google_reply 0 ''1000'') = 0"
    by (simp add: post_google_request look)
  have ga: "http_method ?gems \<noteq> ''OPTIONS''
      \<and> apple_request example_store ?gems = Inr (''alice'', ''R'', ''gems'', ''T1'')
      \<and> lookup_apple ''T1'' example_store = None
      \<and> validateWithApple (apple gems_world) ''R'' = ([PRODUCTION_URL], Inr (json (apple_reply 0 [?ge])))
      \<and> status (json (apple_reply 0 [?ge])) = 0
      \<and> receipt (json (apple_reply 0 [?ge])) = Some (Some [?ge])
      \<and> find_credit_purchase ''T1'' (Some [?ge]) (json (apple_reply 0 [?ge])) = Some ?ge
      \<and> p_product_id ?ge = Some ''gems''"
    by (simp add: post_apple_request look gems_world_def example_validate)
  have gg: "http_method ?gems \<noteq> ''OPTIONS''
      \<and> google_request example_store ?gems = Inr (''alice'', ''P'', ''gems'', ''T1'')
      \<and> lookup_google ''T1'' example_store = None
      \<and> google gems_world = Inr (google_reply 0 ''1000'')
      \<and> purchaseState (google_reply 0 ''1000'') = 0"
    by (simp add: post_google_request look)
  have world: "creditAmount ''credit_pack'' = Some 5
      \<and> profiles example_store ''alice'' = Some (example_profile 3)
      \<and> update_error pack_world = None
      \<and> purchase_date_of (now pack_world) (purchase_date_ms ?pe) = Inr 1000"
    "creditAmount ''credit_pack'' = Some 5
      \<and> profiles example_store ''alice'' = Some (example_profile 3)
      \<and> update_error pack_world = None
      \<and> toISOString (parseInt_of (purchaseTimeMillis (google_reply 0 ''1000''))) = Inr 1000"
    by (simp_all add: pack_world_def purchase_date_of_def truthy_def parseInt_of_def
        toISOString_def)
  have total: "credits_or_zero (Some (example_profile 3)) + 5 = 8"
    by (simp add: credits_or_zero_def example_profile_def)
  note pack = credit_mapping [of "''credit_pack''" pack_world ?pack example_store 5 8
      "''alice''" "''R''" "''T1''" "[PRODUCTION_URL]" "json (apple_reply 0 [?pe])" "Some [?pe]" ?pe
      "example_profile 3" 1000 "''P''" "''T1''" "google_reply 0 ''1000''"]
  note gems = credit_mapping [of "''gems''" gems_world ?gems example_store 0 0
      "''alice''" "''R''" "''T1''" "[PRODUCTION_URL]" "json (apple_reply 0 [?ge])" "Some [?ge]" ?ge
      "example_profile 3" 1000 "''P''" "''T1''" "google_reply 0 ''1000''"]
  from pack pa world(1) total
  have r1: "response (apple_iap_process_credits pack_world ?pack example_store) =
      Ok200 (CreditsAdded 5 8)"
    by simp
  from pack pg world(2) total
  have r2: "response (google_iap_process_credits pack_world ?pack example_store) =
      Ok200 (CreditsAdded 5 8)"
    by simp
  from pack r1 obtain user rd pid tid where
    "apple_request example_store ?pack = Inr (user, rd, pid, tid)"
    "\<exists>q. profiles (store_after (apple_iap_process_credits pack_world ?pack example_store)) user
           = Some q \<and> room_credits q = Some 8"
    by blast
  with pa have r3: "\<exists>q. profiles (store_after (apple_iap_process_credits pack_world ?pack
      example_store)) ''alice'' = Some q \<and> room_credits q = Some 8"
    by simp
  from pack r2 obtain user tok pid oid where
    "google_request example_store ?pack = Inr (user, tok, pid, oid)"
    "\<exists>q. profiles (store_after (google_iap_process_credits pack_world ?pack example_store)) user
           = Some q \<and> room_credits q = Some 8"
    by blast
  with pg have r4: "\<exists>q. profiles (store_after (google_iap_process_credits pack_world ?pack
      example_store)) ''alice'' = Some q \<and> room_credits q = Some 8"
    by simp
  from gems ga
  have r5: "apple_iap_process_credits gems_world ?gems example_store =
       throw (UnknownCreditProduct ''gems'') example_store [PRODUCTION_URL]"
    by simp
  from gems gg
  have r6: "google_iap_process_credits gems_world ?gems example_store =
       throw (UnknownCreditProduct ''gems'') example_store []"
    by simp
  from r1 r2 r3 r4 r5 r6 show ?thesis by blast
qed

section \<open>The expiry of a subscription\<close>

lemma toISOString_Inr: "toISOString n = Inr e \<Longrightarrow> n = Some e"
  by (auto simp: toISOString_def split: option.splits if_splits)

lemma activate_subscription_success:
  assumes ok: "response (activate_subscription write w user rd pid tid vr p cs s) = Ok200 b"
  obtains expires pdate where
    "p_product_id p = Some pid" "parseInt_of (expires_date_ms p) = Some expires"
    "update_error w = None" "purchase_date_of (now w) (purchase_date_ms p) = Inr pdate"
    "b = Activated (subscriptionType_of pid) expires"
    "store_after (activate_subscription write w user rd pid tid vr p cs s) =
       write (apple_subscription_row user tid pid pdate expires p rd vr (now w))
         (update_profile user
            (\<lambda>q. q\<lparr>subscription_type := Some (subscriptionType_of pid),
                    subscription_status := Some ''active'',
                    subscription_expires_at := Some expires,
                    updated_at := Some (now w)\<rparr>) s)"
proof -
  from ok have pid: "p_product_id p = Some pid" and tr: "truthy (expires_date_ms p)"
    by (auto simp: activate_subscription_def split: if_splits)
  from ok pid tr obtain expires where
    ex: "toISOString (parseInt_of (expires_date_ms p)) = Inr expires"
    by (cases "toISOString (parseInt_of (expires_date_ms p))")
       (auto simp: activate_subscription_def)
  from ok pid tr ex have up: "update_error w = None"
    by (cases "update_error w") (auto simp: activate_subscription_def)
  from ok pid tr ex up obtain pdate where
    pd: "purchase_date_of (now w) (purchase_date_ms p) = Inr pdate"
    by (cases "purchase_date_of (now w) (purchase_date_ms p)")
       (auto simp: activate_subscription_def Let_def)
  from ok pid tr ex up pd have b: "b = Activated (subscriptionType_of pid) expires"
    by (simp add: activate_subscription_def Let_def)
  have after: "store_after (activate_subscription write w user rd pid tid vr p cs s) =
       write (apple_subscription_row user tid pid pdate expires p rd vr (now w))
         (update_profile user
            (\<lambda>q. q\<lparr>subscription_type := Some (subscriptionType_of pid),
                    subscription_status := Some ''active'',
                    subscription_expires_at := Some expires,
                    updated_at := Some (now w)\<rparr>) s)"
    using pid tr ex up pd by (simp add: activate_subscription_def Let_def)
  from ex have pe: "parseInt_of (expires_date_ms p) = Some expires"
    by (rule toISOString_Inr)
  from pid pe up pd b after show thesis by (rule that)
qed

lemma apple_subscription_validate_success:
  assumes "response (apple_subscription_validate w user rd pid tid s) = Ok200 b"
  obtains cs vr p where
    "validateWithApple (apple w) rd = (cs, Inr vr)" "status vr = 0"
    "find_subscription_purchase tid vr = Some p"
    "apple_subscription_validate w user rd pid tid s =
       activate_subscription upsert_apple w user rd pid tid vr p cs s"
  using assms
  by (auto simp: apple_subscription_validate_def split: prod.splits sum.splits option.splits if_splits)

lemma apple_subscription_validate_simple_success:
  assumes "response (apple_subscription_validate_simple w user rd pid tid s) = Ok200 b"
  obtains cs vr p where
    "validateWithApple (apple w) rd = (cs, Inr vr)" "status vr = 0"
    "find_renewal_purchase tid vr = Some p"
    "apple_subscription_validate_simple w user rd pid tid s =
       activate_subscription insert_apple w user rd pid tid vr p cs s"
  using assms
  by (auto simp: apple_subscription_validate_simple_def
      split: prod.splits sum.splits option.splits if_splits)

lemma apple_subscription_activated:
  assumes "response (apple_iap_process_subscription w req s) = Ok200 (Activated ty e)"
  obtains user rd pid tid where
    "http_method req \<noteq> ''OPTIONS''" "apple_request s req = Inr (user, rd, pid, tid)"
    "needs_validation tid user s"
  using assms
  by (auto simp: apple_iap_process_subscription_def needs_validation_def
      split: if_splits sum.splits option.splits)

lemma apple_subscription_simple_activated:
  assumes "response (apple_iap_process_subscription_simple w req s) = Ok200 (Activated ty e)"
  obtains user rd pid tid where
    "http_method req \<noteq> ''OPTIONS''" "apple_request s req = Inr (user, rd, pid, tid)"
    "lookup_apple tid s = None"
  using assms
  by (auto simp: apple_iap_process_subscription_simple_def
      split: if_splits sum.splits option.splits)

text \<open>The profile after an activation that wrote the ledger with \<open>write\<close>.\<close>

lemma activated_profile:
  assumes frame: "\<And>row s0. profiles (write row s0) = profiles s0"
    and ok: "response (activate_subscription write w user rd pid tid vr p cs s) =
              Ok200 (Activated ty e)"
  shows "parseInt_of (expires_date_ms p) = Some e
         \<and> (\<forall>q. profiles s user = Some q \<longrightarrow>
               (\<exists>q'. profiles (store_after
                          (activate_subscription write w user rd pid tid vr p cs s)) user = Some q'
                     \<and> subscription_expires_at q' = Some e
                     \<and> subscription_status q' = Some ''active''))"
proof -
  from ok obtain expires pdate where
    e: "parseInt_of (expires_date_ms p) = Some expires"
    and b: "Activated ty e = Activated (subscriptionType_of pid) expires"
    and after: "store_after (activate_subscription write w user rd pid tid vr p cs s) =
       write (apple_subscription_row user tid pid pdate expires p rd vr (now w))
         (update_profile user
            (\<lambda>q. q\<lparr>subscription_type := Some (subscriptionType_of pid),
                    subscription_status := Some ''active'',
                    subscription_expires_at := Some expires,
                    updated_at := Some (now w)\<rparr>) s)"
    by (rule activate_subscription_success)
  from b have "expires = e" by simp
  with e after show ?thesis
    by (simp add: frame update_profile_at)
qed

lemma apple_subscription_expiry:
  assumes ok: "response (apple_iap_process_subscription w req s) = Ok200 (Activated ty e)"
  shows "\<exists>user rd pid tid cs vr p.
           apple_request s req = Inr (user, rd, pid, tid)
           \<and> validateWithApple (apple w) rd = (cs, Inr vr) \<and> status vr = 0
           \<and> find_subscription_purchase tid vr = Some p
           \<and> parseInt_of (expires_date_ms p) = Some e
           \<and> (\<forall>q. profiles s user = Some q \<longrightarrow>
                 (\<exists>q'. profiles (store_after (apple_iap_process_subscription w req s)) user = Some q'
                       \<and> subscription_expires_at q' = Some e
                       \<and> subscription_status q' = Some ''active''))"
proof -
  from ok obtain user rd pid tid where
    req: "http_method req \<noteq> ''OPTIONS''" "apple_request s req = Inr (user, rd, pid, tid)"
      "needs_validation tid user s"
    by (rule apple_subscription_activated)
  then have first: "apple_iap_process_subscription w req s =
      apple_subscription_validate w user rd pid tid s"
    by (rule apple_subscription_validates)
  with ok have "response (apple_subscription_validate w user rd pid tid s) = Ok200 (Activated ty e)"
    by simp
  then obtain cs vr p where
    v: "validateWithApple (apple w) rd = (cs, Inr vr)" "status vr = 0"
      "find_subscription_purchase tid vr = Some p"
    and act: "apple_subscription_validate w user rd pid tid s =
       activate_subscription upsert_apple w user rd pid tid vr p cs s"
    by (rule apple_subscription_validate_success)
  from ok have "response (activate_subscription upsert_apple w user rd pid tid vr p cs s) =
      Ok200 (Activated ty e)"
    by (simp add: first act)
  then have "parseInt_of (expires_date_ms p) = Some e
         \<and> (\<forall>q. profiles s user = Some q \<longrightarrow>
               (\<exists>q'. profiles (store_after
                          (activate_subscription upsert_apple w user rd pid tid vr p cs s)) user = Some q'
                     \<and> subscription_expires_at q' = Some e
                     \<and> subscription_status q' = Some ''active''))"
    by (intro activated_profile) simp_all
  with req(2) v show ?thesis
    unfolding first act by blast
qed

lemma apple_subscription_simple_expiry:
  assumes ok: "response (apple_iap_process_subscription_simple w req s) = Ok200 (Activated ty e)"
  shows "\<exists>user rd pid tid cs vr p.
           apple_request s req = Inr (user, rd, pid, tid)
           \<and> validateWithApple (apple w) rd = (cs, Inr vr) \<and> status vr = 0
           \<and> find_renewal_purchase tid vr = Some p
           \<and> parseInt_of (expires_date_ms p) = Some e
           \<and> (\<forall>q. profiles s user = Some q \<longrightarrow>
                 (\<exists>q'. profiles (store_after (apple_iap_process_subscription_simple w req s)) user
                         = Some q'
                       \<and> subscription_expires_at q' = Some e
                       \<and> subscription_status q' = Some ''active''))"
proof -
  from ok obtain user rd pid tid where
    req: "http_method req \<noteq> ''OPTIONS''" "apple_request s req = Inr (user, rd, pid, tid)"
      "lookup_apple tid s = None"
    by (rule apple_subscription_simple_activated)
  then have first: "apple_iap_process_subscription_simple w req s =
      apple_subscription_validate_simple w user rd pid tid s"
    by (rule apple_subscription_simple_fresh)
  with ok
  have "response (apple_subscription_validate_simple w user rd pid tid s) = Ok200 (Activated ty e)"
    by simp
  then obtain cs vr p where
    v: "validateWithApple (apple w) rd = (cs, Inr vr)" "status vr = 0"
      "find_renewal_purchase tid vr = Some p"
    and act: "apple_subscription_validate_simple w user rd pid tid s =
       activate_subscription insert_apple w user rd pid tid vr p cs s"
    by (rule apple_subscription_validate_simple_success)
  from ok have "response (activate_subscription insert_apple w user rd pid tid vr p cs s) =
      Ok200 (Activated ty e)"
    by (simp add: first act)
  then have "parseInt_of (expires_date_ms p) = Some e
         \<and> (\<forall>q. profiles s user = Some q \<longrightarrow>
               (\<exists>q'. profiles (store_after
                          (activate_subscription insert_apple w user rd pid tid vr p cs s)) user = Some q'
                     \<and> subscription_expires_at q' = Some e
                     \<and> subscription_status q' = Some ''active''))"
    by (intro activated_profile) simp_all
  with req(2) v show ?thesis
    unfolding first act by blast
qed

text \<open>The clock has no part in the response of a subscription endpoint.\<close>

lemma purchase_date_of_clock:
  "purchase_date_of c ms = Inl x \<Longrightarrow> purchase_date_of c' ms = Inl x"
  by (simp add: purchase_date_of_def split: if_splits)

lemma activate_subscription_clock:
  "response (activate_subscription write (w\<lparr>now := t\<rparr>) user rd pid tid vr p cs s) =
   response (activate_subscription write w user rd pid tid vr p cs s)"
proof (cases "purchase_date_of (now w) (purchase_date_ms p)")
  case (Inl x)
  then have "purchase_date_of t (purchase_date_ms p) = Inl x"
    by (rule purchase_date_of_clock)
  with Inl show ?thesis
    by (simp add: activate_subscription_def Let_def split: sum.splits option.splits)
next
  case (Inr d)
  then obtain d' where "purchase_date_of t (purchase_date_ms p) = Inr d'"
    using purchase_date_of_clock [of t "purchase_date_ms p" _ "now w"]
    by (cases "purchase_date_of t (purchase_date_ms p)") auto
  with Inr show ?thesis
    by (simp add: activate_subscription_def Let_def split: sum.splits option.splits)
qed

lemma apple_subscription_clock:
  "response (apple_iap_process_subscription (w\<lparr>now := t\<rparr>) req s) =
   response (apple_iap_process_subscription w req s)"
  "response (apple_iap_process_subscription_simple (w\<lparr>now := t\<rparr>) req s) =
   response (apple_iap_process_subscription_simple w req s)"
  by (simp_all add: apple_iap_process_subscription_def apple_iap_process_subscription_simple_def
      apple_subscription_validate_def apple_subscription_validate_simple_def
      activate_subscription_clock
      split: sum.splits option.splits prod.splits)

text \<open>
  Claim C3 (expiry authority). Whenever a subscription endpoint answers with an
  activation that expires at \<open>e\<close>, Apple verified the receipt, the endpoint settled on an
  entry \<open>p\<close> of the reply, \<open>e\<close> is the number read from \<open>expires_date_ms\<close> of \<open>p\<close>, and the
  caller's profile (when the caller has one) afterwards is active with
  \<open>subscription_expires_at = e\<close>. The server's clock has no part in it: with any other
  clock the response is the same.
\<close>

theorem expiry_from_platform:
  "(response (apple_iap_process_subscription w req s) = Ok200 (Activated ty e)
    \<longrightarrow> (\<exists>user rd pid tid cs vr p.
           apple_request s req = Inr (user, rd, pid, tid)
           \<and> validateWithApple (apple w) rd = (cs, Inr vr) \<and> status vr = 0
           \<and> find_subscription_purchase tid vr = Some p
           \<and> parseInt_of (expires_date_ms p) = Some e
           \<and> (\<forall>q. profiles s user = Some q \<longrightarrow>
                 (\<exists>q'. profiles (store_after (apple_iap_process_subscription w req s)) user = Some q'
                       \<and> subscription_expires_at q' = Some e
                       \<and> subscription_status q' = Some ''active'')))
        \<and> (\<forall>t. response (apple_iap_process_subscription (w\<lparr>now := t\<rparr>) req s) =
                  Ok200 (Activated ty e)))
   \<and> (response (apple_iap_process_subscription_simple w req s) = Ok200 (Activated ty e)
    \<longrightarrow> (\<exists>user rd pid tid cs vr p.
           apple_request s req = Inr (user, rd, pid, tid)
           \<and> validateWithApple (apple w) rd = (cs, Inr vr) \<and> status vr = 0
           \<and> find_renewal_purchase tid vr = Some p
           \<and> parseInt_of (expires_date_ms p) = Some e
           \<and> (\<forall>q. profiles s user = Some q \<longrightarrow>
                 (\<exists>q'. profiles (store_after (apple_iap_process_subscription_simple w req s)) user
                         = Some q'
                       \<and> subscription_expires_at q' = Some e
                       \<and> subscription_status q' = Some ''active'')))
        \<and> (\<forall>t. response (apple_iap_process_subscription_simple (w\<lparr>now := t\<rparr>) req s) =
                  Ok200 (Activated ty e)))"
  using apple_subscription_expiry [of w req s ty e]
    apple_subscription_simple_expiry [of w req s ty e]
  by (simp add: apple_subscription_clock)

lemma parse_99000 [simp]: "parseInt ''99000'' = Some 99000"
  by (simp add: parseInt_def is_space_def digit_of_def)

lemma subscription_validate:
  "validateWithApple (apple subscription_world) rd =
     ([PRODUCTION_URL],
      Inr (json (apple_reply 0 [entry ''T1'' ''monthly'' None (Some ''99000'')])))"
  by (simp add: subscription_world_def example_validate)

lemma subscription_world_sel [simp]:
  "update_error subscription_world = None" "now subscription_world = 5000"
  by (simp_all add: subscription_world_def)

lemma monthly [simp]: "subscriptionType_of ''monthly'' = ''monthly''"
  by (simp add: subscriptionType_of_def)

lemma activate_example:
  "activate_subscription write subscription_world user rd ''monthly'' tid vr
     (entry ''T1'' ''monthly'' None (Some ''99000'')) cs s =
   respond (Activated ''monthly'' 99000)
     (write (apple_subscription_row user tid ''monthly'' 5000 99000
               (entry ''T1'' ''monthly'' None (Some ''99000'')) rd vr 5000)
        (update_profile user
           (\<lambda>q. q\<lparr>subscription_type := Some ''monthly'',
                   subscription_status := Some ''active'',
                   subscription_expires_at := Some 99000,
                   updated_at := Some 5000\<rparr>) s)) cs"
  by (simp add: activate_subscription_def truthy_def parseInt_of_def toISOString_def
      purchase_date_of_def Let_def)

lemma first_subscription:
  "response (apple_iap_process_subscription subscription_world (post ''a'' ''monthly'' ''T1'')
      example_store) = Ok200 (Activated ''monthly'' 99000)"
  "response (apple_iap_process_subscription_simple subscription_world (post ''a'' ''monthly'' ''T1'')
      example_store) = Ok200 (Activated ''monthly'' 99000)"
  by (simp_all add: apple_iap_process_subscription_def apple_iap_process_subscription_simple_def
      post_apple_request lookup_apple_def single_def apple_subscription_validate_def
      apple_subscription_validate_simple_def subscription_validate activate_example)

text \<open>
  The theorem for a monthly subscription that Apple reports to expire at 99000, on a
  server whose clock shows 5000.
\<close>

theorem expiry_from_platform_witness:
  "response (apple_iap_process_subscription subscription_world (post ''a'' ''monthly'' ''T1'')
      example_store) = Ok200 (Activated ''monthly'' 99000)
   \<and> (\<exists>q. profiles (store_after (apple_iap_process_subscription subscription_world
               (post ''a'' ''monthly'' ''T1'') example_store)) ''alice'' = Some q
          \<and> subscription_expires_at q = Some 99000)
   \<and> response (apple_iap_process_subscription_simple subscription_world
        (post ''a'' ''monthly'' ''T1'') example_store) = Ok200 (Activated ''monthly'' 99000)
   \<and> (\<exists>q. profiles (store_after (apple_iap_process_subscription_simple subscription_world
               (post ''a'' ''monthly'' ''T1'') example_store)) ''alice'' = Some q
          \<and> subscription_expires_at q = Some 99000)"
proof -
  let ?req = "post ''a'' ''monthly'' ''T1''"
  note inst = expiry_from_platform [of subscription_world ?req example_store "''monthly''" 99000]
  have req: "apple_request example_store ?req = Inr (''alice'', ''R'', ''monthly'', ''T1'')"
    by (simp add: post_apple_request)
  from inst first_subscription(1) obtain user rd pid tid where
    "apple_request example_store ?req = Inr (user, rd, pid, tid)"
    and "\<forall>q. profiles example_store user = Some q \<longrightarrow>
          (\<exists>q'. profiles (store_after (apple_iap_process_subscription subscription_world ?req
                    example_store)) user = Some q'
                \<and> subscription_expires_at q' = Some 99000
                \<and> subscription_status q' = Some ''active'')"
    by blast
  with req have a: "\<exists>q. profiles (store_after (apple_iap_process_subscription subscription_world
               ?req example_store)) ''alice'' = Some q
          \<and> subscription_expires_at q = Some 99000"
    by auto
  from inst first_subscription(2) obtain user rd pid tid where
    "apple_request example_store ?req = Inr (user, rd, pid, tid)"
    and "\<forall>q. profiles example_store user = Some q \<longrightarrow>
          (\<exists>q'. profiles (store_after (apple_iap_process_subscription_simple subscription_world ?req
                    example_store)) user = Some q'
                \<and> subscription_expires_at q' = Some 99000
                \<and> subscription_status q' = Some ''active'')"
    by blast
  with req have b: "\<exists>q. profiles (store_after (apple_iap_process_subscription_simple
               subscription_world ?req example_store)) ''alice'' = Some q
          \<and> subscription_expires_at q = Some 99000"
    by auto
  from a b first_subscription show ?thesis by simp
qed

section \<open>Valid rows without an active subscription\<close>

lemma single_Some: "single xs = Some r \<Longrightarrow> xs = [r]"
  by (auto simp: single_def split: list.splits)

lemma upsert_existing:
  assumes look: "lookup_apple tid s = Some row" and tid: "transaction_id new = tid"
    and same: "apple_iap_transactions s' = apple_iap_transactions s"
    and fits: "fits_integer (quantity new)"
  shows "lookup_apple tid (upsert_apple new s') = Some (new\<lparr>quantity := quantity row\<rparr>)"
    and "map transaction_id (apple_iap_transactions (upsert_apple new s')) =
         map transaction_id (apple_iap_transactions s)"
proof -
  let ?L = "apple_iap_transactions s"
  let ?f = "\<lambda>r. if transaction_id r = tid then new\<lparr>quantity := quantity r\<rparr> else r"
  from look have one: "filter (\<lambda>r. transaction_id r = tid) ?L = [row]"
    unfolding lookup_apple_def by (rule single_Some)
  then have "row \<in> set (filter (\<lambda>r. transaction_id r = tid) ?L)" by simp
  then have rid: "transaction_id row = tid" and mem: "tid \<in> set (map transaction_id ?L)"
    by auto
  then have up: "apple_iap_transactions (upsert_apple new s') = map ?f ?L"
    using tid same fits by (simp add: upsert_apple_def)
  have key: "(\<lambda>r. transaction_id r = tid) \<circ> ?f = (\<lambda>r. transaction_id r = tid)"
    using tid by (auto simp: fun_eq_iff)
  have "filter (\<lambda>r. transaction_id r = tid) (map ?f ?L) =
        map ?f (filter (\<lambda>r. transaction_id r = tid) ?L)"
    by (simp add: filter_map key)
  also have "\<dots> = [new\<lparr>quantity := quantity row\<rparr>]"
    using rid by (simp add: one)
  finally show "lookup_apple tid (upsert_apple new s') = Some (new\<lparr>quantity := quantity row\<rparr>)"
    by (simp add: lookup_apple_def up single_def)
  show "map transaction_id (apple_iap_transactions (upsert_apple new s')) =
         map transaction_id (apple_iap_transactions s)"
    using tid by (simp add: up)
qed

lemma activate_subscription_calls:
  "calls (activate_subscription write w user rd pid tid vr p cs s) = cs"
  by (simp add: activate_subscription_def Let_def split: sum.splits option.splits)

lemma apple_subscription_validate_calls:
  "calls (apple_subscription_validate w user rd pid tid s) = fst (validateWithApple (apple w) rd)"
  by (simp add: apple_subscription_validate_def activate_subscription_calls
      split: prod.splits sum.splits option.splits)

lemma subscription_row_id [simp]:
  "transaction_id (apple_subscription_row user tid pid pdate e p rd vr clock) = tid"
  "tx_expires_at (apple_subscription_row user tid pid pdate e p rd vr clock) = Some e"
  "validation_status (apple_subscription_row user tid pid pdate e p rd vr clock) = valid"
  by (simp_all add: apple_subscription_row_def)

lemma zombie_needs_validation:
  "lookup_apple tid s = Some row \<Longrightarrow> validation_status row = valid
   \<Longrightarrow> \<not> shows_active (profiles s user) \<Longrightarrow> needs_validation tid user s"
  by (simp add: needs_validation_def)

lemma zombie_upserted:
  assumes req: "http_method req \<noteq> ''OPTIONS''" "apple_request s req = Inr (user, rd, pid, tid)"
    and look: "lookup_apple tid s = Some row" and val: "validation_status row = valid"
    and zombie: "\<not> shows_active (profiles s user)"
    and ok: "response (apple_iap_process_subscription w req s) = Ok200 (Activated ty e)"
  shows "\<exists>cs vr p pdate.
           validateWithApple (apple w) rd = (cs, Inr vr)
           \<and> find_subscription_purchase tid vr = Some p
           \<and> parseInt_of (expires_date_ms p) = Some e
           \<and> store_after (apple_iap_process_subscription w req s) =
               upsert_apple (apple_subscription_row user tid pid pdate e p rd vr (now w))
                 (update_profile user
                    (\<lambda>q. q\<lparr>subscription_type := Some (subscriptionType_of pid),
                            subscription_status := Some ''active'',
                            subscription_expires_at := Some e,
                            updated_at := Some (now w)\<rparr>) s)
           \<and> lookup_apple tid (store_after (apple_iap_process_subscription w req s)) =
               Some ((apple_subscription_row user tid pid pdate e p rd vr (now w))
                       \<lparr>quantity := quantity row\<rparr>)
           \<and> map transaction_id
                 (apple_iap_transactions (store_after (apple_iap_process_subscription w req s))) =
               map transaction_id (apple_iap_transactions s)"
proof -
  have first: "apple_iap_process_subscription w req s =
      apple_subscription_validate w user rd pid tid s"
    using req zombie_needs_validation [OF look val zombie]
    by (rule apple_subscription_validates)
  with ok have "response (apple_subscription_validate w user rd pid tid s) = Ok200 (Activated ty e)"
    by simp
  then obtain cs vr p where
    v: "validateWithApple (apple w) rd = (cs, Inr vr)"
      "find_subscription_purchase tid vr = Some p"
    and act: "apple_subscription_validate w user rd pid tid s =
       activate_subscription upsert_apple w user rd pid tid vr p cs s"
    by (rule apple_subscription_validate_success)
  from ok have "response (activate_subscription upsert_apple w user rd pid tid vr p cs s) =
      Ok200 (Activated ty e)"
    by (simp add: first act)
  then obtain expires pdate where
    e: "parseInt_of (expires_date_ms p) = Some expires"
    and b: "Activated ty e = Activated (subscriptionType_of pid) expires"
    and after: "store_after (activate_subscription upsert_apple w user rd pid tid vr p cs s) =
       upsert_apple (apple_subscription_row user tid pid pdate expires p rd vr (now w))
         (update_profile user
            (\<lambda>q. q\<lparr>subscription_type := Some (subscriptionType_of pid),
                    subscription_status := Some ''active'',
                    subscription_expires_at := Some expires,
                    updated_at := Some (now w)\<rparr>) s)"
    by (rule activate_subscription_success)
  from b have ee: "expires = e" by simp
  let ?new = "apple_subscription_row user tid pid pdate e p rd vr (now w)"
  let ?s1 = "update_profile user
            (\<lambda>q. q\<lparr>subscription_type := Some (subscriptionType_of pid),
                    subscription_status := Some ''active'',
                    subscription_expires_at := Some e,
                    updated_at := Some (now w)\<rparr>) s"
  have s': "store_after (apple_iap_process_subscription w req s) = upsert_apple ?new ?s1"
    using after by (simp add: first act ee)
  have "lookup_apple tid (upsert_apple ?new ?s1) = Some (?new\<lparr>quantity := quantity row\<rparr>)"
    and "map transaction_id (apple_iap_transactions (upsert_apple ?new ?s1)) =
         map transaction_id (apple_iap_transactions s)"
    using look by (rule upsert_existing; simp)+
  with v e ee s' show ?thesis by auto
qed

text \<open>
  Claim C5 (valid row without an active subscription). Let the ledger hold a valid row
  for the submitted transaction. If the caller's profile shows an active subscription
  with an expiry, the first subscription endpoint answers with the profile, calls no
  verification and changes nothing. Otherwise it does what it does for a first-time
  purchase: it posts the receipt to Apple, production first; and when it answers with an
  activation, the expiry \<open>e\<close> is the one read from Apple's reply, not the one stored in
  the row, and the ledger write is an upsert on the transaction identifier: the ledger
  keeps its identifiers, and the row for the transaction now is the new row (with the
  quantity of the old one).
\<close>

theorem zombie_revalidated:
  "http_method req \<noteq> ''OPTIONS'' \<and> apple_request s req = Inr (user, rd, pid, tid)
     \<and> lookup_apple tid s = Some row \<and> validation_status row = valid
   \<longrightarrow> (shows_active (profiles s user)
        \<longrightarrow> apple_iap_process_subscription w req s =
              respond (SubscriptionAlreadyProcessed (profiles s user)) s [])
      \<and> (\<not> shows_active (profiles s user)
        \<longrightarrow> apple_iap_process_subscription w req s =
              apple_subscription_validate w user rd pid tid s
            \<and> calls (apple_iap_process_subscription w req s) =
                fst (validateWithApple (apple w) rd)
            \<and> hd (calls (apple_iap_process_subscription w req s)) = PRODUCTION_URL
            \<and> (\<forall>ty e. response (apple_iap_process_subscription w req s) = Ok200 (Activated ty e)
                 \<longrightarrow> (\<exists>cs vr p pdate.
                        validateWithApple (apple w) rd = (cs, Inr vr)
                        \<and> find_subscription_purchase tid vr = Some p
                        \<and> parseInt_of (expires_date_ms p) = Some e
                        \<and> store_after (apple_iap_process_subscription w req s) =
                            upsert_apple
                              (apple_subscription_row user tid pid pdate e p rd vr (now w))
                              (update_profile user
                                 (\<lambda>q. q\<lparr>subscription_type := Some (subscriptionType_of pid),
                                         subscription_status := Some ''active'',
                                         subscription_expires_at := Some e,
                                         updated_at := Some (now w)\<rparr>) s)
                        \<and> lookup_apple tid (store_after (apple_iap_process_subscription w req s)) =
                            Some ((apple_subscription_row user tid pid pdate e p rd vr (now w))
                                    \<lparr>quantity := quantity row\<rparr>)
                        \<and> map transaction_id
                              (apple_iap_transactions
                                 (store_after (apple_iap_process_subscription w req s))) =
                            map transaction_id (apple_iap_transactions s))))"
proof (intro impI conjI allI; elim conjE)
  assume h: "http_method req \<noteq> ''OPTIONS''" "apple_request s req = Inr (user, rd, pid, tid)"
    "lookup_apple tid s = Some row" "validation_status row = valid"
  {
    assume "shows_active (profiles s user)"
    with h show "apple_iap_process_subscription w req s =
              respond (SubscriptionAlreadyProcessed (profiles s user)) s []"
      by (rule apple_subscription_replay)
  }
  assume z: "\<not> shows_active (profiles s user)"
  show first: "apple_iap_process_subscription w req s =
      apple_subscription_validate w user rd pid tid s"
    using h(1,2) zombie_needs_validation [OF h(3,4) z] by (rule apple_subscription_validates)
  show "calls (apple_iap_process_subscription w req s) = fst (validateWithApple (apple w) rd)"
    by (simp add: first apple_subscription_validate_calls)
  show "hd (calls (apple_iap_process_subscription w req s)) = PRODUCTION_URL"
    by (simp add: first apple_subscription_validate_calls validateWithApple_cases)
  fix ty e
  assume "response (apple_iap_process_subscription w req s) = Ok200 (Activated ty e)"
  with h z show "\<exists>cs vr p pdate.
                        validateWithApple (apple w) rd = (cs, Inr vr)
                        \<and> find_subscription_purchase tid vr = Some p
                        \<and> parseInt_of (expires_date_ms p) = Some e
                        \<and> store_after (apple_iap_process_subscription w req s) =
                            upsert_apple
                              (apple_subscription_row user tid pid pdate e p rd vr (now w))
                              (update_profile user
                                 (\<lambda>q. q\<lparr>subscription_type := Some (subscriptionType_of pid),
                                         subscription_status := Some ''active'',
                                         subscription_expires_at := Some e,
                                         updated_at := Some (now w)\<rparr>) s)
                        \<and> lookup_apple tid (store_after (apple_iap_process_subscription w req s)) =
                            Some ((apple_subscription_row user tid pid pdate e p rd vr (now w))
                                    \<lparr>quantity := quantity row\<rparr>)
                        \<and> map transaction_id
                              (apple_iap_transactions
                                 (store_after (apple_iap_process_subscription w req s))) =
                            map transaction_id (apple_iap_transactions s)"
    by (rule zombie_upserted)
qed

lemma zombie_store_sel [simp]:
  "users zombie_store = users example_store"
  "profiles zombie_store = profiles example_store"
  "apple_iap_transactions zombie_store = [stale_row]"
  "lookup_apple ''T1'' zombie_store = Some stale_row"
  "users active_store = users example_store"
  "lookup_apple ''T1'' active_store = Some stale_row"
  "shows_active (profiles active_store ''alice'')"
  "\<not> shows_active (profiles zombie_store ''alice'')"
  "validation_status stale_row = valid"
  "transaction_id stale_row = ''T1''"
  "tx_expires_at stale_row = Some 10"
  by (simp_all add: zombie_store_def active_store_def lookup_apple_def single_def stale_row_def
      shows_active_def example_profile_def)

text \<open>
  The theorem at a row stored with expiry 10 while Apple now reports 99000.
\<close>

theorem zombie_revalidated_witness:
  "tx_expires_at stale_row = Some 10
   \<and> response (apple_iap_process_subscription subscription_world (post ''a'' ''monthly'' ''T1'')
        zombie_store) = Ok200 (Activated ''monthly'' 99000)
   \<and> calls (apple_iap_process_subscription subscription_world (post ''a'' ''monthly'' ''T1'')
        zombie_store) = [PRODUCTION_URL]
   \<and> map tx_expires_at (apple_iap_transactions (store_after
        (apple_iap_process_subscription subscription_world (post ''a'' ''monthly'' ''T1'')
           zombie_store))) = [Some 99000]
   \<and> apple_iap_process_subscription subscription_world (post ''a'' ''monthly'' ''T1'')
        active_store =
      respond (SubscriptionAlreadyProcessed (profiles active_store ''alice'')) active_store []"
proof -
  let ?req = "post ''a'' ''monthly'' ''T1''"
  have z: "http_method ?req \<noteq> ''OPTIONS''
     \<and> apple_request zombie_store ?req = Inr (''alice'', ''R'', ''monthly'', ''T1'')
     \<and> lookup_apple ''T1'' zombie_store = Some stale_row \<and> validation_status stale_row = valid"
    by (simp add: post_apple_request)
  have a: "http_method ?req \<noteq> ''OPTIONS''
     \<and> apple_request active_store ?req = Inr (''alice'', ''R'', ''monthly'', ''T1'')
     \<and> lookup_apple ''T1'' active_store = Some stale_row \<and> validation_status stale_row = valid"
    by (simp add: post_apple_request)
  have nz: "\<not> shows_active (profiles zombie_store ''alice'')"
    and act: "shows_active (profiles active_store ''alice'')"
    by (simp_all del: zombie_store_sel(2))
  from zombie_revalidated [of ?req zombie_store "''alice''" "''R''" "''monthly''" "''T1''"
      stale_row subscription_world] z nz
  have first: "apple_iap_process_subscription subscription_world ?req zombie_store =
      apple_subscription_validate subscription_world ''alice'' ''R'' ''monthly'' ''T1'' zombie_store"
    by blast
  from zombie_revalidated [of ?req active_store "''alice''" "''R''" "''monthly''" "''T1''"
      stale_row subscription_world] a act
  have replay: "apple_iap_process_subscription subscription_world ?req active_store =
      respond (SubscriptionAlreadyProcessed (profiles active_store ''alice'')) active_store []"
    by blast
  have run: "apple_subscription_validate subscription_world ''alice'' ''R'' ''monthly'' ''T1''
      zombie_store =
    respond (Activated ''monthly'' 99000)
     (upsert_apple (apple_subscription_row ''alice'' ''T1'' ''monthly'' 5000 99000
               (entry ''T1'' ''monthly'' None (Some ''99000'')) ''R''
               (json (apple_reply 0 [entry ''T1'' ''monthly'' None (Some ''99000'')])) 5000)
        (update_profile ''alice''
           (\<lambda>q. q\<lparr>subscription_type := Some ''monthly'',
                   subscription_status := Some ''active'',
                   subscription_expires_at := Some 99000,
                   updated_at := Some 5000\<rparr>) zombie_store)) [PRODUCTION_URL]"
    by (simp add: apple_subscription_validate_def subscription_validate activate_example)
  have ledger: "map tx_expires_at (apple_iap_transactions (store_after
        (apple_iap_process_subscription subscription_world ?req zombie_store))) = [Some 99000]"
    by (simp add: first run upsert_apple_def)
  from first run ledger replay show ?thesis by simp
qed

section \<open>Notifications that change nothing\<close>

lemma find_owner_None:
  "(\<forall>row \<in> set (apple_iap_transactions s).
      original_transaction_id row \<noteq> Some (eq_text oid)) \<Longrightarrow> find_owner oid s = None"
  by (simp add: find_owner_def filter_empty_conv [THEN iffD2] split: list.splits)

lemma handle_unhandled:
  "notification_type payload \<notin> Some ` set handled_types \<Longrightarrow>
   handle_notification w payload d userId s = Inr s"
  by (auto simp: handle_notification_def handled_types_def Let_def)

text \<open>
  Claim C8 (benign notifications). A notification whose type is none of the handled
  ones, a notification whose original transaction identifier matches no ledger row, and
  a notification without data are each answered with \<open>received\<close> (HTTP 200), and the
  store stays as it was.
\<close>

theorem unhandled_notifications_acknowledged:
  "(notification_type payload \<notin> Some ` set handled_types
     \<longrightarrow> apple_server_notifications w (Some payload) s = respond Received s [])
   \<and> (notification_data payload = Some d
       \<and> (\<forall>row \<in> set (apple_iap_transactions s).
             original_transaction_id row \<noteq> Some (eq_text (p_original_transaction_id d)))
     \<longrightarrow> apple_server_notifications w (Some payload) s = respond Received s [])
   \<and> (notification_data payload = None
     \<longrightarrow> apple_server_notifications w (Some payload) s = respond Received s [])"
proof (intro conjI impI)
  assume "notification_type payload \<notin> Some ` set handled_types"
  then show "apple_server_notifications w (Some payload) s = respond Received s []"
    by (simp add: apple_server_notifications_def handle_unhandled split: option.splits)
next
  assume "notification_data payload = Some d
       \<and> (\<forall>row \<in> set (apple_iap_transactions s).
             original_transaction_id row \<noteq> Some (eq_text (p_original_transaction_id d)))"
  then show "apple_server_notifications w (Some payload) s = respond Received s []"
    by (simp add: apple_server_notifications_def find_owner_None)
next
  assume "notification_data payload = None"
  then show "apple_server_notifications w (Some payload) s = respond Received s []"
    by (simp add: apple_server_notifications_def)
qed

lemma renewal_notice_sel [simp]:
  "notification_type (renewal_notice ty orig) = Some ty"
  "notification_data (renewal_notice ty orig) =
     Some \<lparr>p_transaction_id = Some ''T2'', p_original_transaction_id = Some orig,
           p_product_id = Some ''monthly'', purchase_date_ms = Some ''1000'',
           expires_date_ms = Some ''99000'', p_quantity = Some ''1''\<rparr>"
  by (simp_all add: renewal_notice_def notification_data_def)

text \<open>
  The theorem at a notification of an unhandled type for a known subscription, and at a
  renewal of an unknown subscription.
\<close>

theorem unhandled_notifications_acknowledged_witness:
  "find_owner (Some ''T1'') zombie_store = Some stale_row
   \<and> apple_server_notifications subscription_world
       (Some (renewal_notice ''PRICE_INCREASE_CONSENT'' ''T1'')) zombie_store =
     respond Received zombie_store []
   \<and> apple_server_notifications subscription_world
       (Some (renewal_notice ''DID_RENEW'' ''T9'')) zombie_store =
     respond Received zombie_store []"
proof -
  let ?d = "\<lambda>orig. \<lparr>p_transaction_id = Some ''T2'', p_original_transaction_id = Some orig,
           p_product_id = Some ''monthly'', purchase_date_ms = Some ''1000'',
           expires_date_ms = Some ''99000'', p_quantity = Some ''1''\<rparr>"
  have owner: "find_owner (Some ''T1'') zombie_store = Some stale_row"
    by (simp add: find_owner_def zombie_store_def stale_row_def apple_subscription_row_def
        originalTransactionId_of_def entry_def eq_text_def)
  have unknown: "notification_type (renewal_notice ''PRICE_INCREASE_CONSENT'' ''T1'')
      \<notin> Some ` set handled_types"
    by (simp add: handled_types_def)
  have nomatch: "notification_data (renewal_notice ''DID_RENEW'' ''T9'') = Some (?d ''T9'')
       \<and> (\<forall>row \<in> set (apple_iap_transactions zombie_store).
             original_transaction_id row \<noteq> Some (eq_text (p_original_transaction_id (?d ''T9''))))"
    by (simp add: zombie_store_def stale_row_def apple_subscription_row_def
        originalTransactionId_of_def entry_def eq_text_def)
  from unhandled_notifications_acknowledged
      [of "renewal_notice ''PRICE_INCREASE_CONSENT'' ''T1''" subscription_world zombie_store]
    unknown
  have r1: "apple_server_notifications subscription_world
       (Some (renewal_notice ''PRICE_INCREASE_CONSENT'' ''T1'')) zombie_store =
     respond Received zombie_store []"
    by blast
  from unhandled_notifications_acknowledged
      [of "renewal_notice ''DID_RENEW'' ''T9''" subscription_world zombie_store "?d ''T9''"]
    nomatch
  have r2: "apple_server_notifications subscription_world
       (Some (renewal_notice ''DID_RENEW'' ''T9'')) zombie_store =
     respond Received zombie_store []"
    by blast
  from owner r1 r2 show ?thesis by simp
qed

section \<open>The purchase date of a ledger row\<close>

lemma no_new_rows [simp]:
  "new_apple_rows s s = {}" "new_google_rows s s = {}"
  "new_apple_rows s (update_profile u f s) = {}" "new_google_rows s (update_profile u f s) = {}"
  by (simp_all add: new_apple_rows_def new_google_rows_def)

lemma new_rows_insert_apple:
  assumes "row \<in> new_apple_rows s (insert_apple new s0)"
    and "apple_iap_transactions s0 = apple_iap_transactions s"
  shows "row = new"
  using assms by (auto simp: new_apple_rows_def insert_apple_def split: if_splits)

lemma new_rows_upsert_apple:
  assumes "row \<in> new_apple_rows s (upsert_apple new s0)"
    and "apple_iap_transactions s0 = apple_iap_transactions s"
  shows "purchase_date row = purchase_date new \<and> validation_status row = validation_status new"
  using assms by (auto simp: new_apple_rows_def upsert_apple_def split: if_splits)

lemma new_rows_insert_google:
  assumes "row \<in> new_google_rows s (insert_google new s0)"
    and "google_play_transactions s0 = google_play_transactions s"
  shows "row = new"
  using assms by (auto simp: new_google_rows_def insert_google_def split: if_splits)

lemma row_dates [simp]:
  "purchase_date (apple_invalid_row user tid pid ty clock rd env) = clock"
  "validation_status (apple_invalid_row user tid pid ty clock rd env) = invalid"
  "purchase_date (apple_credit_row user tid pid pdate p rd env clock) = pdate"
  "purchase_date (apple_subscription_row user tid pid pdate e p rd vr clock) = pdate"
  "g_purchase_date (google_invalid_row user oid tok pid pdate) = pdate"
  "g_purchase_date (google_credit_row user oid tok pid pdate gr clock) = pdate"
  by (simp_all add: apple_invalid_row_def apple_credit_row_def apple_subscription_row_def
      google_invalid_row_def google_credit_row_def)

lemma apple_add_credits_new_rows:
  assumes "row \<in> new_apple_rows s (store_after (apple_add_credits w user rd pid tid vr p cs s))"
  shows "validation_status row = valid
         \<and> purchase_date_of (now w) (purchase_date_ms p) = Inr (purchase_date row)"
  using assms
  by (auto simp: apple_add_credits_def Let_def split: option.splits sum.splits
      dest!: new_rows_insert_apple)

lemma apple_credits_validate_new_rows:
  assumes new: "row \<in> new_apple_rows s (store_after (apple_credits_validate w user rd pid tid s))"
  shows "\<exists>cs vr. validateWithApple (apple w) rd = (cs, Inr vr)
           \<and> (if status vr \<noteq> 0
               then validation_status row = invalid \<and> purchase_date row = now w
               else validation_status row = valid
                    \<and> (\<exists>in_app p. receipt vr = Some in_app
                          \<and> find_credit_purchase tid in_app vr = Some p
                          \<and> purchase_date_of (now w) (purchase_date_ms p) =
                              Inr (purchase_date row)))"
proof -
  obtain cs res where v: "validateWithApple (apple w) rd = (cs, res)"
    by (cases "validateWithApple (apple w) rd")
  show ?thesis
  proof (cases res)
    case (Inl e)
    with v new show ?thesis by (simp add: apple_credits_validate_def)
  next
    case (Inr vr)
    note v = v [unfolded Inr]
    show ?thesis
    proof (cases "status vr = 0")
      case False
      with v new have "row = apple_invalid_row user tid pid consumable (now w) rd (r_environment vr)"
        by (auto simp: apple_credits_refused dest: new_rows_insert_apple)
      with v False show ?thesis by simp
    next
      case True
      from v True new obtain in_app p where
        found: "receipt vr = Some in_app" "find_credit_purchase tid in_app vr = Some p"
        and "row \<in> new_apple_rows s (store_after (apple_add_credits w user rd pid tid vr p cs s))"
        by (auto simp: apple_credits_validate_def split: option.splits if_splits)
      from this(3) have "validation_status row = valid
         \<and> purchase_date_of (now w) (purchase_date_ms p) = Inr (purchase_date row)"
        by (rule apple_add_credits_new_rows)
      with v True found show ?thesis by auto
    qed
  qed
qed

lemma apple_credits_new_rows:
  assumes "row \<in> new_apple_rows s (store_after (apple_iap_process_credits w req s))"
  shows "\<exists>user rd pid tid cs vr.
           apple_request s req = Inr (user, rd, pid, tid)
           \<and> validateWithApple (apple w) rd = (cs, Inr vr)
           \<and> (if status vr \<noteq> 0
               then validation_status row = invalid \<and> purchase_date row = now w
               else validation_status row = valid
                    \<and> (\<exists>in_app p. receipt vr = Some in_app
                          \<and> find_credit_purchase tid in_app vr = Some p
                          \<and> purchase_date_of (now w) (purchase_date_ms p) =
                              Inr (purchase_date row)))"
proof -
  from assms obtain user rd pid tid where
    req: "apple_request s req = Inr (user, rd, pid, tid)"
    and "row \<in> new_apple_rows s (store_after (apple_credits_validate w user rd pid tid s))"
    by (auto simp: apple_iap_process_credits_def split: if_splits sum.splits option.splits)
  from this(2) have "\<exists>cs vr. validateWithApple (apple w) rd = (cs, Inr vr)
           \<and> (if status vr \<noteq> 0
               then validation_status row = invalid \<and> purchase_date row = now w
               else validation_status row = valid
                    \<and> (\<exists>in_app p. receipt vr = Some in_app
                          \<and> find_credit_purchase tid in_app vr = Some p
                          \<and> purchase_date_of (now w) (purchase_date_ms p) =
                              Inr (purchase_date row)))"
    by (rule apple_credits_validate_new_rows)
  with req show ?thesis by blast
qed

lemma activate_subscription_new_rows:
  assumes wr: "\<And>row new s0. row \<in> new_apple_rows s (write new s0)
      \<Longrightarrow> apple_iap_transactions s0 = apple_iap_transactions s
      \<Longrightarrow> purchase_date row = purchase_date new \<and> validation_status row = validation_status new"
    and new: "row \<in> new_apple_rows s
       (store_after (activate_subscription write w user rd pid tid vr p cs s))"
  shows "validation_status row = valid
         \<and> purchase_date_of (now w) (purchase_date_ms p) = Inr (purchase_date row)"
  using new
  by (auto simp: activate_subscription_def Let_def split: if_splits option.splits sum.splits
      dest!: wr)

lemma apple_subscription_validate_new_rows:
  assumes new: "row \<in> new_apple_rows s (store_after (apple_subscription_validate w user rd pid tid s))"
  shows "\<exists>cs vr. validateWithApple (apple w) rd = (cs, Inr vr)
           \<and> (if status vr \<noteq> 0
               then validation_status row = invalid \<and> purchase_date row = now w
               else validation_status row = valid
                    \<and> (\<exists>p. find_subscription_purchase tid vr = Some p
                          \<and> purchase_date_of (now w) (purchase_date_ms p) =
                              Inr (purchase_date row)))"
proof -
  obtain cs res where v: "validateWithApple (apple w) rd = (cs, res)"
    by (cases "validateWithApple (apple w) rd")
  show ?thesis
  proof (cases res)
    case (Inl e)
    with v new show ?thesis by (simp add: apple_subscription_validate_def)
  next
    case (Inr vr)
    note v = v [unfolded Inr]
    show ?thesis
    proof (cases "status vr = 0")
      case False
      with v new have "row = apple_invalid_row user tid pid subscription (now w) rd (r_environment vr)"
        by (auto simp: apple_subscription_refused dest: new_rows_insert_apple)
      with v False show ?thesis by simp
    next
      case True
      from v True new obtain p where
        found: "find_subscription_purchase tid vr = Some p"
        and "row \<in> new_apple_rows s
               (store_after (activate_subscription upsert_apple w user rd pid tid vr p cs s))"
        by (auto simp: apple_subscription_validate_def split: option.splits if_splits)
      from this(2) have "validation_status row = valid
         \<and> purchase_date_of (now w) (purchase_date_ms p) = Inr (purchase_date row)"
        by (rule activate_subscription_new_rows [rotated]) (auto dest: new_rows_upsert_apple)
      with v True found show ?thesis by auto
    qed
  qed
qed

lemma apple_subscription_validate_simple_new_rows:
  assumes new: "row \<in> new_apple_rows s (store_after (apple_subscription_validate_simple w user rd pid tid s))"
  shows "\<exists>cs vr. validateWithApple (apple w) rd = (cs, Inr vr)
           \<and> (if status vr \<noteq> 0
               then validation_status row = invalid \<and> purchase_date row = now w
               else validation_status row = valid
                    \<and> (\<exists>p. find_renewal_purchase tid vr = Some p
                          \<and> purchase_date_of (now w) (purchase_date_ms p) =
                              Inr (purchase_date row)))"
proof -
  obtain cs res where v: "validateWithApple (apple w) rd = (cs, res)"
    by (cases "validateWithApple (apple w) rd")
  show ?thesis
  proof (cases res)
    case (Inl e)
    with v new show ?thesis by (simp add: apple_subscription_validate_simple_def)
  next
    case (Inr vr)
    note v = v [unfolded Inr]
    show ?thesis
    proof (cases "status vr = 0")
      case False
      with v new have "row = apple_invalid_row user tid pid subscription (now w) rd (r_environment vr)"
        by (auto simp: apple_subscription_refused dest: new_rows_insert_apple)
      with v False show ?thesis by simp
    next
      case True
      from v True new obtain p where
        found: "find_renewal_purchase tid vr = Some p"
        and "row \<in> new_apple_rows s
               (store_after (activate_subscription insert_apple w user rd pid tid vr p cs s))"
        by (auto simp: apple_subscription_validate_simple_def split: option.splits if_splits)
      from this(2) have "validation_status row = valid
         \<and> purchase_date_of (now w) (purchase_date_ms p) = Inr (purchase_date row)"
        by (rule activate_subscription_new_rows [rotated]) (auto dest: new_rows_insert_apple)
      with v True found show ?thesis by auto
    qed
  qed
qed

lemma apple_subscription_new_rows:
  assumes "row \<in> new_apple_rows s (store_after (apple_iap_process_subscription w req s))"
  shows "\<exists>user rd pid tid cs vr.
           apple_request s req = Inr (user, rd, pid, tid)
           \<and> validateWithApple (apple w) rd = (cs, Inr vr)
           \<and> (if status vr \<noteq> 0
               then validation_status row = invalid \<and> purchase_date row = now w
               else validation_status row = valid
                    \<and> (\<exists>p. find_subscription_purchase tid vr = Some p
                          \<and> purchase_date_of (now w) (purchase_date_ms p) =
                              Inr (purchase_date row)))"
proof -
  from assms obtain user rd pid tid where
    req: "apple_request s req = Inr (user, rd, pid, tid)"
    and "row \<in> new_apple_rows s (store_after (apple_subscription_validate w user rd pid tid s))"
    by (auto simp: apple_iap_process_subscription_def split: if_splits sum.splits option.splits)
  from this(2) have "\<exists>cs vr. validateWithApple (apple w) rd = (cs, Inr vr)
           \<and> (if status vr \<noteq> 0
               then validation_status row = invalid \<and> purchase_date row = now w
               else validation_status row = valid
                    \<and> (\<exists>p. find_subscription_purchase tid vr = Some p
                          \<and> purchase_date_of (now w) (purchase_date_ms p) =
                              Inr (purchase_date row)))"
    by (rule apple_subscription_validate_new_rows)
  with req show ?thesis by blast
qed

lemma apple_subscription_simple_new_rows:
  assumes "row \<in> new_apple_rows s (store_after (apple_iap_process_subscription_simple w req s))"
  shows "\<exists>user rd pid tid cs vr.
           apple_request s req = Inr (user, rd, pid, tid)
           \<and> validateWithApple (apple w) rd = (cs, Inr vr)
           \<and> (if status vr \<noteq> 0
               then validation_status row = invalid \<and> purchase_date row = now w
               else validation_status row = valid
                    \<and> (\<exists>p. find_renewal_purchase tid vr = Some p
                          \<and> purchase_date_of (now w) (purchase_date_ms p) =
                              Inr (purchase_date row)))"
proof -
  from assms obtain user rd pid tid where
    req: "apple_request s req = Inr (user, rd, pid, tid)"
    and "row \<in> new_apple_rows s
           (store_after (apple_subscription_validate_simple w user rd pid tid s))"
    by (auto simp: apple_iap_process_subscription_simple_def
        split: if_splits sum.splits option.splits)
  from this(2) have "\<exists>cs vr. validateWithApple (apple w) rd = (cs, Inr vr)
           \<and> (if status vr \<noteq> 0
               then validation_status row = invalid \<and> purchase_date row = now w
               else validation_status row = valid
                    \<and> (\<exists>p. find_renewal_purchase tid vr = Some p
                          \<and> purchase_date_of (now w) (purchase_date_ms p) =
                              Inr (purchase_date row)))"
    by (rule apple_subscription_validate_simple_new_rows)
  with req show ?thesis by blast
qed

lemma google_add_credits_new_rows:
  assumes "row \<in> new_google_rows s (store_after (google_add_credits w user tok pid oid vr s))"
  shows "toISOString (parseInt_of (purchaseTimeMillis vr)) = Inr (g_purchase_date row)"
  using assms
  by (auto simp: google_add_credits_def Let_def split: option.splits sum.splits
      dest!: new_rows_insert_google)

lemma google_credits_new_rows:
  assumes new: "row \<in> new_google_rows s (store_after (google_iap_process_credits w req s))"
  shows "\<exists>vr. google w = Inr vr
           \<and> toISOString (parseInt_of (purchaseTimeMillis vr)) = Inr (g_purchase_date row)"
proof -
  from new obtain user tok pid oid where
    "row \<in> new_google_rows s (store_after (google_credits_validate w user tok pid oid s))"
    by (auto simp: google_iap_process_credits_def split: if_splits sum.splits option.splits)
  then obtain vr where v: "google w = Inr vr"
    and cases: "purchaseState vr \<noteq> 0
        \<and> (\<exists>pdate. toISOString (parseInt_of (purchaseTimeMillis vr)) = Inr pdate
               \<and> row \<in> new_google_rows s (insert_google (google_invalid_row user oid tok pid pdate) s))
      \<or> row \<in> new_google_rows s (store_after (google_add_credits w user tok pid oid vr s))"
    by (auto simp: google_credits_validate_def split: sum.splits if_splits)
  from cases have "toISOString (parseInt_of (purchaseTimeMillis vr)) = Inr (g_purchase_date row)"
    by (auto dest!: new_rows_insert_google google_add_credits_new_rows)
  with v show ?thesis by blast
qed

lemma purchase_date_of_iff:
  "purchase_date_of c ms = Inr d \<longleftrightarrow>
     (if truthy ms then parseInt_of ms = Some d \<and> \<bar>d\<bar> \<le> 8640000000000000 else d = c)"
  by (auto simp: purchase_date_of_def toISOString_def split: option.splits)

text \<open>
  Claim C9, as amended (purchase date of the rows that the purchase endpoints write).
  Every row that an Apple purchase endpoint adds to the ledger, or rewrites, is either
  the row for a receipt that Apple rejected, which is invalid and dated with the
  server's clock, or a valid row dated from the entry the endpoint settled on: with the
  number read from its \<open>purchase_date_ms\<close> when that field is truthy, and with the
  server's clock when it is not. Every row the Google credits endpoint adds is dated
  with the number read from \<open>purchaseTimeMillis\<close> of Google's reply.
\<close>

theorem purchase_date_sources:
  "(\<forall>row \<in> new_apple_rows s (store_after (apple_iap_process_credits w req s)).
      \<exists>user rd pid tid cs vr.
        apple_request s req = Inr (user, rd, pid, tid)
        \<and> validateWithApple (apple w) rd = (cs, Inr vr)
        \<and> (if status vr \<noteq> 0
            then validation_status row = invalid \<and> purchase_date row = now w
            else validation_status row = valid
                 \<and> (\<exists>in_app p. receipt vr = Some in_app
                       \<and> find_credit_purchase tid in_app vr = Some p
                       \<and> purchase_date_of (now w) (purchase_date_ms p) =
                           Inr (purchase_date row))))
   \<and> (\<forall>row \<in> new_apple_rows s (store_after (apple_iap_process_subscription w req s)).
      \<exists>user rd pid tid cs vr.
        apple_request s req = Inr (user, rd, pid, tid)
        \<and> validateWithApple (apple w) rd = (cs, Inr vr)
        \<and> (if status vr \<noteq> 0
            then validation_status row = invalid \<and> purchase_date row = now w
            else validation_status row = valid
                 \<and> (\<exists>p. find_subscription_purchase tid vr = Some p
                       \<and> purchase_date_of (now w) (purchase_date_ms p) =
                           Inr (purchase_date row))))
   \<and> (\<forall>row \<in> new_apple_rows s (store_after (apple_iap_process_subscription_simple w req s)).
      \<exists>user rd pid tid cs vr.
        apple_request s req = Inr (user, rd, pid, tid)
        \<and> validateWithApple (apple w) rd = (cs, Inr vr)
        \<and> (if status vr \<noteq> 0
            then validation_status row = invalid \<and> purchase_date row = now w
            else validation_status row = valid
                 \<and> (\<exists>p. find_renewal_purchase tid vr = Some p
                       \<and> purchase_date_of (now w) (purchase_date_ms p) =
                           Inr (purchase_date row))))
   \<and> (\<forall>row \<in> new_google_rows s (store_after (google_iap_process_credits w req s)).
      \<exists>vr. google w = Inr vr
        \<and> toISOString (parseInt_of (purchaseTimeMillis vr)) = Inr (g_purchase_date row))
   \<and> (purchase_date_of c ms = Inr d \<longleftrightarrow>
        (if truthy ms then parseInt_of ms = Some d \<and> \<bar>d\<bar> \<le> 8640000000000000 else d = c))"
  using apple_credits_new_rows [of _ s w req] apple_subscription_new_rows [of _ s w req]
    apple_subscription_simple_new_rows [of _ s w req] google_credits_new_rows [of _ s w req]
    purchase_date_of_iff [of c ms d]
  by blast

lemma worlds_sel [simp]:
  "update_error single_credit_world = None" "now single_credit_world = 5000"
  "update_error sandbox_world = None" "now sandbox_world = 5000"
  "update_error undated_world = None" "now undated_world = 5000"
  "update_error pack_world = None" "now pack_world = 5000"
  "update_error gems_world = None" "now gems_world = 5000"
  by (simp_all add: single_credit_world_def sandbox_world_def undated_world_def pack_world_def
      gems_world_def)

lemma first_purchase_store:
  "store_after (apple_iap_process_credits single_credit_world (post ''a'' ''single_credit'' ''T1'')
      example_store) =
   insert_apple (apple_credit_row ''alice'' ''T1'' ''single_credit'' 1000
       (entry ''T1'' ''single_credit'' (Some ''1000'') None) ''R'' (Some Production) 5000)
     (update_profile ''alice'' (\<lambda>q. q\<lparr>room_credits := Some 4, updated_at := Some 5000\<rparr>)
        example_store)"
  by (simp add: apple_credits_fresh [OF post_method post_apple_request] lookup_apple_def single_def
      apple_credits_verified [OF single_credit_validate]
      apple_add_credits_def credits_or_zero_def example_profile_def
      purchase_date_of_def truthy_def parseInt_of_def toISOString_def Let_def)

text \<open>
  The amended claim at alice's single-credit purchase: the row is dated 1000, as the
  receipt says, while the clock shows 5000.
\<close>

theorem purchase_date_sources_witness:
  "apple_credit_row ''alice'' ''T1'' ''single_credit'' 1000
       (entry ''T1'' ''single_credit'' (Some ''1000'') None) ''R'' (Some Production) 5000
     \<in> new_apple_rows example_store
         (store_after (apple_iap_process_credits single_credit_world
            (post ''a'' ''single_credit'' ''T1'') example_store))
   \<and> now single_credit_world = 5000
   \<and> (\<exists>in_app p.
         receipt (json (apple_reply 0 [entry ''T1'' ''single_credit'' (Some ''1000'') None]))
           = Some in_app
         \<and> find_credit_purchase ''T1'' in_app
             (json (apple_reply 0 [entry ''T1'' ''single_credit'' (Some ''1000'') None])) = Some p
         \<and> purchase_date_of 5000 (purchase_date_ms p) = Inr 1000)"
proof -
  let ?req = "post ''a'' ''single_credit'' ''T1''"
  let ?row = "apple_credit_row ''alice'' ''T1'' ''single_credit'' 1000
       (entry ''T1'' ''single_credit'' (Some ''1000'') None) ''R'' (Some Production) 5000"
  let ?vr = "json (apple_reply 0 [entry ''T1'' ''single_credit'' (Some ''1000'') None])"
  have mem: "?row \<in> new_apple_rows example_store
         (store_after (apple_iap_process_credits single_credit_world ?req example_store))"
    by (simp add: first_purchase_store new_apple_rows_def insert_apple_def)
  have clock: "now single_credit_world = 5000"
    by simp
  from purchase_date_sources [of example_store single_credit_world ?req] mem
  obtain user rd pid tid cs vr where
    "apple_request example_store ?req = Inr (user, rd, pid, tid)"
    "validateWithApple (apple single_credit_world) rd = (cs, Inr vr)"
    "if status vr \<noteq> 0
     then validation_status ?row = invalid \<and> purchase_date ?row = now single_credit_world
     else validation_status ?row = valid
          \<and> (\<exists>in_app p. receipt vr = Some in_app
                \<and> find_credit_purchase tid in_app vr = Some p
                \<and> purchase_date_of (now single_credit_world) (purchase_date_ms p) =
                    Inr (purchase_date ?row))"
    by blast
  then have "\<exists>in_app p. receipt ?vr = Some in_app
         \<and> find_credit_purchase ''T1'' in_app ?vr = Some p
         \<and> purchase_date_of 5000 (purchase_date_ms p) = Inr 1000"
    by (auto simp: post_apple_request single_credit_validate)
  with mem clock show ?thesis by simp
qed

lemma undated_validate:
  "validateWithApple (apple undated_world) rd =
     ([PRODUCTION_URL], Inr (json (apple_reply 0 [entry ''T1'' ''single_credit'' None None])))"
  by (simp add: undated_world_def example_validate)

text \<open>
  Against claim C9 as stated: the row that records a receipt Apple rejected is dated
  with the server's clock, and so is the valid row for a receipt whose entry carries no
  \<open>purchase_date_ms\<close>.
\<close>

theorem purchase_date_is_server_clock:
  "now sandbox_world = 5000
   \<and> apple_iap_transactions (store_after (apple_iap_process_credits sandbox_world
        (post ''a'' ''single_credit'' ''T1'') example_store)) =
      [apple_invalid_row ''alice'' ''T1'' ''single_credit'' consumable 5000 ''R'' (Some Production)]
   \<and> purchase_date
        (apple_invalid_row ''alice'' ''T1'' ''single_credit'' consumable 5000 ''R'' (Some Production))
      = 5000
   \<and> now undated_world = 5000
   \<and> map purchase_date (apple_iap_transactions (store_after (apple_iap_process_credits
        undated_world (post ''a'' ''single_credit'' ''T1'') example_store))) = [5000]
   \<and> map validation_status (apple_iap_transactions (store_after (apple_iap_process_credits
        undated_world (post ''a'' ''single_credit'' ''T1'') example_store))) = [valid]"
proof -
  have v: "validateWithApple (apple sandbox_world) ''R'' =
      ([PRODUCTION_URL, SANDBOX_URL], Inr (json (apple_reply 21002 [])))"
    by (simp add: sandbox_world_def example_validate)
  have a: "apple_iap_transactions (store_after (apple_iap_process_credits sandbox_world
        (post ''a'' ''single_credit'' ''T1'') example_store)) =
      [apple_invalid_row ''alice'' ''T1'' ''single_credit'' consumable 5000 ''R'' (Some Production)]"
    by (simp add: apple_credits_fresh [OF post_method post_apple_request] lookup_apple_def
        single_def apple_credits_refused [OF v] insert_apple_def)
  have b: "apple_iap_transactions (store_after (apple_iap_process_credits
        undated_world (post ''a'' ''single_credit'' ''T1'') example_store)) =
      [apple_credit_row ''alice'' ''T1'' ''single_credit'' 5000
         (entry ''T1'' ''single_credit'' None None) ''R'' (Some Production) 5000]"
    by (simp add: apple_credits_fresh [OF post_method post_apple_request] lookup_apple_def
        single_def apple_credits_verified [OF undated_validate]
        apple_add_credits_def credits_or_zero_def example_profile_def
        purchase_date_of_def truthy_def Let_def insert_apple_def)
  show ?thesis
    by (simp add: a b)
qed

lemma renewal_row_clock:
  "renewal_row payload userId d pid expires clock = Some row \<Longrightarrow> purchase_date row = clock"
  by (auto simp: renewal_row_def Let_def split: option.splits if_splits)

text \<open>
  A renewal of the subscription that \<open>T1\<close> began: alice's profile becomes active until
  99000, and the renewal \<open>T2\<close> is entered in the ledger, dated with the clock.
\<close>

lemma renewal_example:
  "apple_server_notifications subscription_world (Some (renewal_notice ''DID_RENEW'' ''T1''))
     zombie_store =
   respond Received
     (zombie_store
        \<lparr>profiles := [''alice'' \<mapsto> (example_profile 3)
            \<lparr>subscription_type := Some ''monthly'', subscription_status := Some ''active'',
             subscription_expires_at := Some 99000, updated_at := Some 5000\<rparr>],
         apple_iap_transactions :=
           [stale_row,
            \<lparr>user_id = ''alice'', transaction_id = ''T2'',
             original_transaction_id = Some ''T1'', product_id = ''monthly'',
             product_type = subscription, purchase_date = 5000, quantity = Some 1,
             tx_expires_at = Some 99000, auto_renew = Some True, receipt_data = None,
             environment = Some Sandbox, validation_status = valid, processed = True,
             processed_at = Some 5000\<rparr>]\<rparr>) []"
proof -
  let ?d = "\<lparr>p_transaction_id = Some ''T2'', p_original_transaction_id = Some ''T1'',
           p_product_id = Some ''monthly'', purchase_date_ms = Some ''1000'',
           expires_date_ms = Some ''99000'', p_quantity = Some ''1''\<rparr>"
  have owner: "find_owner (Some ''T1'') zombie_store = Some stale_row"
    by (simp add: find_owner_def stale_row_def apple_subscription_row_def
        originalTransactionId_of_def entry_def eq_text_def)
  have urow: "user_id stale_row = ''alice''"
    by (simp add: stale_row_def apple_subscription_row_def)
  have row: "renewal_row (renewal_notice ''DID_RENEW'' ''T1'') ''alice'' ?d ''monthly'' 99000 5000 =
      Some \<lparr>user_id = ''alice'', transaction_id = ''T2'',
             original_transaction_id = Some ''T1'', product_id = ''monthly'',
             product_type = subscription, purchase_date = 5000, quantity = Some 1,
             tx_expires_at = Some 99000, auto_renew = Some True, receipt_data = None,
             environment = Some Sandbox, validation_status = valid, processed = True,
             processed_at = Some 5000\<rparr>"
    by (simp add: renewal_row_def renewal_notice_def)
  have h: "handle_notification subscription_world (renewal_notice ''DID_RENEW'' ''T1'') ?d
      ''alice'' zombie_store =
    Inr (zombie_store
        \<lparr>profiles := [''alice'' \<mapsto> (example_profile 3)
            \<lparr>subscription_type := Some ''monthly'', subscription_status := Some ''active'',
             subscription_expires_at := Some 99000, updated_at := Some 5000\<rparr>],
         apple_iap_transactions :=
           [stale_row,
            \<lparr>user_id = ''alice'', transaction_id = ''T2'',
             original_transaction_id = Some ''T1'', product_id = ''monthly'',
             product_type = subscription, purchase_date = 5000, quantity = Some 1,
             tx_expires_at = Some 99000, auto_renew = Some True, receipt_data = None,
             environment = Some Sandbox, validation_status = valid, processed = True,
             processed_at = Some 5000\<rparr>]\<rparr>)"
    by (simp add: handle_notification_def row parseInt_of_def toISOString_def
        try_update_profile_def update_profile_def insert_apple_def fits_integer_def Let_def
        zombie_store_def example_store_def)
  show ?thesis
    by (simp add: apple_server_notifications_def owner urow h)
qed

section \<open>What the handlers preserve\<close>

lemma apple_add_credits_preserves:
  assumes "P s" and ins: "\<And>row s'. P s' \<Longrightarrow> P (insert_apple row s')"
    and upd: "\<And>u f s'. P s' \<Longrightarrow> P (update_profile u f s')"
  shows "P (store_after (apple_add_credits w user rd pid tid vr p cs s))"
  using assms(1)
  by (auto simp: apple_add_credits_def Let_def intro!: ins upd split: option.splits sum.splits)

lemma apple_credits_preserves:
  assumes "P s" and ins: "\<And>row s'. P s' \<Longrightarrow> P (insert_apple row s')"
    and upd: "\<And>u f s'. P s' \<Longrightarrow> P (update_profile u f s')"
  shows "P (store_after (apple_iap_process_credits w req s))"
  using assms(1)
  by (auto simp: apple_iap_process_credits_def apple_credits_validate_def
      intro!: ins apple_add_credits_preserves [of P, OF _ ins upd]
      split: if_splits option.splits sum.splits prod.splits)

lemma google_add_credits_preserves:
  assumes "P s" and ins: "\<And>row s'. P s' \<Longrightarrow> P (insert_google row s')"
    and upd: "\<And>u f s'. P s' \<Longrightarrow> P (update_profile u f s')"
  shows "P (store_after (google_add_credits w user tok pid oid vr s))"
  using assms(1)
  by (auto simp: google_add_credits_def Let_def intro!: ins upd split: option.splits sum.splits)

lemma google_credits_preserves:
  assumes "P s" and ins: "\<And>row s'. P s' \<Longrightarrow> P (insert_google row s')"
    and upd: "\<And>u f s'. P s' \<Longrightarrow> P (update_profile u f s')"
  shows "P (store_after (google_iap_process_credits w req s))"
  using assms(1)
  by (auto simp: google_iap_process_credits_def google_credits_validate_def
      intro!: ins google_add_credits_preserves [of P, OF _ ins upd]
      split: if_splits option.splits sum.splits prod.splits)

lemma activate_subscription_preserves:
  assumes "P s" and wr: "\<And>row s'. P s' \<Longrightarrow> transaction_id row = tid \<Longrightarrow> P (write row s')"
    and upd: "\<And>u f s'. P s' \<Longrightarrow> P (update_profile u f s')"
  shows "P (store_after (activate_subscription write w user rd pid tid vr p cs s))"
  using assms(1)
  by (auto simp: activate_subscription_def Let_def intro!: wr upd
      split: option.splits sum.splits)

lemma apple_subscription_validate_preserves:
  assumes "P s" and ins: "\<And>row s'. P s' \<Longrightarrow> P (insert_apple row s')"
    and ups: "\<And>row s'. P s' \<Longrightarrow> transaction_id row = tid \<Longrightarrow> P (upsert_apple row s')"
    and upd: "\<And>u f s'. P s' \<Longrightarrow> P (update_profile u f s')"
  shows "P (store_after (apple_subscription_validate w user rd pid tid s))"
  using assms(1)
  by (auto simp: apple_subscription_validate_def
      intro!: ins activate_subscription_preserves [of P, OF _ ups upd]
      split: if_splits option.splits sum.splits prod.splits)

lemma apple_subscription_preserves:
  assumes "P s" and ins: "\<And>row s'. P s' \<Longrightarrow> P (insert_apple row s')"
    and ups: "\<And>row s'. P s' \<Longrightarrow> \<not> apple_rejected (transaction_id row) s
                \<Longrightarrow> P (upsert_apple row s')"
    and upd: "\<And>u f s'. P s' \<Longrightarrow> P (update_profile u f s')"
  shows "P (store_after (apple_iap_process_subscription w req s))"
  using assms(1)
  by (auto simp: apple_iap_process_subscription_def apple_rejected_def
      intro!: apple_subscription_validate_preserves [of P, OF _ ins _ upd] ups
      split: if_splits option.splits sum.splits prod.splits)

lemma apple_subscription_simple_preserves:
  assumes "P s" and ins: "\<And>row s'. P s' \<Longrightarrow> P (insert_apple row s')"
    and upd: "\<And>u f s'. P s' \<Longrightarrow> P (update_profile u f s')"
  shows "P (store_after (apple_iap_process_subscription_simple w req s))"
  using assms(1)
  by (auto simp: apple_iap_process_subscription_simple_def apple_subscription_validate_simple_def
      intro!: ins activate_subscription_preserves [of P, OF _ _ upd]
      split: if_splits option.splits sum.splits prod.splits)

lemma webhook_preserves:
  assumes "P s" and ins: "\<And>row s'. P s' \<Longrightarrow> P (insert_apple row s')"
    and upd: "\<And>u f s'. P s' \<Longrightarrow> P (update_profile u f s')"
    and rf: "\<And>t s'. P s' \<Longrightarrow> P (mark_refunded t s')"
  shows "P (store_after (apple_server_notifications w req s))"
proof -
  have tryu: "\<And>u f s'. P s' \<Longrightarrow> P (try_update_profile w u f s')"
    by (simp add: try_update_profile_def upd split: option.splits)
  have "\<And>payload d u s1. handle_notification w payload d u s = Inr s1 \<Longrightarrow> P s1"
    using assms(1)
    by (auto simp: handle_notification_def Let_def intro!: ins tryu rf
        split: if_splits option.splits sum.splits)
  then show ?thesis
    using assms(1)
    by (auto simp: apple_server_notifications_def split: option.splits sum.splits)
qed

section \<open>The unique keys are kept\<close>

lemma unique_frames [simp]:
  "ledgers_unique (update_profile u f s) = ledgers_unique s"
  by (simp add: ledgers_unique_def)

lemma unique_insert:
  "ledgers_unique s \<Longrightarrow> ledgers_unique (insert_apple row s)"
  "ledgers_unique s \<Longrightarrow> ledgers_unique (insert_google grow s)"
  by (auto simp: ledgers_unique_def insert_apple_def insert_google_def)

lemma upsert_ids:
  "transaction_id row = k \<Longrightarrow>
   map (transaction_id \<circ>
        (\<lambda>r. if transaction_id r = k then row\<lparr>quantity := quantity r\<rparr> else r)) xs =
   map transaction_id xs"
  by (induction xs) auto

lemma unique_upsert: "ledgers_unique s \<Longrightarrow> ledgers_unique (upsert_apple row s)"
  by (auto simp: ledgers_unique_def upsert_apple_def upsert_ids)

lemma refund_ids:
  "map (transaction_id \<circ>
        (\<lambda>r. if transaction_id r = k then r\<lparr>validation_status := refunded\<rparr> else r)) xs =
   map transaction_id xs"
  by (induction xs) auto

lemma unique_refund: "ledgers_unique s \<Longrightarrow> ledgers_unique (mark_refunded t s)"
  by (simp add: ledgers_unique_def mark_refunded_def refund_ids)

lemma step_unique: "ledgers_unique s \<Longrightarrow> ledgers_unique (step e s)"
proof (cases e)
  case (AppleCredits w req)
  assume "ledgers_unique s"
  with AppleCredits show ?thesis
    by (auto intro!: apple_credits_preserves [of ledgers_unique] unique_insert)
next
  case (GoogleCredits w req)
  assume "ledgers_unique s"
  with GoogleCredits show ?thesis
    by (auto intro!: google_credits_preserves [of ledgers_unique] unique_insert)
next
  case (AppleSubscription w req)
  assume "ledgers_unique s"
  with AppleSubscription show ?thesis
    by (auto intro!: apple_subscription_preserves [of ledgers_unique] unique_insert unique_upsert)
next
  case (AppleSubscriptionSimple w req)
  assume "ledgers_unique s"
  with AppleSubscriptionSimple show ?thesis
    by (auto intro!: apple_subscription_simple_preserves [of ledgers_unique] unique_insert)
next
  case (Webhook w req)
  assume "ledgers_unique s"
  with Webhook show ?thesis
    by (auto intro!: webhook_preserves [of ledgers_unique] unique_insert unique_refund)
qed

lemma run_unique: "ledgers_unique s \<Longrightarrow> ledgers_unique (run es s)"
  by (induction es arbitrary: s) (simp_all add: step_unique)

lemma example_store_unique: "ledgers_unique example_store"
  by (simp add: ledgers_unique_def)

section \<open>Rejection is permanent\<close>

lemma lookup_frames [simp]:
  "lookup_apple t (update_profile u f s) = lookup_apple t s"
  "lookup_apple t (insert_google grow s) = lookup_apple t s"
  "lookup_google t (update_profile u f s) = lookup_google t s"
  "lookup_google t (insert_apple row s) = lookup_google t s"
  "lookup_google t (upsert_apple row s) = lookup_google t s"
  "lookup_google t (mark_refunded x s) = lookup_google t s"
  by (simp_all add: lookup_apple_def lookup_google_def mark_refunded_def)

lemma lookup_apple_insert:
  assumes "lookup_apple t s = Some r"
  shows "lookup_apple t (insert_apple row s) = Some r"
proof -
  from assms have one: "filter (\<lambda>x. transaction_id x = t) (apple_iap_transactions s) = [r]"
    unfolding lookup_apple_def by (rule single_Some)
  then have "r \<in> set (filter (\<lambda>x. transaction_id x = t) (apple_iap_transactions s))" by simp
  then have "t \<in> set (map transaction_id (apple_iap_transactions s))" by auto
  then show ?thesis
    using assms by (auto simp: insert_apple_def lookup_apple_def)
qed

lemma lookup_google_insert:
  assumes "lookup_google t s = Some r"
  shows "lookup_google t (insert_google row s) = Some r"
proof -
  from assms have one: "filter (\<lambda>x. order_id x = t) (google_play_transactions s) = [r]"
    unfolding lookup_google_def by (rule single_Some)
  then have "r \<in> set (filter (\<lambda>x. order_id x = t) (google_play_transactions s))" by simp
  then have "t \<in> set (map order_id (google_play_transactions s))" by auto
  then show ?thesis
    using assms by (auto simp: insert_google_def lookup_google_def)
qed

lemma lookup_apple_upsert_other:
  assumes "transaction_id row \<noteq> t"
  shows "lookup_apple t (upsert_apple row s) = lookup_apple t s"
proof -
  have "filter (\<lambda>x. transaction_id x = t)
          (map (\<lambda>r. if transaction_id r = transaction_id row
                     then row\<lparr>quantity := quantity r\<rparr> else r) xs) =
        filter (\<lambda>x. transaction_id x = t) xs"
    for xs :: "apple_iap_transaction list"
    using assms by (induction xs) auto
  then show ?thesis
    using assms by (simp add: upsert_apple_def lookup_apple_def)
qed

lemma single_map: "single (map g xs) = map_option g (single xs)"
  by (simp add: single_def split: list.splits)

lemma lookup_apple_refund:
  "lookup_apple t (mark_refunded x s) =
     map_option (\<lambda>r. if transaction_id r = eq_text x then r\<lparr>validation_status := refunded\<rparr> else r)
       (lookup_apple t s)"
proof -
  let ?g = "\<lambda>r. if transaction_id r = eq_text x then r\<lparr>validation_status := refunded\<rparr> else r"
  have fm: "filter (\<lambda>r. transaction_id r = t) (map ?g xs) =
        map ?g (filter (\<lambda>r. transaction_id r = t) xs)"
    for xs :: "apple_iap_transaction list"
    by (induction xs) auto
  have "lookup_apple t (mark_refunded x s) =
      single (filter (\<lambda>r. transaction_id r = t) (map ?g (apple_iap_transactions s)))"
    by (simp add: lookup_apple_def mark_refunded_def)
  also have "\<dots> = single (map ?g (filter (\<lambda>r. transaction_id r = t) (apple_iap_transactions s)))"
    by (simp only: fm)
  also have "\<dots> = map_option ?g (lookup_apple t s)"
    by (simp only: single_map lookup_apple_def)
  finally show ?thesis .
qed

lemma rejected_frames [simp]:
  "apple_rejected t (update_profile u f s) = apple_rejected t s"
  "google_rejected t (update_profile u f s) = google_rejected t s"
  "google_rejected t (insert_apple row s) = google_rejected t s"
  "google_rejected t (upsert_apple row s) = google_rejected t s"
  "google_rejected t (mark_refunded x s) = google_rejected t s"
  "apple_rejected t (insert_google grow s) = apple_rejected t s"
  by (simp_all add: apple_rejected_def google_rejected_def)

lemma rejected_insert:
  "apple_rejected t s \<Longrightarrow> apple_rejected t (insert_apple row s)"
  "google_rejected t s \<Longrightarrow> google_rejected t (insert_google grow s)"
  by (auto simp: apple_rejected_def google_rejected_def lookup_apple_insert lookup_google_insert
      split: option.splits)

lemma rejected_upsert:
  assumes "apple_rejected t s'" and "\<not> apple_rejected (transaction_id row) s"
    and "apple_rejected t s"
  shows "apple_rejected t (upsert_apple row s')"
proof -
  from assms(2,3) have "transaction_id row \<noteq> t" by auto
  with assms(1) show ?thesis by (simp add: apple_rejected_def lookup_apple_upsert_other)
qed

lemma rejected_refund:
  "apple_rejected t s \<Longrightarrow> apple_rejected t (mark_refunded x s)"
  by (auto simp: apple_rejected_def lookup_apple_refund split: option.splits)

lemma step_rejected:
  "apple_rejected t s \<Longrightarrow> apple_rejected t (step e s)"
  "google_rejected t s \<Longrightarrow> google_rejected t (step e s)"
proof -
  assume a: "apple_rejected t s"
  show "apple_rejected t (step e s)"
  proof (cases e)
    case (AppleCredits w req)
    with a show ?thesis
      by (auto intro!: apple_credits_preserves [of "apple_rejected t"] rejected_insert)
  next
    case (GoogleCredits w req)
    with a show ?thesis
      by (auto intro!: google_credits_preserves [of "apple_rejected t"])
  next
    case (AppleSubscription w req)
    with a show ?thesis
      by (auto intro!: apple_subscription_preserves [of "apple_rejected t"] rejected_insert
          rejected_upsert)
  next
    case (AppleSubscriptionSimple w req)
    with a show ?thesis
      by (auto intro!: apple_subscription_simple_preserves [of "apple_rejected t"] rejected_insert)
  next
    case (Webhook w req)
    with a show ?thesis
      by (auto intro!: webhook_preserves [of "apple_rejected t"] rejected_insert rejected_refund)
  qed
next
  assume g: "google_rejected t s"
  show "google_rejected t (step e s)"
  proof (cases e)
    case (AppleCredits w req)
    with g show ?thesis
      by (auto intro!: apple_credits_preserves [of "google_rejected t"])
  next
    case (GoogleCredits w req)
    with g show ?thesis
      by (auto intro!: google_credits_preserves [of "google_rejected t"] rejected_insert)
  next
    case (AppleSubscription w req)
    with g show ?thesis
      by (auto intro!: apple_subscription_preserves [of "google_rejected t"])
  next
    case (AppleSubscriptionSimple w req)
    with g show ?thesis
      by (auto intro!: apple_subscription_simple_preserves [of "google_rejected t"])
  next
    case (Webhook w req)
    with g show ?thesis
      by (auto intro!: webhook_preserves [of "google_rejected t"])
  qed
qed

lemma run_rejected:
  "apple_rejected t s \<Longrightarrow> apple_rejected t (run es s)"
  "google_rejected t s \<Longrightarrow> google_rejected t (run es s)"
  by (induction es arbitrary: s) (simp_all add: step_rejected)

lemma rejected_resubmission:
  assumes "apple_rejected tid s" and "http_method req \<noteq> ''OPTIONS''"
    and "apple_request s req = Inr (user, rd, pid, tid)"
  shows "apple_iap_process_credits w req s = throw PreviouslyRejected s []"
    and "apple_iap_process_subscription w req s = throw PreviouslyRejected s []"
    and "apple_iap_process_subscription_simple w req s = throw PreviouslyRejected s []"
  using assms
  by (auto simp: apple_rejected_def apple_iap_process_credits_def
      apple_iap_process_subscription_def apple_iap_process_subscription_simple_def
      split: option.splits)

lemma rejected_resubmission_google:
  assumes "google_rejected oid s" and "http_method req \<noteq> ''OPTIONS''"
    and "google_request s req = Inr (user, tok, pid, oid)"
  shows "google_iap_process_credits w req s = throw PreviouslyRejected s []"
  using assms
  by (auto simp: google_rejected_def google_iap_process_credits_def split: option.splits)

text \<open>
  Claim C4 (rejection permanence). Let a ledger hold a row for an identifier that is
  marked invalid or refunded. Then after any sequence of requests to the purchase
  endpoints and of notifications to the webhook, whatever the platforms answer, the
  row still is marked invalid or refunded, and every request that submits the
  identifier again is answered with the error \<open>PreviouslyRejected\<close> and leaves the store
  as it was. This holds for the three Apple endpoints and for the Google endpoint.
\<close>

theorem rejection_is_permanent:
  "(apple_rejected tid s
    \<longrightarrow> apple_rejected tid (run es s)
        \<and> (http_method req \<noteq> ''OPTIONS''
             \<and> apple_request (run es s) req = Inr (user, rd, pid, tid)
           \<longrightarrow> apple_iap_process_credits w req (run es s) =
                 throw PreviouslyRejected (run es s) []
               \<and> apple_iap_process_subscription w req (run es s) =
                 throw PreviouslyRejected (run es s) []
               \<and> apple_iap_process_subscription_simple w req (run es s) =
                 throw PreviouslyRejected (run es s) []))
   \<and> (google_rejected oid s
    \<longrightarrow> google_rejected oid (run es s)
        \<and> (http_method req \<noteq> ''OPTIONS''
             \<and> google_request (run es s) req = Inr (user, tok, pid, oid)
           \<longrightarrow> google_iap_process_credits w req (run es s) =
                 throw PreviouslyRejected (run es s) []))"
  using run_rejected [of tid s es] run_rejected [of oid s es]
    rejected_resubmission [of tid "run es s" req user rd pid w]
    rejected_resubmission_google [of oid "run es s" req user tok pid w]
  by blast

lemma mark_refunded_frame [simp]:
  "users (mark_refunded t s) = users s"
  "profiles (mark_refunded t s) = profiles s"
  "google_play_transactions (mark_refunded t s) = google_play_transactions s"
  by (simp_all add: mark_refunded_def)

lemma step_users: "users (step e s) = users s"
proof (cases e)
  case (AppleCredits w req)
  then show ?thesis
    by (auto intro!: apple_credits_preserves [of "\<lambda>s'. users s' = users s"])
next
  case (GoogleCredits w req)
  then show ?thesis
    by (auto intro!: google_credits_preserves [of "\<lambda>s'. users s' = users s"])
next
  case (AppleSubscription w req)
  then show ?thesis
    by (auto intro!: apple_subscription_preserves [of "\<lambda>s'. users s' = users s"])
next
  case (AppleSubscriptionSimple w req)
  then show ?thesis
    by (auto intro!: apple_subscription_simple_preserves [of "\<lambda>s'. users s' = users s"])
next
  case (Webhook w req)
  then show ?thesis
    by (auto intro!: webhook_preserves [of "\<lambda>s'. users s' = users s"])
qed

lemma run_users: "users (run es s) = users s"
  by (induction es arbitrary: s) (simp_all add: step_users)

lemma rejected_store_sel [simp]:
  "users rejected_store = users example_store"
  "apple_rejected ''T1'' rejected_store"
  "google_rejected ''T1'' rejected_store"
  by (simp_all add: rejected_store_def apple_rejected_def google_rejected_def lookup_apple_def
      lookup_google_def single_def apple_invalid_row_def google_invalid_row_def)

text \<open>
  The theorem for a rejected \<open>T1\<close> that is submitted again twice while Apple and Google
  would now verify it.
\<close>

theorem rejection_is_permanent_witness:
  "apple_rejected ''T1'' rejected_store \<and> google_rejected ''T1'' rejected_store
   \<and> apple_iap_process_credits single_credit_world (post ''a'' ''single_credit'' ''T1'')
        (run [AppleCredits single_credit_world (post ''a'' ''single_credit'' ''T1''),
              GoogleCredits single_credit_world (post ''a'' ''single_credit'' ''T1'')]
           rejected_store) =
      throw PreviouslyRejected
        (run [AppleCredits single_credit_world (post ''a'' ''single_credit'' ''T1''),
              GoogleCredits single_credit_world (post ''a'' ''single_credit'' ''T1'')]
           rejected_store) []
   \<and> google_iap_process_credits single_credit_world (post ''a'' ''single_credit'' ''T1'')
        (run [AppleCredits single_credit_world (post ''a'' ''single_credit'' ''T1''),
              GoogleCredits single_credit_world (post ''a'' ''single_credit'' ''T1'')]
           rejected_store) =
      throw PreviouslyRejected
        (run [AppleCredits single_credit_world (post ''a'' ''single_credit'' ''T1''),
              GoogleCredits single_credit_world (post ''a'' ''single_credit'' ''T1'')]
           rejected_store) []"
proof -
  let ?req = "post ''a'' ''single_credit'' ''T1''"
  let ?es = "[AppleCredits single_credit_world ?req, GoogleCredits single_credit_world ?req]"
  have u: "users (run ?es rejected_store) ''a'' = Some ''alice''"
    by (simp only: run_users rejected_store_sel example_store_sel)
  have a: "http_method ?req \<noteq> ''OPTIONS''
      \<and> apple_request (run ?es rejected_store) ?req = Inr (''alice'', ''R'', ''single_credit'', ''T1'')"
    using u by (simp add: post_apple_request)
  have g: "http_method ?req \<noteq> ''OPTIONS''
      \<and> google_request (run ?es rejected_store) ?req = Inr (''alice'', ''P'', ''single_credit'', ''T1'')"
    using u by (simp add: post_google_request)
  have r: "apple_rejected ''T1'' rejected_store" "google_rejected ''T1'' rejected_store"
    by simp_all
  from rejection_is_permanent [of "''T1''" rejected_store ?es ?req "''alice''" "''R''"
      "''single_credit''" single_credit_world "''T1''" "''P''"] r a g
  show ?thesis by blast
qed

section \<open>A purchase credited twice\<close>

lemma parse_examples [simp]:
  "parseInt ''2147483648'' = Some 2147483648"
  "parseInt ''8640000000000001'' = Some 8640000000000001"
  by (simp_all add: parseInt_def is_space_def digit_of_def)



lemma failing_worlds_sel [simp]:
  "update_error overflow_world = None" "now overflow_world = 5000"
  "update_error undatable_world = None" "now undatable_world = 5000"
  by (simp_all add: overflow_world_def undatable_world_def)




end
